theory Spec2Isabelle
  imports Complex_Main
begin

section \<open>Values of the host language\<close>

text \<open>
  The package is TypeScript. Its functions read the process environment, call three
  built-ins of the language (\<^verbatim>\<open>parseFloat\<close>, \<^verbatim>\<open>JSON.parse\<close>,
  \<^verbatim>\<open>String.prototype.toLowerCase\<close>) and build plain objects.

  A \<^verbatim>\<open>number\<close> is an IEEE double. No function of the package does arithmetic on one:
  numbers are only produced by \<^verbatim>\<open>parseFloat\<close>, tested with \<^verbatim>\<open>isNaN\<close> or for
  truthiness, and stored. The model therefore keeps the classes of values that these tests
  tell apart: NaN, the two infinities, and the finite values as rationals (every finite
  double is one; the two zeros are one value, as they are under \<^verbatim>\<open>===\<close>).
\<close>

datatype number = NaN | Infinity | NegInfinity | Num rat

definition isNaN :: "number \<Rightarrow> bool" where
  "isNaN n = (n = NaN)"

text \<open>Truthiness of a number, as \<^verbatim>\<open>||\<close> tests it: false for zero and for NaN.\<close>

definition truthy :: "number \<Rightarrow> bool" where
  "truthy n = (n \<noteq> NaN \<and> n \<noteq> Num 0)"

subsection \<open>Reading a property\<close>

text \<open>
  \<^verbatim>\<open>process.env[key]\<close> and \<^verbatim>\<open>prices[key]\<close> are property reads, and the package
  tests nowhere whether the property is the object's own. A read of a name that the
  object does not have goes on to the prototype, so for the twelve names that every
  object inherits from \<^verbatim>\<open>Object.prototype\<close> it does not yield \<^verbatim>\<open>undefined\<close> but the
  inherited value: a built-in function, or for \<^verbatim>\<open>__proto__\<close> the prototype object.
  The environment and the price table are taken to be objects with that standard
  prototype, and \<^verbatim>\<open>Object.prototype\<close> to be as the language defines it.

  A read yields \<open>None\<close> for \<^verbatim>\<open>undefined\<close>, \<open>Value v\<close> for the object's own value and
  \<open>Inherited name\<close> for the value inherited under \<open>name\<close>.
\<close>

definition object_prototype_names :: "string list" where
  "object_prototype_names =
     [''constructor'', ''__defineGetter__'', ''__defineSetter__'', ''hasOwnProperty'',
      ''__lookupGetter__'', ''__lookupSetter__'', ''isPrototypeOf'',
      ''propertyIsEnumerable'', ''toString'', ''valueOf'', ''__proto__'',
      ''toLocaleString'']"

datatype 'a read = Value 'a | Inherited string

definition get_property :: "(string \<rightharpoonup> 'a) \<Rightarrow> string \<Rightarrow> 'a read option" where
  "get_property obj name =
     (case obj name of
        Some v \<Rightarrow> Some (Value v)
      | None \<Rightarrow> if name \<in> set object_prototype_names then Some (Inherited name) else None)"

subsection \<open>Values and objects\<close>

text \<open>
  \<^verbatim>\<open>new Error(message)\<close> is what the package throws itself. A TypeError is what the
  language throws when a value that is not a string is asked for its
  \<^verbatim>\<open>toLowerCase\<close> method, and when strict code, as the compiled package is, assigns
  to a property that is read-only.
\<close>

datatype error = Error string | TypeError

text \<open>
  A resolved configuration value has type \<^verbatim>\<open>unknown\<close>: \<^verbatim>\<open>undefined\<close>, a string, a
  number, a boolean, a value inherited from \<^verbatim>\<open>Object.prototype\<close> (\<open>Builtin name\<close>), or
  whatever else \<^verbatim>\<open>JSON.parse\<close> or a transform returns: null, an array or an object of
  plain data, which stays abstract in \<open>'o\<close>.
\<close>

datatype 'o jsvalue =
  Undefined | Str string | Number number | Boolean bool | Builtin string | Object 'o

text \<open>A rule's default has type \<^verbatim>\<open>string | number | boolean\<close>.\<close>

datatype scalar = SStr string | SNum number | SBool bool

fun of_scalar :: "scalar \<Rightarrow> 'o jsvalue" where
  "of_scalar (SStr s) = Str s"
| "of_scalar (SNum n) = Number n"
| "of_scalar (SBool b) = Boolean b"

text \<open>The value read from the environment, as a value to store.\<close>

fun of_read :: "string read \<Rightarrow> 'o jsvalue" where
  "of_read (Value s) = Str s"
| "of_read (Inherited name) = Builtin name"

text \<open>
  What the setter of \<^verbatim>\<open>__proto__\<close> accepts: an object (a function is one) or null.
  A primitive is ignored.
\<close>

fun is_object :: "'o jsvalue \<Rightarrow> bool" where
  "is_object (Object o') = True"
| "is_object (Builtin name) = True"
| "is_object v = False"

text \<open>
  The objects that the package builds start as \<^verbatim>\<open>{}\<close> and are filled by assignments
  \<^verbatim>\<open>result[name] = v\<close>. Such an object is its own properties and, once an assignment
  has replaced it, its prototype (\<open>None\<close>: still \<^verbatim>\<open>Object.prototype\<close>).
  An assignment under any name but \<^verbatim>\<open>__proto__\<close> creates or overwrites an own
  property, unless the prototype chain refuses it (see below).
  An assignment under \<^verbatim>\<open>__proto__\<close> runs the setter inherited from
  \<^verbatim>\<open>Object.prototype\<close>: it makes an object or null the new prototype, ignores any
  other value, and creates no property. The setter is there whenever the package assigns
  under that name: \<^verbatim>\<open>createConfig\<close> does so at most once, the keys of a schema
  being distinct, and \<^verbatim>\<open>createRouteMapping\<close> only ever makes a new object literal
  the prototype, which inherits the setter in turn.
\<close>

record 'v js_object =
  props :: "string \<rightharpoonup> 'v"
  proto :: "'v option"

definition empty_object :: "'v js_object" where
  "empty_object = \<lparr>props = Map.empty, proto = None\<rparr>"

definition assign :: "('v \<Rightarrow> bool) \<Rightarrow> 'v js_object \<Rightarrow> string \<Rightarrow> 'v \<Rightarrow> 'v js_object" where
  "assign is_obj obj name v =
     (if name = ''__proto__''
      then (if is_obj v then obj\<lparr>proto := Some v\<rparr> else obj)
      else obj\<lparr>props := (props obj)(name \<mapsto> v)\<rparr>)"

text \<open>
  An assignment looks the name up along the prototype chain first. Once a function
  inherited from \<^verbatim>\<open>Object.prototype\<close> has become the prototype, the chain holds
  the function's own \<^verbatim>\<open>length\<close> and \<^verbatim>\<open>name\<close>, which are read-only (and
  \<^verbatim>\<open>prototype\<close> for the constructor \<^verbatim>\<open>Object\<close>), and the accessors
  \<^verbatim>\<open>arguments\<close> and \<^verbatim>\<open>caller\<close> of \<^verbatim>\<open>Function.prototype\<close>, whose setter
  throws: an assignment under one of these names throws a TypeError. The value inherited
  under \<^verbatim>\<open>__proto__\<close> is \<^verbatim>\<open>Object.prototype\<close> itself, which refuses nothing.
  Data (an \<open>Object\<close>) as the prototype refuses nothing either: null, arrays and
  objects as \<^verbatim>\<open>JSON.parse\<close> returns them have writable data properties only, and
  an object that a transform returns is taken to be of this kind.
\<close>

definition read_only_names :: "string \<Rightarrow> string list" where
  "read_only_names f =
     (if f = ''__proto__'' then []
      else [''length'', ''name'', ''arguments'', ''caller'']
           @ (if f = ''constructor'' then [''prototype''] else []))"

definition refuses :: "'o jsvalue js_object \<Rightarrow> string \<Rightarrow> bool" where
  "refuses obj name =
     (case proto obj of
        Some (Builtin f) \<Rightarrow> name \<in> set (read_only_names f)
      | _ \<Rightarrow> False)"

text \<open>\<^verbatim>\<open>result[name] = v\<close> in \<^verbatim>\<open>createConfig\<close>.\<close>

definition set_property ::
  "'o jsvalue js_object \<Rightarrow> string \<Rightarrow> 'o jsvalue \<Rightarrow> error + 'o jsvalue js_object" where
  "set_property obj name v =
     (if refuses obj name then Inl TypeError else Inr (assign is_object obj name v))"

subsection \<open>Built-ins\<close>

text \<open>
  The two parsing built-ins are parameters of the model: every theorem below holds for
  each way the host may parse a string. \<open>parseFloat\<close> returns \<open>NaN\<close> where the host
  does; \<open>JSON_parse\<close> returns \<open>None\<close> where the host throws a SyntaxError.
\<close>

record 'o host =
  parseFloat :: "string \<Rightarrow> number"
  JSON_parse :: "string \<Rightarrow> 'o jsvalue option"

text \<open>
  Both built-ins convert their argument to a string first. An inherited value converts
  to \<^verbatim>\<open>function toString() { [native code] }\<close> and the like, or to
  \<^verbatim>\<open>[object Object]\<close>: neither starts a decimal literal, neither is a JSON text.
\<close>

fun parseFloat_of :: "'o host \<Rightarrow> string read \<Rightarrow> number" where
  "parseFloat_of h (Value s) = parseFloat h s"
| "parseFloat_of h (Inherited name) = NaN"

fun JSON_parse_of :: "'o host \<Rightarrow> string read \<Rightarrow> 'o jsvalue option" where
  "JSON_parse_of h (Value s) = JSON_parse h s"
| "JSON_parse_of h (Inherited name) = None"

text \<open>
  \<^verbatim>\<open>toLowerCase\<close> on a string of 8-bit characters read as the code points U+0000 to
  U+00FF: the letters A to Z, and the upper-case letters of the Latin-1 block (U+00C0
  to U+00DE without the multiplication sign U+00D7), move up by 32.
\<close>

definition toLowerCase_char :: "char \<Rightarrow> char" where
  "toLowerCase_char c =
     (let n = (of_char c :: nat) in
      if (65 \<le> n \<and> n \<le> 90) \<or> (192 \<le> n \<and> n \<le> 222 \<and> n \<noteq> 215)
      then char_of (n + 32) else c)"

definition toLowerCase :: "string \<Rightarrow> string" where
  "toLowerCase s = map toLowerCase_char s"

text \<open>
  \<^verbatim>\<open>value.toLowerCase() === "true" || value === "1"\<close> for a value read from the
  environment. The method call comes first; an inherited value has no such method.
\<close>

fun is_true :: "string read \<Rightarrow> error + bool" where
  "is_true (Value s) = Inr (toLowerCase s = ''true'' \<or> s = ''1'')"
| "is_true (Inherited name) = Inl TypeError"

text \<open>\<^verbatim>\<open>process.env\<close>: the variables that are set, each bound to a string.\<close>

type_synonym environment = "string \<rightharpoonup> string"

section \<open>Environment accessors\<close>

text \<open>\<^verbatim>\<open>return process.env[key] ?? defaultValue;\<close>\<close>

definition getEnv :: "environment \<Rightarrow> string \<Rightarrow> string option \<Rightarrow> string read option" where
  "getEnv env key defaultValue =
     (case get_property env key of
        Some value \<Rightarrow> Some value
      | None \<Rightarrow> (case defaultValue of Some d \<Rightarrow> Some (Value d) | None \<Rightarrow> None))"

definition getRequiredEnv :: "environment \<Rightarrow> string \<Rightarrow> error + string read" where
  "getRequiredEnv env key =
     (let missing = Inl (Error (''Required environment variable '' @ key @ '' is not set''))
      in case get_property env key of
           None \<Rightarrow> missing
         | Some value \<Rightarrow> if value = Value '''' then missing else Inr value)"

definition getEnvBoolean :: "environment \<Rightarrow> string \<Rightarrow> bool option \<Rightarrow> error + bool option" where
  "getEnvBoolean env key defaultValue =
     (case get_property env key of
        None \<Rightarrow> Inr defaultValue
      | Some value \<Rightarrow> (case is_true value of Inl e \<Rightarrow> Inl e | Inr b \<Rightarrow> Inr (Some b)))"

section \<open>Configuration builder\<close>

text \<open>
  The interfaces \<^verbatim>\<open>EnvVarConfig\<close> and \<^verbatim>\<open>EnvConfig\<close>. An optional field is an
  \<open>option\<close>, \<open>None\<close> when the property is not there. \<open>vars\<close> is the object's entries in
  the order \<^verbatim>\<open>Object.entries\<close> lists them; an object has each key once, so the keys of
  a schema are distinct.

  A validator and a transform are functions of the caller. They are called with the value
  read from the environment, and they return a value or throw (\<open>Inl\<close>); nothing stops
  what they throw.
\<close>

datatype var_type = T_string | T_number | T_boolean | T_json

record 'o EnvVarConfig =
  required :: "bool option"
  default_value :: "scalar option"
  type :: "var_type option"
  validator :: "(string read \<Rightarrow> error + bool) option"
  transform :: "(string read \<Rightarrow> error + 'o jsvalue) option"

record 'o EnvConfig =
  vars :: "(string \<times> 'o EnvVarConfig) list"
  prefix :: "string option"
  strict :: "bool option"

text \<open>
  \<^verbatim>\<open>const prefix = config.prefix ? `${config.prefix}_` : "";\<close>
  The empty string is falsy, so an empty prefix is no prefix.
\<close>

definition env_prefix :: "'o EnvConfig \<Rightarrow> string" where
  "env_prefix config =
     (case prefix config of
        None \<Rightarrow> ''''
      | Some p \<Rightarrow> if p = '''' then '''' else p @ ''_'')"

text \<open>
  The body of the loop of \<^verbatim>\<open>createConfig\<close> for one entry \<^verbatim>\<open>[key, varConfig]\<close>: it
  throws (\<open>Inl\<close>) or assigns one value to \<^verbatim>\<open>result[key]\<close>. For the type
  \<^verbatim>\<open>json\<close> the assignment stands inside the \<^verbatim>\<open>try\<close> with the call of
  \<^verbatim>\<open>JSON.parse\<close>, so whatever either of them throws is replaced by the error of
  the \<^verbatim>\<open>catch\<close>.
\<close>

definition createConfig_body ::
  "'o host \<Rightarrow> environment \<Rightarrow> 'o EnvConfig \<Rightarrow> string \<Rightarrow> string \<Rightarrow> 'o EnvVarConfig
    \<Rightarrow> 'o jsvalue js_object \<Rightarrow> error + 'o jsvalue js_object" where
  "createConfig_body h env config pfx key varConfig result =
     (let envKey = pfx @ key;
          missing =
            (if required varConfig = Some True \<and> strict config \<noteq> Some False
             then Inl (Error (''Required environment variable '' @ envKey @ '' is not set''))
             else case default_value varConfig of
                    Some d \<Rightarrow> set_property result key (of_scalar d)
                  | None \<Rightarrow> set_property result key Undefined)
      in case get_property env envKey of
           None \<Rightarrow> missing
         | Some rawValue \<Rightarrow>
             if rawValue = Value '''' then missing
             else
               (case (case validator varConfig of
                        Some accepts \<Rightarrow> accepts rawValue | None \<Rightarrow> Inr True) of
                  Inl e \<Rightarrow> Inl e
                | Inr ok \<Rightarrow>
                    if \<not> ok
                    then Inl (Error (''Invalid value for environment variable '' @ envKey))
                    else
                      (case transform varConfig of
                         Some f \<Rightarrow>
                           (case f rawValue of
                              Inl e \<Rightarrow> Inl e
                            | Inr v \<Rightarrow> set_property result key v)
                       | None \<Rightarrow>
                          (case type varConfig of
                             Some T_number \<Rightarrow>
                               (let num = parseFloat_of h rawValue
                                in if isNaN num
                                   then Inl (Error (''Invalid number for environment variable ''
                                                      @ envKey))
                                   else set_property result key (Number num))
                           | Some T_boolean \<Rightarrow>
                               (case is_true rawValue of
                                  Inl e \<Rightarrow> Inl e
                                | Inr b \<Rightarrow> set_property result key (Boolean b))
                           | Some T_json \<Rightarrow>
                               (case JSON_parse_of h rawValue of
                                  Some v \<Rightarrow>
                                    (case set_property result key v of
                                       Inl e \<Rightarrow>
                                         Inl (Error (''Invalid JSON for environment variable ''
                                                       @ envKey))
                                     | Inr result' \<Rightarrow> Inr result')
                                | None \<Rightarrow>
                                    Inl (Error (''Invalid JSON for environment variable ''
                                                  @ envKey)))
                           | _ \<Rightarrow> set_property result key (of_read rawValue)))))"

text \<open>The loop over the entries: the first throw ends it.\<close>

fun createConfig_loop ::
  "'o host \<Rightarrow> environment \<Rightarrow> 'o EnvConfig \<Rightarrow> string \<Rightarrow> (string \<times> 'o EnvVarConfig) list
    \<Rightarrow> 'o jsvalue js_object \<Rightarrow> error + 'o jsvalue js_object" where
  "createConfig_loop h env config pfx [] result = Inr result"
| "createConfig_loop h env config pfx ((key, varConfig) # rest) result =
     (case createConfig_body h env config pfx key varConfig result of
        Inl e \<Rightarrow> Inl e
      | Inr result' \<Rightarrow> createConfig_loop h env config pfx rest result')"

definition createConfig ::
  "'o host \<Rightarrow> environment \<Rightarrow> 'o EnvConfig \<Rightarrow> error + 'o jsvalue js_object" where
  "createConfig h env config =
     createConfig_loop h env config (env_prefix config) (vars config) empty_object"

section \<open>Configuration validator\<close>

record ConfigValidationResult =
  valid :: bool
  errors :: "string list"
  warnings :: "string list"

text \<open>
  The body of the loop of \<^verbatim>\<open>validateConfig\<close> for one entry: it pushes onto the two
  arrays, passed in and returned as a pair (errors, warnings). The three checks of a value
  that is there are three separate \<^verbatim>\<open>if\<close> statements, all of them run. The call of
  the validator is in no \<^verbatim>\<open>try\<close>, so what it throws leaves \<^verbatim>\<open>validateConfig\<close>.
\<close>

definition validateConfig_body ::
  "'o host \<Rightarrow> environment \<Rightarrow> string \<Rightarrow> string \<Rightarrow> 'o EnvVarConfig
    \<Rightarrow> string list \<times> string list \<Rightarrow> error + string list \<times> string list" where
  "validateConfig_body h env pfx key varConfig acc =
     (let envKey = pfx @ key;
          errs = fst acc;
          warns = snd acc;
          missing =
            (if required varConfig = Some True
             then Inr (errs @ [''Missing required: '' @ envKey], warns)
             else if default_value varConfig = None
             then Inr (errs, warns @ [''Optional not set: '' @ envKey])
             else Inr (errs, warns))
      in case get_property env envKey of
           None \<Rightarrow> missing
         | Some rawValue \<Rightarrow>
             if rawValue = Value '''' then missing
             else
               (case (case validator varConfig of
                        Some accepts \<Rightarrow> accepts rawValue | None \<Rightarrow> Inr True) of
                  Inl e \<Rightarrow> Inl e
                | Inr ok \<Rightarrow>
                   (let errs1 = (if \<not> ok then errs @ [''Invalid value: '' @ envKey] else errs);
                        errs2 =
                          (if type varConfig = Some T_number \<and> isNaN (parseFloat_of h rawValue)
                           then errs1 @ [''Invalid number: '' @ envKey] else errs1);
                        errs3 =
                          (if type varConfig = Some T_json
                           then (case JSON_parse_of h rawValue of
                                   Some v \<Rightarrow> errs2
                                 | None \<Rightarrow> errs2 @ [''Invalid JSON: '' @ envKey])
                           else errs2)
                    in Inr (errs3, warns))))"

fun validateConfig_loop ::
  "'o host \<Rightarrow> environment \<Rightarrow> string \<Rightarrow> (string \<times> 'o EnvVarConfig) list
    \<Rightarrow> string list \<times> string list \<Rightarrow> error + string list \<times> string list" where
  "validateConfig_loop h env pfx [] acc = Inr acc"
| "validateConfig_loop h env pfx ((key, varConfig) # rest) acc =
     (case validateConfig_body h env pfx key varConfig acc of
        Inl e \<Rightarrow> Inl e
      | Inr acc' \<Rightarrow> validateConfig_loop h env pfx rest acc')"

definition validateConfig ::
  "'o host \<Rightarrow> environment \<Rightarrow> 'o EnvConfig \<Rightarrow> error + ConfigValidationResult" where
  "validateConfig h env config =
     (case validateConfig_loop h env (env_prefix config) (vars config) ([], []) of
        Inl e \<Rightarrow> Inl e
      | Inr acc \<Rightarrow>
          Inr \<lparr>valid = (length (fst acc) = 0), errors = fst acc, warnings = snd acc\<rparr>)"

section \<open>Route configuration\<close>

text \<open>
  \<^verbatim>\<open>PriceConfig\<close> maps a key to a number. A route of the input array has a path, a price
  key and an optional description; \<^verbatim>\<open>RouteConfig\<close> is what the mapping holds. Its price
  is typed as a number, but it is whatever the read of the price table yields.
\<close>

type_synonym PriceConfig = "string \<rightharpoonup> number"

record Route =
  route_path :: string
  priceKey :: string
  route_description :: "string option"

record RouteConfig =
  path :: string
  price :: "number read"
  description :: "string option"
  rateLimit :: "number option"

text \<open>
  \<^verbatim>\<open>prices[route.priceKey] || 0\<close>: the right operand is taken when the left one is
  \<^verbatim>\<open>undefined\<close> or a falsy number. An inherited value is an object, which is truthy.
\<close>

definition price_or_zero :: "PriceConfig \<Rightarrow> string \<Rightarrow> number read" where
  "price_or_zero prices k =
     (case get_property prices k of
        None \<Rightarrow> Value (Num 0)
      | Some (Value p) \<Rightarrow> if truthy p then Value p else Value (Num 0)
      | Some (Inherited name) \<Rightarrow> Inherited name)"

text \<open>
  \<^verbatim>\<open>result[route.path] = { path, price, description }\<close>: the value assigned is always
  an object, so under the path \<^verbatim>\<open>__proto__\<close> it becomes the prototype of the result.
\<close>

fun createRouteMapping_loop ::
  "Route list \<Rightarrow> PriceConfig \<Rightarrow> RouteConfig js_object \<Rightarrow> RouteConfig js_object" where
  "createRouteMapping_loop [] prices result = result"
| "createRouteMapping_loop (route # rest) prices result =
     createRouteMapping_loop rest prices
       (assign (\<lambda>v. True) result (route_path route)
          \<lparr>path = route_path route,
           price = price_or_zero prices (priceKey route),
           description = route_description route,
           rateLimit = None\<rparr>)"

definition createRouteMapping :: "Route list \<Rightarrow> PriceConfig \<Rightarrow> RouteConfig js_object" where
  "createRouteMapping routes prices = createRouteMapping_loop routes prices empty_object"

section \<open>A host for the examples\<close>

text \<open>
  The examples below run on a concrete host. Its \<^verbatim>\<open>parseFloat\<close> follows the language
  standard: leading white space is dropped, then the longest prefix that is a decimal
  literal (a sign, then \<^verbatim>\<open>Infinity\<close> or digits with an optional fraction and an
  optional exponent) gives the value, and there is no such prefix exactly when the result
  is NaN. The value is the literal's exact one: rounding to the nearest double is not
  modelled, and nothing below depends on it.
\<close>

definition isWhiteSpace :: "char \<Rightarrow> bool" where
  "isWhiteSpace c = ((of_char c :: nat) \<in> {9, 10, 11, 12, 13, 32, 160})"

definition isDigit :: "char \<Rightarrow> bool" where
  "isDigit c = (48 \<le> (of_char c :: nat) \<and> (of_char c :: nat) \<le> 57)"

definition digits_value :: "string \<Rightarrow> nat" where
  "digits_value ds = foldl (\<lambda>a c. 10 * a + (of_char c - 48)) 0 ds"

definition scale10 :: "rat \<Rightarrow> int \<Rightarrow> rat" where
  "scale10 m e = (if 0 \<le> e then m * 10 ^ nat e else m / 10 ^ nat (- e))"

text \<open>
  The exponent at the head of a string, 0 when there is none: an \<^verbatim>\<open>e\<close> that no digit
  follows is not part of the literal.
\<close>

definition exponent_part :: "string \<Rightarrow> int" where
  "exponent_part s =
     (case s of
        [] \<Rightarrow> 0
      | c # r \<Rightarrow>
          if c \<noteq> CHR ''e'' \<and> c \<noteq> CHR ''E'' then 0
          else (case r of
                  [] \<Rightarrow> 0
                | d # r' \<Rightarrow>
                    if d = CHR ''+'' then int (digits_value (takeWhile isDigit r'))
                    else if d = CHR ''-'' then - int (digits_value (takeWhile isDigit r'))
                    else int (digits_value (takeWhile isDigit r))))"

definition unsigned_literal :: "string \<Rightarrow> number" where
  "unsigned_literal s =
     (if take 8 s = ''Infinity'' then Infinity
      else
        (let ip = takeWhile isDigit s; r = dropWhile isDigit s
         in case r of
              [] \<Rightarrow> if ip = [] then NaN else Num (of_nat (digits_value ip))
            | c # r' \<Rightarrow>
                if c = CHR ''.'' then
                  (let fp = takeWhile isDigit r'; r'' = dropWhile isDigit r'
                   in if ip = [] \<and> fp = [] then NaN
                      else Num (scale10 (of_nat (digits_value (ip @ fp)) / 10 ^ length fp)
                                  (exponent_part r'')))
                else if ip = [] then NaN
                else Num (scale10 (of_nat (digits_value ip)) (exponent_part r))))"

fun negate :: "number \<Rightarrow> number" where
  "negate NaN = NaN"
| "negate Infinity = NegInfinity"
| "negate NegInfinity = Infinity"
| "negate (Num q) = Num (- q)"

definition ecma_parseFloat :: "string \<Rightarrow> number" where
  "ecma_parseFloat s =
     (case dropWhile isWhiteSpace s of
        [] \<Rightarrow> NaN
      | c # r \<Rightarrow>
          if c = CHR ''+'' then unsigned_literal r
          else if c = CHR ''-'' then negate (unsigned_literal r)
          else unsigned_literal (c # r))"

text \<open>
  \<^verbatim>\<open>JSON.parse\<close> of the example host answers for five documents only, and rejects every
  other text. The examples use it on \<^verbatim>\<open>{}\<close>, which parses, and on \<^verbatim>\<open>{oops\<close>, which
  no JSON parser accepts.
\<close>

datatype json_other = JNull | JEmptyArray | JEmptyObject

definition sample_JSON_parse :: "string \<Rightarrow> json_other jsvalue option" where
  "sample_JSON_parse s =
     (if s = ''null'' then Some (Object JNull)
      else if s = ''true'' then Some (Boolean True)
      else if s = ''false'' then Some (Boolean False)
      else if s = ''[]'' then Some (Object JEmptyArray)
      else if s = ''{}'' then Some (Object JEmptyObject)
      else None)"

definition sample_host :: "json_other host" where
  "sample_host = \<lparr>parseFloat = ecma_parseFloat, JSON_parse = sample_JSON_parse\<rparr>"

section \<open>Schemas and environments of the examples\<close>

text \<open>
  Validators and transforms of the examples.
  \<^verbatim>\<open>(v) => ["mainnet", "testnet"].includes(v)\<close> and
  \<^verbatim>\<open>(v) => ["LOW", "HIGH"].includes(v)\<close> return false on whatever is not one of the
  strings.
  \<^verbatim>\<open>(v) => { if (v !== "mainnet" && v !== "testnet") throw new Error("unknown network"); return true; }\<close>
  throws instead.
  \<^verbatim>\<open>(v) => v.toLowerCase()\<close> throws a TypeError on a value that is not a string.
  \<^verbatim>\<open>(v) => { const n = parseFloat(v); if (isNaN(n)) throw new Error("not a number"); return n; }\<close>
  throws on what is not a number.
  \<^verbatim>\<open>() => Object.prototype.toString\<close> returns a built-in function.
\<close>

fun network_ok :: "string read \<Rightarrow> error + bool" where
  "network_ok (Value v) = Inr (v \<in> set [''mainnet'', ''testnet''])"
| "network_ok (Inherited name) = Inr False"

fun level_ok :: "string read \<Rightarrow> error + bool" where
  "level_ok (Value v) = Inr (v \<in> set [''LOW'', ''HIGH''])"
| "level_ok (Inherited name) = Inr False"

definition known_network :: "string read \<Rightarrow> error + bool" where
  "known_network v =
     (if v \<noteq> Value ''mainnet'' \<and> v \<noteq> Value ''testnet''
      then Inl (Error ''unknown network'') else Inr True)"

fun lower_case :: "string read \<Rightarrow> error + 'o jsvalue" where
  "lower_case (Value v) = Inr (Str (toLowerCase v))"
| "lower_case (Inherited name) = Inl TypeError"

definition strict_number :: "string read \<Rightarrow> error + 'o jsvalue" where
  "strict_number v =
     (let n = parseFloat_of sample_host v
      in if isNaN n then Inl (Error ''not a number'') else Inr (Number n))"

definition builtin_toString :: "string read \<Rightarrow> error + 'o jsvalue" where
  "builtin_toString v = Inr (Builtin ''toString'')"

text \<open>
  A schema after the one of the package's documentation: prefix \<open>APP\<close>, a required
  key, a number and a boolean with defaults, a JSON document and a required key with a
  validator. The
  other schemas are the same one with \<open>strict\<close> switched off, and its optional keys
  together with a rule that has a validator, a transform and the type \<open>number\<close>.
\<close>

definition api_key_rule :: "json_other EnvVarConfig" where
  "api_key_rule = \<lparr>required = Some True, default_value = None, type = Some T_string,
                    validator = None, transform = None\<rparr>"

definition port_rule :: "json_other EnvVarConfig" where
  "port_rule = \<lparr>required = None, default_value = Some (SNum (Num 3000)), type = Some T_number,
                 validator = None, transform = None\<rparr>"

definition debug_rule :: "json_other EnvVarConfig" where
  "debug_rule = \<lparr>required = None, default_value = Some (SBool False), type = Some T_boolean,
                  validator = None, transform = None\<rparr>"

definition settings_rule :: "json_other EnvVarConfig" where
  "settings_rule = \<lparr>required = Some False, default_value = None, type = Some T_json,
                     validator = None, transform = None\<rparr>"

definition network_rule :: "json_other EnvVarConfig" where
  "network_rule = \<lparr>required = Some True, default_value = None, type = None,
                    validator = Some network_ok, transform = None\<rparr>"

definition level_rule :: "json_other EnvVarConfig" where
  "level_rule = \<lparr>required = None, default_value = None, type = Some T_number,
                  validator = Some level_ok, transform = Some lower_case\<rparr>"

definition sample_config :: "json_other EnvConfig" where
  "sample_config =
     \<lparr>vars = [(''API_KEY'', api_key_rule), (''PORT'', port_rule), (''DEBUG'', debug_rule),
              (''SETTINGS'', settings_rule), (''NETWORK'', network_rule)],
      prefix = Some ''APP'', strict = Some True\<rparr>"

definition lenient_config :: "json_other EnvConfig" where
  "lenient_config = sample_config\<lparr>strict := Some False\<rparr>"

definition optional_config :: "json_other EnvConfig" where
  "optional_config =
     \<lparr>vars = [(''PORT'', port_rule), (''DEBUG'', debug_rule), (''SETTINGS'', settings_rule),
              (''LEVEL'', level_rule)],
      prefix = Some ''APP'', strict = None\<rparr>"

definition sample_env :: environment where
  "sample_env = [''APP_API_KEY'' \<mapsto> ''s3cret'', ''APP_PORT'' \<mapsto> ''8080'',
                 ''APP_DEBUG'' \<mapsto> ''TRUE'', ''APP_SETTINGS'' \<mapsto> ''{}'',
                 ''APP_NETWORK'' \<mapsto> ''testnet'', ''APP_LEVEL'' \<mapsto> ''HIGH'']"

definition no_env :: environment where
  "no_env = Map.empty"

definition bad_env :: environment where
  "bad_env = [''APP_API_KEY'' \<mapsto> '''', ''APP_PORT'' \<mapsto> ''abc'',
              ''APP_DEBUG'' \<mapsto> ''yes'', ''APP_SETTINGS'' \<mapsto> ''{oops'',
              ''APP_NETWORK'' \<mapsto> ''devnet'', ''APP_LEVEL'' \<mapsto> ''medium'']"

text \<open>
  One-key schemas without a prefix: a rule with a transform and the type \<open>number\<close>, the
  same with a validator, one whose transform throws, and the rules of the documentation
  under a key that every object inherits.
\<close>

definition ttl_rule :: "json_other EnvVarConfig" where
  "ttl_rule = \<lparr>required = None, default_value = None, type = Some T_number,
                validator = None, transform = Some lower_case\<rparr>"

definition ttl_config :: "json_other EnvConfig" where
  "ttl_config = \<lparr>vars = [(''TTL'', ttl_rule)], prefix = None, strict = None\<rparr>"

definition ttl_env :: environment where
  "ttl_env = [''TTL'' \<mapsto> ''Soon'']"

definition level_config :: "json_other EnvConfig" where
  "level_config = \<lparr>vars = [(''LEVEL'', level_rule)], prefix = None, strict = None\<rparr>"

definition level_env :: environment where
  "level_env = [''LEVEL'' \<mapsto> ''medium'']"

definition retries_rule :: "json_other EnvVarConfig" where
  "retries_rule = \<lparr>required = None, default_value = None, type = Some T_number,
                    validator = None, transform = Some strict_number\<rparr>"

definition retries_config :: "json_other EnvConfig" where
  "retries_config = \<lparr>vars = [(''RETRIES'', retries_rule)], prefix = None, strict = None\<rparr>"

definition retries_env :: environment where
  "retries_env = [''RETRIES'' \<mapsto> ''abc'']"

definition chain_rule :: "json_other EnvVarConfig" where
  "chain_rule = \<lparr>required = Some False, default_value = None, type = None,
                  validator = Some known_network, transform = None\<rparr>"

definition chain_config :: "json_other EnvConfig" where
  "chain_config =
     \<lparr>vars = [(''API_KEY'', api_key_rule), (''CHAIN'', chain_rule)],
      prefix = None, strict = Some False\<rparr>"

definition chain_env :: environment where
  "chain_env = [''CHAIN'' \<mapsto> ''devnet'']"

text \<open>
  A schema whose first key is \<^verbatim>\<open>__proto__\<close>, with a transform that returns a function,
  and whose second key is \<^verbatim>\<open>name\<close>.
\<close>

definition proto_rule :: "json_other EnvVarConfig" where
  "proto_rule = \<lparr>required = None, default_value = None, type = None,
                  validator = None, transform = Some builtin_toString\<rparr>"

definition proto_config :: "json_other EnvConfig" where
  "proto_config =
     \<lparr>vars = [(''__proto__'', proto_rule), (''name'', port_rule)],
      prefix = Some ''APP'', strict = Some False\<rparr>"

definition proto_env :: environment where
  "proto_env = [''APP___proto__'' \<mapsto> ''x'']"

definition sample_routes :: "Route list" where
  "sample_routes =
     [\<lparr>route_path = ''/api/ai/analyze'', priceKey = ''analyze'', route_description = None\<rparr>,
      \<lparr>route_path = ''/api/ai/generate'', priceKey = ''generate'',
        route_description = Some ''Generate images''\<rparr>,
      \<lparr>route_path = ''/api/ai/legacy'', priceKey = ''legacy'', route_description = None\<rparr>]"

definition sample_prices :: PriceConfig where
  "sample_prices = [''analyze'' \<mapsto> Num (1 / 20), ''generate'' \<mapsto> Num (3 / 20)]"

section \<open>Reading and assigning properties\<close>

lemma get_property_None:
  "get_property obj name = None \<longleftrightarrow> obj name = None \<and> name \<notin> set object_prototype_names"
  by (simp add: get_property_def split: option.splits)

lemma get_property_Value:
  "get_property obj name = Some (Value v) \<longleftrightarrow> obj name = Some v"
  by (simp add: get_property_def split: option.splits)

lemma get_property_Inherited:
  "get_property obj name = Some (Inherited n)
   \<longleftrightarrow> obj name = None \<and> name \<in> set object_prototype_names \<and> n = name"
  by (auto simp: get_property_def split: option.splits)

lemma get_property_set: "obj name = Some v \<Longrightarrow> get_property obj name = Some (Value v)"
  by (simp add: get_property_def)

lemma props_assign:
  "props (assign is_obj obj name v) k
     = (if name = k \<and> name \<noteq> ''__proto__'' then Some v else props obj k)"
  by (simp add: assign_def)

lemma proto_assign: "key \<noteq> ''__proto__'' \<Longrightarrow> proto (assign is_obj r key v) = proto r"
  by (simp add: assign_def)

lemma refuses_None: "proto r = None \<Longrightarrow> \<not> refuses r key"
  by (simp add: refuses_def)

lemma set_property_Inr:
  "set_property r key v = Inr r1 \<longleftrightarrow> \<not> refuses r key \<and> r1 = assign is_object r key v"
  by (auto simp: set_property_def)

lemma set_property_ok:
  "\<not> refuses r key \<Longrightarrow> set_property r key v = Inr (assign is_object r key v)"
  by (simp add: set_property_def)

section \<open>Evaluating the examples\<close>

lemma toLowerCase_examples:
  "toLowerCase ''true'' = ''true''" "toLowerCase ''TRUE'' = ''true''"
  "toLowerCase ''1'' = ''1''" "toLowerCase ''false'' = ''false''"
  "toLowerCase ''0'' = ''0''" "toLowerCase ''yes'' = ''yes''"
  by code_simp+

lemmas parse_defs = ecma_parseFloat_def unsigned_literal_def isWhiteSpace_def isDigit_def
  digits_value_def scale10_def exponent_part_def

lemma sample_parses:
  "ecma_parseFloat ''8080'' = Num 8080" "ecma_parseFloat ''abc'' = NaN"
  "ecma_parseFloat ''medium'' = NaN" "ecma_parseFloat ''Soon'' = NaN"
  "ecma_parseFloat ''HIGH'' = NaN"
  by (simp_all add: parse_defs)

lemma sample_lower:
  "toLowerCase ''TRUE'' = ''true''" "toLowerCase ''yes'' = ''yes''"
  "toLowerCase ''Soon'' = ''soon''" "toLowerCase ''HIGH'' = ''high''"
  by code_simp+

lemmas rule_defs = api_key_rule_def port_rule_def debug_rule_def settings_rule_def
  network_rule_def level_rule_def ttl_rule_def retries_rule_def chain_rule_def proto_rule_def

lemmas config_defs = sample_config_def lenient_config_def optional_config_def ttl_config_def
  level_config_def retries_config_def chain_config_def proto_config_def

lemmas env_defs = sample_env_def bad_env_def no_env_def ttl_env_def level_env_def
  retries_env_def chain_env_def proto_env_def

lemmas object_defs = get_property_def object_prototype_names_def set_property_def refuses_def
  read_only_names_def assign_def empty_object_def

lemmas eval_defs = createConfig_def createConfig_body_def validateConfig_def
  validateConfig_body_def rule_defs config_defs env_defs object_defs env_prefix_def
  sample_host_def sample_JSON_parse_def known_network_def strict_number_def
  builtin_toString_def sample_parses sample_lower isNaN_def

lemmas route_defs = createRouteMapping_def price_or_zero_def truthy_def get_property_def
  object_prototype_names_def assign_def empty_object_def

lemma sample_prefix:
  "env_prefix sample_config = ''APP_''" "env_prefix lenient_config = ''APP_''"
  "env_prefix optional_config = ''APP_''" "env_prefix proto_config = ''APP_''"
  "env_prefix ttl_config = ''''" "env_prefix level_config = ''''"
  "env_prefix retries_config = ''''" "env_prefix chain_config = ''''"
  by (simp_all add: env_prefix_def config_defs)

lemma createConfig_sample:
  "createConfig sample_host sample_env sample_config
     = Inr \<lparr>props = [''API_KEY'' \<mapsto> Str ''s3cret'', ''PORT'' \<mapsto> Number (Num 8080),
                    ''DEBUG'' \<mapsto> Boolean True, ''SETTINGS'' \<mapsto> Object JEmptyObject,
                    ''NETWORK'' \<mapsto> Str ''testnet''],
            proto = None\<rparr>"
  by (simp add: eval_defs)

lemma createConfig_lenient_unset:
  "createConfig sample_host no_env lenient_config
     = Inr \<lparr>props = [''API_KEY'' \<mapsto> Undefined, ''PORT'' \<mapsto> Number (Num 3000),
                    ''DEBUG'' \<mapsto> Boolean False, ''SETTINGS'' \<mapsto> Undefined,
                    ''NETWORK'' \<mapsto> Undefined],
            proto = None\<rparr>"
  by (simp add: eval_defs)

lemma createConfig_ttl:
  "createConfig sample_host ttl_env ttl_config
     = Inr \<lparr>props = [''TTL'' \<mapsto> Str ''soon''], proto = None\<rparr>"
  by (simp add: eval_defs)

lemma network_ok_returns: "\<exists>b. network_ok raw = Inr b"
  by (cases raw) auto

lemma level_ok_returns: "\<exists>b. level_ok raw = Inr b"
  by (cases raw) auto

lemma sample_validators_return:
  "\<forall>(key, vc) \<in> set (vars sample_config).
     \<forall>raw f. get_property env (env_prefix sample_config @ key) = Some raw \<and> raw \<noteq> Value ''''
              \<and> validator vc = Some f \<longrightarrow> (\<exists>b. f raw = Inr b)"
  by (simp add: sample_config_def rule_defs network_ok_returns)

lemma lenient_validators_return:
  "\<forall>(key, vc) \<in> set (vars lenient_config).
     \<forall>raw f. get_property env (env_prefix lenient_config @ key) = Some raw \<and> raw \<noteq> Value ''''
              \<and> validator vc = Some f \<longrightarrow> (\<exists>b. f raw = Inr b)"
  by (simp add: lenient_config_def sample_config_def rule_defs network_ok_returns)

lemma ttl_validators_return:
  "\<forall>(key, vc) \<in> set (vars ttl_config).
     \<forall>raw f. get_property env (env_prefix ttl_config @ key) = Some raw \<and> raw \<noteq> Value ''''
              \<and> validator vc = Some f \<longrightarrow> (\<exists>b. f raw = Inr b)"
  by (simp add: ttl_config_def rule_defs)

lemma level_validators_return:
  "\<forall>(key, vc) \<in> set (vars level_config).
     \<forall>raw f. get_property env (env_prefix level_config @ key) = Some raw \<and> raw \<noteq> Value ''''
              \<and> validator vc = Some f \<longrightarrow> (\<exists>b. f raw = Inr b)"
  by (simp add: level_config_def rule_defs level_ok_returns)

section \<open>Properties of the accessors\<close>

text \<open>
  C7, as stated, fails. The name \<^verbatim>\<open>constructor\<close> is the name of no variable, so the
  variable is absent; but \<^verbatim>\<open>process.env["constructor"]\<close> is the function that every
  object inherits, which is neither \<^verbatim>\<open>undefined\<close> nor the empty string, and
  \<open>getRequiredEnv\<close> returns it without throwing.
\<close>

theorem getRequiredEnv_counterexample:
  "no_env ''constructor'' = None
   \<and> getRequiredEnv no_env ''constructor'' = Inr (Inherited ''constructor'')"
  by (simp add: getRequiredEnv_def get_property_def object_prototype_names_def no_env_def)

text \<open>
  C7, amended. \<open>getRequiredEnv\<close> throws exactly when the variable is set to the empty
  string, or is not set and its name is none of the names that every object inherits from
  \<^verbatim>\<open>Object.prototype\<close>. The error it throws is the one whose message is
  \<^verbatim>\<open>Required environment variable <key> is not set\<close>. When the variable is set to
  a string that is not empty, it returns that string.

  The theorem also says what the code does for a variable that is not set and whose name
  is an inherited one: it returns the inherited value.
\<close>

theorem getRequiredEnv_spec:
  "((\<exists>e. getRequiredEnv env key = Inl e)
      \<longleftrightarrow> env key = Some '''' \<or> (env key = None \<and> key \<notin> set object_prototype_names))
   \<and> (\<forall>e. getRequiredEnv env key = Inl e
          \<longrightarrow> e = Error (''Required environment variable '' @ key @ '' is not set''))
   \<and> (\<forall>value. env key = Some value \<and> value \<noteq> ''''
          \<longrightarrow> getRequiredEnv env key = Inr (Value value))
   \<and> (env key = None \<and> key \<in> set object_prototype_names
          \<longrightarrow> getRequiredEnv env key = Inr (Inherited key))"
  by (auto simp: getRequiredEnv_def get_property_def Let_def split: option.splits)

text \<open>
  A key that is set, one that is set to the empty string, one that is not set, and the
  inherited name \<^verbatim>\<open>valueOf\<close>.
\<close>

theorem getRequiredEnv_spec_witness:
  "getRequiredEnv [''API_KEY'' \<mapsto> ''s3cret''] ''API_KEY'' = Inr (Value ''s3cret'')
   \<and> (\<exists>e. getRequiredEnv [''API_KEY'' \<mapsto> ''''] ''API_KEY'' = Inl e)
   \<and> getRequiredEnv Map.empty ''API_KEY''
       = Inl (Error ''Required environment variable API_KEY is not set'')
   \<and> getRequiredEnv Map.empty ''valueOf'' = Inr (Inherited ''valueOf'')"
  using getRequiredEnv_spec [of "[''API_KEY'' \<mapsto> ''s3cret'']" "''API_KEY''"]
    getRequiredEnv_spec [of "[''API_KEY'' \<mapsto> '''']" "''API_KEY''"]
    getRequiredEnv_spec [of Map.empty "''API_KEY''"]
    getRequiredEnv_spec [of Map.empty "''valueOf''"]
  by (auto simp: object_prototype_names_def)

text \<open>
  C8, as stated, fails. The name \<^verbatim>\<open>toString\<close> is the name of no variable, and the
  default is false; but the value read is the inherited function, on which the call
  \<^verbatim>\<open>value.toLowerCase()\<close> throws a TypeError, so the default is not returned.
\<close>

theorem getEnvBoolean_counterexample:
  "no_env ''toString'' = None
   \<and> getEnvBoolean no_env ''toString'' (Some False) = Inl TypeError"
  by (simp add: getEnvBoolean_def get_property_def object_prototype_names_def no_env_def)

text \<open>
  C8, amended. For a variable that is set, \<open>getEnvBoolean\<close> returns true if the
  lower-cased value is \<open>true\<close> or the value is \<open>1\<close>, and false for every other value;
  the default plays no part. For a variable that is not set and whose name is none of the
  names inherited from \<^verbatim>\<open>Object.prototype\<close>, it returns the default. The values
  \<open>true\<close>, \<open>TRUE\<close> and \<open>1\<close> give true; \<open>false\<close>, \<open>0\<close> and \<open>yes\<close> give false.

  The theorem also says what the code does for a variable that is not set and whose name
  is an inherited one: it throws a TypeError.
\<close>

theorem getEnvBoolean_spec:
  "(\<forall>value. env key = Some value \<longrightarrow>
      getEnvBoolean env key defaultValue
        = Inr (Some (toLowerCase value = ''true'' \<or> value = ''1'')))
   \<and> (env key = None \<and> key \<notin> set object_prototype_names
        \<longrightarrow> getEnvBoolean env key defaultValue = Inr defaultValue)
   \<and> (env key = None \<and> key \<in> set object_prototype_names
        \<longrightarrow> getEnvBoolean env key defaultValue = Inl TypeError)
   \<and> getEnvBoolean [k \<mapsto> ''true''] k d = Inr (Some True)
   \<and> getEnvBoolean [k \<mapsto> ''TRUE''] k d = Inr (Some True)
   \<and> getEnvBoolean [k \<mapsto> ''1''] k d = Inr (Some True)
   \<and> getEnvBoolean [k \<mapsto> ''false''] k d = Inr (Some False)
   \<and> getEnvBoolean [k \<mapsto> ''0''] k d = Inr (Some False)
   \<and> getEnvBoolean [k \<mapsto> ''yes''] k d = Inr (Some False)"
  by (simp add: getEnvBoolean_def get_property_def toLowerCase_examples)

text \<open>
  A value in mixed case, a value that is not \<open>true\<close>, the default for a variable that is
  not set, and the inherited name \<^verbatim>\<open>hasOwnProperty\<close>.
\<close>

theorem getEnvBoolean_spec_witness:
  "getEnvBoolean [''DEBUG'' \<mapsto> ''True''] ''DEBUG'' (Some False) = Inr (Some True)
   \<and> getEnvBoolean [''DEBUG'' \<mapsto> ''on''] ''DEBUG'' (Some True) = Inr (Some False)
   \<and> getEnvBoolean Map.empty ''DEBUG'' (Some True) = Inr (Some True)
   \<and> getEnvBoolean Map.empty ''DEBUG'' None = Inr None
   \<and> getEnvBoolean Map.empty ''hasOwnProperty'' (Some True) = Inl TypeError"
proof -
  have l: "toLowerCase ''True'' = ''true''" "toLowerCase ''on'' = ''on''"
    by code_simp+
  show ?thesis
    using getEnvBoolean_spec [of "[''DEBUG'' \<mapsto> ''True'']" "''DEBUG''" "Some False"]
      getEnvBoolean_spec [of "[''DEBUG'' \<mapsto> ''on'']" "''DEBUG''" "Some True"]
      getEnvBoolean_spec [of Map.empty "''DEBUG''" "Some True"]
      getEnvBoolean_spec [of Map.empty "''DEBUG''" None]
      getEnvBoolean_spec [of Map.empty "''hasOwnProperty''" "Some True"]
    by (simp add: l object_prototype_names_def)
qed

text \<open>
  C9, as stated, fails. It takes a variable that was never set to read as
  \<^verbatim>\<open>undefined\<close>, for which the default is returned. The name
  \<^verbatim>\<open>toString\<close> is the name of no variable; but the value read is the function that
  every object inherits, \<^verbatim>\<open>??\<close> falls back on \<^verbatim>\<open>undefined\<close> and
  \<^verbatim>\<open>null\<close> only, and \<open>getEnv\<close> returns the function, not the default.
\<close>

theorem getEnv_counterexample:
  "no_env ''toString'' = None
   \<and> getEnv no_env ''toString'' (Some ''fallback'') = Some (Inherited ''toString'')
   \<and> getEnv no_env ''toString'' (Some ''fallback'') \<noteq> Some (Value ''fallback'')"
  by (simp add: getEnv_def get_property_def object_prototype_names_def no_env_def)

text \<open>
  C9, amended. Whenever the variable is set, \<open>getEnv\<close> returns the variable's own
  value. A variable set to the empty string is set: \<open>getEnv\<close> returns the empty string
  itself, whatever the default. The default decides the result only for a variable that
  was never set: if the result changes with the default, the variable is not set. For a
  variable that was never set and whose name is none of the names inherited from
  \<^verbatim>\<open>Object.prototype\<close>, \<open>getEnv\<close> returns the default (nothing, when no
  default is given).

  The theorem also says what the code does for a variable that was never set and whose
  name is an inherited one: it returns the inherited value.
\<close>

theorem getEnv_spec:
  "(\<forall>value. env key = Some value \<longrightarrow> getEnv env key defaultValue = Some (Value value))
   \<and> (env key = Some '''' \<longrightarrow> getEnv env key defaultValue = Some (Value ''''))
   \<and> ((\<exists>other. getEnv env key other \<noteq> getEnv env key defaultValue) \<longrightarrow> env key = None)
   \<and> (env key = None \<and> key \<notin> set object_prototype_names
        \<longrightarrow> getEnv env key defaultValue = map_option Value defaultValue)
   \<and> (env key = None \<and> key \<in> set object_prototype_names
        \<longrightarrow> getEnv env key defaultValue = Some (Inherited key))"
  by (auto simp: getEnv_def get_property_def split: option.splits)

text \<open>
  A variable set to the empty string, a variable that is not set with and without a
  default, and the inherited name \<^verbatim>\<open>isPrototypeOf\<close>.
\<close>

theorem getEnv_spec_witness:
  "getEnv [''API_URL'' \<mapsto> ''''] ''API_URL'' (Some ''http://localhost:3000'') = Some (Value '''')
   \<and> getEnv Map.empty ''API_URL'' (Some ''http://localhost:3000'')
       = Some (Value ''http://localhost:3000'')
   \<and> getEnv Map.empty ''API_URL'' None = None
   \<and> getEnv Map.empty ''isPrototypeOf'' (Some ''http://localhost:3000'')
       = Some (Inherited ''isPrototypeOf'')"
  using getEnv_spec [of "[''API_URL'' \<mapsto> '''']" "''API_URL''" "Some ''http://localhost:3000''"]
    getEnv_spec [of Map.empty "''API_URL''" "Some ''http://localhost:3000''"]
    getEnv_spec [of Map.empty "''API_URL''" None]
    getEnv_spec [of Map.empty "''isPrototypeOf''" "Some ''http://localhost:3000''"]
  by (simp add: object_prototype_names_def)

section \<open>The loop of createConfig\<close>

text \<open>
  The body of the loop in its two cases: the value read is \<^verbatim>\<open>undefined\<close> or the
  empty string, or it is something else.
\<close>

lemma createConfig_body_read_missing:
  "get_property env (pfx @ key) = None \<or> get_property env (pfx @ key) = Some (Value '''')
   \<Longrightarrow> createConfig_body h env config pfx key vc result =
        (if required vc = Some True \<and> strict config \<noteq> Some False
         then Inl (Error (''Required environment variable '' @ pfx @ key @ '' is not set''))
         else case default_value vc of
                Some d \<Rightarrow> set_property result key (of_scalar d)
              | None \<Rightarrow> set_property result key Undefined)"
  by (auto simp: createConfig_body_def Let_def)

lemma createConfig_body_read_present:
  "get_property env (pfx @ key) = Some rawValue \<Longrightarrow> rawValue \<noteq> Value ''''
   \<Longrightarrow> createConfig_body h env config pfx key vc result =
        (case (case validator vc of Some accepts \<Rightarrow> accepts rawValue | None \<Rightarrow> Inr True) of
           Inl e \<Rightarrow> Inl e
         | Inr ok \<Rightarrow>
             if \<not> ok then Inl (Error (''Invalid value for environment variable '' @ pfx @ key))
             else
               (case transform vc of
                  Some f \<Rightarrow>
                    (case f rawValue of
                       Inl e \<Rightarrow> Inl e
                     | Inr v \<Rightarrow> set_property result key v)
                | None \<Rightarrow>
                   (case type vc of
                      Some T_number \<Rightarrow>
                        if isNaN (parseFloat_of h rawValue)
                        then Inl (Error (''Invalid number for environment variable '' @ pfx @ key))
                        else set_property result key (Number (parseFloat_of h rawValue))
                    | Some T_boolean \<Rightarrow>
                        (case is_true rawValue of
                           Inl e \<Rightarrow> Inl e
                         | Inr b \<Rightarrow> set_property result key (Boolean b))
                    | Some T_json \<Rightarrow>
                        (case JSON_parse_of h rawValue of
                           Some v \<Rightarrow>
                             if refuses result key
                             then Inl (Error (''Invalid JSON for environment variable ''
                                               @ pfx @ key))
                             else Inr (assign is_object result key v)
                         | None \<Rightarrow>
                             Inl (Error (''Invalid JSON for environment variable '' @ pfx @ key)))
                    | _ \<Rightarrow> set_property result key (of_read rawValue))))"
  by (simp add: createConfig_body_def Let_def set_property_def
      split: sum.splits option.splits var_type.splits)

text \<open>
  What an iteration does depends on the result built so far only through the assignment:
  it throws an error of its own, or it has a value to assign and an error to throw if the
  assignment is refused.
\<close>

lemma createConfig_body_factor:
  "\<exists>x. \<forall>r. createConfig_body h env config pfx key vc r
           = (case x of
                Inl e \<Rightarrow> Inl e
              | Inr (v, e) \<Rightarrow> if refuses r key then Inl e else Inr (assign is_object r key v))"
proof (cases "get_property env (pfx @ key) = None
              \<or> get_property env (pfx @ key) = Some (Value '''')")
  case True
  note b = createConfig_body_read_missing [OF True, of h config vc]
  show ?thesis
  proof (cases "required vc = Some True \<and> strict config \<noteq> Some False")
    case True
    with b show ?thesis
      by (intro exI [of _ "Inl (Error (''Required environment variable '' @ pfx @ key
                                         @ '' is not set''))"]) simp
  next
    case False
    with b show ?thesis
      by (intro exI [of _ "Inr (case default_value vc of
                                  Some d \<Rightarrow> of_scalar d | None \<Rightarrow> Undefined, TypeError)"])
         (simp add: set_property_def split: option.splits)
  qed
next
  case False
  then obtain rawValue where r: "get_property env (pfx @ key) = Some rawValue"
    "rawValue \<noteq> Value ''''"
    by (cases "get_property env (pfx @ key)") auto
  note b = createConfig_body_read_present [OF r, of h config vc]
  let ?x = "case (case validator vc of Some accepts \<Rightarrow> accepts rawValue | None \<Rightarrow> Inr True) of
           Inl e \<Rightarrow> Inl e
         | Inr ok \<Rightarrow>
             if \<not> ok then Inl (Error (''Invalid value for environment variable '' @ pfx @ key))
             else
               (case transform vc of
                  Some f \<Rightarrow> (case f rawValue of Inl e \<Rightarrow> Inl e | Inr v \<Rightarrow> Inr (v, TypeError))
                | None \<Rightarrow>
                   (case type vc of
                      Some T_number \<Rightarrow>
                        if isNaN (parseFloat_of h rawValue)
                        then Inl (Error (''Invalid number for environment variable '' @ pfx @ key))
                        else Inr (Number (parseFloat_of h rawValue), TypeError)
                    | Some T_boolean \<Rightarrow>
                        (case is_true rawValue of
                           Inl e \<Rightarrow> Inl e | Inr b \<Rightarrow> Inr (Boolean b, TypeError))
                    | Some T_json \<Rightarrow>
                        (case JSON_parse_of h rawValue of
                           Some v \<Rightarrow>
                             Inr (v, Error (''Invalid JSON for environment variable '' @ pfx @ key))
                         | None \<Rightarrow>
                             Inl (Error (''Invalid JSON for environment variable '' @ pfx @ key)))
                    | _ \<Rightarrow> Inr (of_read rawValue, TypeError)))"
  show ?thesis
    by (intro exI [of _ ?x])
       (simp add: b set_property_def split: sum.splits option.splits var_type.splits)
qed

lemma createConfig_body_Inr:
  "createConfig_body h env config pfx key vc r = Inr r1
   \<Longrightarrow> \<exists>v. r1 = assign is_object r key v \<and> \<not> refuses r key
          \<and> (\<forall>r'. \<not> refuses r' key \<longrightarrow>
                 createConfig_body h env config pfx key vc r' = Inr (assign is_object r' key v))"
proof -
  assume a: "createConfig_body h env config pfx key vc r = Inr r1"
  obtain x where x: "\<And>r. createConfig_body h env config pfx key vc r
           = (case x of
                Inl e \<Rightarrow> Inl e
              | Inr (v, e) \<Rightarrow> if refuses r key then Inl e else Inr (assign is_object r key v))"
    using createConfig_body_factor [of h env config pfx key vc] by blast
  from a x [of r] obtain v e where v: "x = Inr (v, e)" "\<not> refuses r key"
    "r1 = assign is_object r key v"
    by (cases x) (auto split: if_splits)
  from x v(1) have "\<forall>r'. \<not> refuses r' key \<longrightarrow>
      createConfig_body h env config pfx key vc r' = Inr (assign is_object r' key v)"
    by simp
  with v(2,3) show ?thesis by blast
qed

lemma createConfig_body_Inl:
  "createConfig_body h env config pfx key vc r = Inl e \<Longrightarrow> \<not> refuses r key
   \<Longrightarrow> createConfig_body h env config pfx key vc r' = Inl e"
proof -
  assume a: "createConfig_body h env config pfx key vc r = Inl e" and n: "\<not> refuses r key"
  obtain x where x: "\<And>r. createConfig_body h env config pfx key vc r
           = (case x of
                Inl e \<Rightarrow> Inl e
              | Inr (v, e) \<Rightarrow> if refuses r key then Inl e else Inr (assign is_object r key v))"
    using createConfig_body_factor [of h env config pfx key vc] by blast
  from a x [of r] n have "x = Inl e" by (cases x) auto
  with x [of r'] show ?thesis by simp
qed

text \<open>
  The two cases in terms of the environment: a variable that is set to the empty string, or
  not set under a name that is not inherited, and a variable that is set to a string that
  is not empty.
\<close>

lemma createConfig_body_missing:
  "env (pfx @ key) = Some '''' \<or> (env (pfx @ key) = None \<and> pfx @ key \<notin> set object_prototype_names)
   \<Longrightarrow> createConfig_body h env config pfx key vc result =
        (if required vc = Some True \<and> strict config \<noteq> Some False
         then Inl (Error (''Required environment variable '' @ pfx @ key @ '' is not set''))
         else case default_value vc of
                Some d \<Rightarrow> set_property result key (of_scalar d)
              | None \<Rightarrow> set_property result key Undefined)"
  by (rule createConfig_body_read_missing)
     (auto simp: get_property_None get_property_Value)

lemma createConfig_body_present:
  "env (pfx @ key) = Some raw \<Longrightarrow> raw \<noteq> ''''
   \<Longrightarrow> createConfig_body h env config pfx key vc result =
        (case (case validator vc of Some accepts \<Rightarrow> accepts (Value raw) | None \<Rightarrow> Inr True) of
           Inl e \<Rightarrow> Inl e
         | Inr ok \<Rightarrow>
             if \<not> ok then Inl (Error (''Invalid value for environment variable '' @ pfx @ key))
             else
               (case transform vc of
                  Some f \<Rightarrow>
                    (case f (Value raw) of
                       Inl e \<Rightarrow> Inl e
                     | Inr v \<Rightarrow> set_property result key v)
                | None \<Rightarrow>
                   (case type vc of
                      Some T_number \<Rightarrow>
                        if isNaN (parseFloat h raw)
                        then Inl (Error (''Invalid number for environment variable '' @ pfx @ key))
                        else set_property result key (Number (parseFloat h raw))
                    | Some T_boolean \<Rightarrow>
                        set_property result key
                          (Boolean (toLowerCase raw = ''true'' \<or> raw = ''1''))
                    | Some T_json \<Rightarrow>
                        (case JSON_parse h raw of
                           Some v \<Rightarrow>
                             if refuses result key
                             then Inl (Error (''Invalid JSON for environment variable ''
                                               @ pfx @ key))
                             else Inr (assign is_object result key v)
                         | None \<Rightarrow>
                             Inl (Error (''Invalid JSON for environment variable '' @ pfx @ key)))
                    | _ \<Rightarrow> set_property result key (Str raw))))"
proof -
  assume "env (pfx @ key) = Some raw" "raw \<noteq> ''''"
  then have "get_property env (pfx @ key) = Some (Value raw)" "Value raw \<noteq> Value []"
    by (simp_all add: get_property_set)
  note b = createConfig_body_read_present
    [where env = env and pfx = pfx and key = key and rawValue = "Value raw" and h = h
       and config = config and vc = vc and result = result, OF this]
  show ?thesis
    unfolding b by (simp split: sum.splits option.splits var_type.splits)
qed

lemma createConfig_loop_append:
  "createConfig_loop h env config pfx (xs @ ys) r =
     (case createConfig_loop h env config pfx xs r of
        Inl e \<Rightarrow> Inl e
      | Inr r' \<Rightarrow> createConfig_loop h env config pfx ys r')"
  by (induction xs arbitrary: r) (auto split: sum.splits)

lemma createConfig_loop_other:
  "createConfig_loop h env config pfx xs r = Inr res \<Longrightarrow> key \<notin> fst ` set xs
   \<Longrightarrow> props res key = props r key"
proof (induction xs arbitrary: r)
  case Nil
  then show ?case by simp
next
  case (Cons x xs)
  obtain k vc where x: "x = (k, vc)" by (cases x)
  from Cons.prems x obtain r1 where
    b: "createConfig_body h env config pfx k vc r = Inr r1"
    and l: "createConfig_loop h env config pfx xs r1 = Inr res"
    by (auto split: sum.splits)
  from createConfig_body_Inr [OF b] obtain v where "r1 = assign is_object r k v" by blast
  moreover from Cons.prems x have "k \<noteq> key" "key \<notin> fst ` set xs" by auto
  ultimately show ?case using Cons.IH [OF l] by (simp add: props_assign)
qed

lemma createConfig_loop_no_proto:
  "createConfig_loop h env config pfx xs r = Inr res
   \<Longrightarrow> props res ''__proto__'' = props r ''__proto__''"
proof (induction xs arbitrary: r)
  case Nil
  then show ?case by simp
next
  case (Cons x xs)
  obtain k vc where x: "x = (k, vc)" by (cases x)
  from Cons.prems x obtain r1 where
    b: "createConfig_body h env config pfx k vc r = Inr r1"
    and l: "createConfig_loop h env config pfx xs r1 = Inr res"
    by (auto split: sum.splits)
  from createConfig_body_Inr [OF b] obtain v where "r1 = assign is_object r k v" by blast
  then show ?case using Cons.IH [OF l] by (simp add: props_assign)
qed

lemma createConfig_loop_throws:
  "(key, vc) \<in> set xs \<Longrightarrow> (\<And>r0. createConfig_body h env config pfx key vc r0 = Inl e)
   \<Longrightarrow> \<exists>e'. createConfig_loop h env config pfx xs r = Inl e'"
proof (induction xs arbitrary: r)
  case Nil
  then show ?case by simp
next
  case (Cons x xs)
  obtain k c where x: "x = (k, c)" by (cases x)
  show ?case
  proof (cases "createConfig_body h env config pfx k c r")
    case (Inl e1)
    then show ?thesis using x by simp
  next
    case (Inr r1)
    with Cons.prems(1) x Cons.prems(2) [of r]
    have "(key, vc) \<in> set xs" by auto
    from Cons.IH [OF this Cons.prems(2)] Inr x show ?thesis by simp
  qed
qed

lemma createConfig_loop_first:
  "createConfig_loop h env config pfx before r = Inr rb
   \<Longrightarrow> createConfig_body h env config pfx key vc rb = Inl e
   \<Longrightarrow> createConfig_loop h env config pfx (before @ (key, vc) # after) r = Inl e"
  by (simp add: createConfig_loop_append)

lemma createConfig_loop_value:
  assumes "distinct (map fst xs)" "(key, vc) \<in> set xs" "key \<noteq> ''__proto__''"
    and "createConfig_loop h env config pfx xs r = Inr res"
    and "\<And>r0. \<not> refuses r0 key
           \<Longrightarrow> createConfig_body h env config pfx key vc r0 = Inr (assign is_object r0 key v)"
  shows "props res key = Some v"
proof -
  from assms(2) obtain before after where xs: "xs = before @ (key, vc) # after"
    by (auto dest: split_list)
  from assms(4) xs obtain rb r1 where
    b: "createConfig_loop h env config pfx before r = Inr rb"
    and c: "createConfig_body h env config pfx key vc rb = Inr r1"
    and l: "createConfig_loop h env config pfx after r1 = Inr res"
    by (auto simp: createConfig_loop_append split: sum.splits)
  from createConfig_body_Inr [OF c] have "\<not> refuses rb key" by blast
  from c assms(5) [OF this] have r1: "r1 = assign is_object rb key v"
    by simp
  from assms(1) xs have "key \<notin> fst ` set after" by auto
  from createConfig_loop_other [OF l this] assms(3) r1 show ?thesis by (simp add: props_assign)
qed

lemma createConfig_throws:
  "(key, vc) \<in> set (vars config)
   \<Longrightarrow> (\<And>r0. createConfig_body h env config (env_prefix config) key vc r0 = Inl e)
   \<Longrightarrow> \<exists>e'. createConfig h env config = Inl e'"
  unfolding createConfig_def by (rule createConfig_loop_throws)

lemma createConfig_first:
  "vars config = before @ (key, vc) # after
   \<Longrightarrow> createConfig_loop h env config (env_prefix config) before empty_object = Inr rb
   \<Longrightarrow> createConfig_body h env config (env_prefix config) key vc rb = Inl e
   \<Longrightarrow> createConfig h env config = Inl e"
  unfolding createConfig_def by (simp add: createConfig_loop_first)

lemma createConfig_value:
  "distinct (map fst (vars config)) \<Longrightarrow> (key, vc) \<in> set (vars config)
   \<Longrightarrow> key \<noteq> ''__proto__''
   \<Longrightarrow> (\<And>r0. \<not> refuses r0 key
         \<Longrightarrow> createConfig_body h env config (env_prefix config) key vc r0
             = Inr (assign is_object r0 key v))
   \<Longrightarrow> createConfig h env config = Inr res
   \<Longrightarrow> props res key = Some v"
  unfolding createConfig_def
  by (rule createConfig_loop_value [where r = empty_object])

lemma createConfig_no_proto:
  "createConfig h env config = Inr res \<Longrightarrow> props res ''__proto__'' = None"
  unfolding createConfig_def
  by (drule createConfig_loop_no_proto) (simp add: empty_object_def)

text \<open>
  While no entry has the key \<^verbatim>\<open>__proto__\<close>, the prototype of the result stays what
  it is, and no assignment is refused.
\<close>

lemma createConfig_body_ok_indep:
  assumes "\<not> refuses r key" "\<not> refuses r' key"
  shows "(\<exists>r1. createConfig_body h env config pfx key vc r = Inr r1)
   \<longleftrightarrow> (\<exists>r1. createConfig_body h env config pfx key vc r' = Inr r1)"
proof -
  obtain x where x: "\<And>r. createConfig_body h env config pfx key vc r
           = (case x of
                Inl e \<Rightarrow> Inl e
              | Inr (v, e) \<Rightarrow> if refuses r key then Inl e else Inr (assign is_object r key v))"
    using createConfig_body_factor [of h env config pfx key vc] by blast
  from assms x [of r] x [of r'] show ?thesis
    by (cases x) auto
qed

lemma createConfig_loop_ok_iff:
  "proto r = None \<Longrightarrow> ''__proto__'' \<notin> fst ` set xs
   \<Longrightarrow> (\<exists>res. createConfig_loop h env config pfx xs r = Inr res)
   \<longleftrightarrow> (\<forall>(key, vc) \<in> set xs. \<exists>r1. createConfig_body h env config pfx key vc r = Inr r1)"
proof (induction xs arbitrary: r)
  case Nil
  then show ?case by simp
next
  case (Cons x xs)
  obtain k c where x: "x = (k, c)" by (cases x)
  show ?case
  proof (cases "createConfig_body h env config pfx k c r")
    case (Inl e)
    then show ?thesis using x by auto
  next
    case (Inr r1)
    from createConfig_body_Inr [OF Inr] obtain v where "r1 = assign is_object r k v" by blast
    moreover from Cons.prems x have "k \<noteq> ''__proto__''" by auto
    ultimately have p: "proto r1 = None" using Cons.prems(1) by (simp add: proto_assign)
    from Cons.prems(2) have n: "''__proto__'' \<notin> fst ` set xs" by auto
    have "(\<exists>r2. createConfig_body h env config pfx key vc r1 = Inr r2)
          \<longleftrightarrow> (\<exists>r2. createConfig_body h env config pfx key vc r = Inr r2)" for key vc
      by (rule createConfig_body_ok_indep) (simp_all add: refuses_None p Cons.prems(1))
    with Cons.IH [OF p n] Inr x show ?thesis by simp
  qed
qed

lemma createConfig_loop_error:
  "proto r = None \<Longrightarrow> ''__proto__'' \<notin> fst ` set xs
   \<Longrightarrow> createConfig_loop h env config pfx xs r = Inl e
   \<Longrightarrow> \<exists>(key, vc) \<in> set xs. createConfig_body h env config pfx key vc r = Inl e"
proof (induction xs arbitrary: r)
  case Nil
  then show ?case by simp
next
  case (Cons x xs)
  obtain k c where x: "x = (k, c)" by (cases x)
  show ?case
  proof (cases "createConfig_body h env config pfx k c r")
    case (Inl e1)
    with Cons.prems x have "e1 = e" by simp
    with Inl x show ?thesis by auto
  next
    case (Inr r1)
    from createConfig_body_Inr [OF Inr] obtain v where "r1 = assign is_object r k v" by blast
    moreover from Cons.prems x have "k \<noteq> ''__proto__''" by auto
    ultimately have p: "proto r1 = None" using Cons.prems(1) by (simp add: proto_assign)
    from Cons.prems(2) have n: "''__proto__'' \<notin> fst ` set xs" by auto
    from Inr Cons.prems x have "createConfig_loop h env config pfx xs r1 = Inl e" by simp
    from Cons.IH [OF p n this] obtain key vc where
      m: "(key, vc) \<in> set xs" and b: "createConfig_body h env config pfx key vc r1 = Inl e"
      by auto
    from createConfig_body_Inl [OF b refuses_None [OF p], of r] m show ?thesis by auto
  qed
qed

lemma createConfig_body_optional_missing:
  assumes "required vc \<noteq> Some True \<or> strict config = Some False"
    and "env (pfx @ key) = Some '''' \<or> (env (pfx @ key) = None \<and> pfx @ key \<notin> set object_prototype_names)"
    and "proto r = None"
  shows "\<exists>r1. createConfig_body h env config pfx key vc r = Inr r1"
  using assms(1) refuses_None [OF assms(3), of key] createConfig_body_missing
    [where env = env and pfx = pfx and key = key, OF assms(2), of h config vc r]
  by (auto simp: set_property_def split: option.splits)

lemma createConfig_body_present_ok_iff:
  assumes "env (pfx @ key) = Some raw" "raw \<noteq> ''''"
    and "\<forall>f. validator vc = Some f \<longrightarrow> (\<exists>b. f (Value raw) = Inr b)"
    and "\<forall>t. transform vc = Some t \<longrightarrow> (\<exists>v. t (Value raw) = Inr v)"
    and "proto r = None"
  shows "(\<exists>r1. createConfig_body h env config pfx key vc r = Inr r1)
     \<longleftrightarrow> (\<forall>f. validator vc = Some f \<longrightarrow> f (Value raw) = Inr True)
         \<and> (transform vc = None \<and> type vc = Some T_number \<longrightarrow> \<not> isNaN (parseFloat h raw))
         \<and> (transform vc = None \<and> type vc = Some T_json \<longrightarrow> JSON_parse h raw \<noteq> None)"
  unfolding createConfig_body_present
    [where env = env and pfx = pfx and key = key, OF assms(1,2)]
  using assms(3,4) refuses_None [OF assms(5), of key]
  by (cases "validator vc"; cases "transform vc"; cases "type vc")
     (auto simp: set_property_def split: var_type.splits if_splits option.splits sum.splits)

lemma createConfig_body_present_error:
  assumes "env (pfx @ key) = Some raw" "raw \<noteq> ''''"
    and "\<forall>f. validator vc = Some f \<longrightarrow> (\<exists>b. f (Value raw) = Inr b)"
    and "\<forall>t. transform vc = Some t \<longrightarrow> (\<exists>v. t (Value raw) = Inr v)"
    and "createConfig_body h env config pfx key vc r = Inl e"
    and "proto r = None"
  shows "(\<exists>f. validator vc = Some f \<and> f (Value raw) = Inr False
            \<and> e = Error (''Invalid value for environment variable '' @ pfx @ key))
         \<or> (transform vc = None \<and> type vc = Some T_number \<and> isNaN (parseFloat h raw)
            \<and> e = Error (''Invalid number for environment variable '' @ pfx @ key))
         \<or> (transform vc = None \<and> type vc = Some T_json \<and> JSON_parse h raw = None
            \<and> e = Error (''Invalid JSON for environment variable '' @ pfx @ key))"
  using assms(5) unfolding createConfig_body_present
    [where env = env and pfx = pfx and key = key, OF assms(1,2)]
  using assms(3,4) refuses_None [OF assms(6), of key]
  by (cases "validator vc"; cases "transform vc"; cases "type vc")
     (auto simp: set_property_def split: var_type.splits if_splits option.splits sum.splits)

section \<open>Properties of createConfig\<close>

text \<open>
  C2, as stated, fails in three ways.
  The required key \<^verbatim>\<open>toString\<close>, without a prefix, has no variable; but the value
  read is the inherited function, so the key does not count as missing: \<open>createConfig\<close>
  does not throw and returns the function under the key.
  The key \<^verbatim>\<open>__proto__\<close> with the prefix \<open>APP\<close> has no variable and its rule has
  the default 3000; but the assignment \<^verbatim>\<open>result["__proto__"] = 3000\<close> runs the setter
  of the prototype, which ignores a number, and the configuration returned has no value
  under the key.
  In the third schema the key \<^verbatim>\<open>__proto__\<close> comes first, with a transform that returns
  a built-in function, which becomes the prototype of the result. The key
  \<^verbatim>\<open>name\<close> has no variable and its rule has a default; but the function's own
  \<^verbatim>\<open>name\<close> is read-only, so the assignment of the default throws a TypeError.
\<close>

theorem createConfig_missing_value_counterexample:
  "no_env ''toString'' = None
   \<and> createConfig sample_host no_env
         \<lparr>vars = [(''toString'', api_key_rule)], prefix = None, strict = None\<rparr>
       = Inr \<lparr>props = [''toString'' \<mapsto> Builtin ''toString''], proto = None\<rparr>
   \<and> no_env ''APP___proto__'' = None
   \<and> createConfig sample_host no_env
         \<lparr>vars = [(''__proto__'', port_rule)], prefix = Some ''APP'', strict = None\<rparr>
       = Inr \<lparr>props = Map.empty, proto = None\<rparr>
   \<and> proto_env ''APP_name'' = None
   \<and> createConfig sample_host proto_env proto_config = Inl TypeError"
  by (simp add: eval_defs Let_def)

text \<open>
  C2, amended. Take an entry of a schema whose keys are distinct, and let its variable,
  named by prefix and key, be set to the empty string, or be not set under a name that is
  none of the names inherited from \<^verbatim>\<open>Object.prototype\<close>.

  If the rule is required and \<open>strict\<close> is not false, the iteration for the entry throws
  the error with the message \<^verbatim>\<open>Required environment variable <name> is not set\<close>,
  whatever has been resolved before; \<open>createConfig\<close> then returns nothing, and the error
  it throws is this one whenever the entries before resolved, the first failure being the
  one thrown.

  Otherwise the iteration is the assignment to \<^verbatim>\<open>result[key]\<close> of the rule's default
  as it is when there is one, and of \<^verbatim>\<open>undefined\<close> when there is none (an assignment
  that throws a TypeError when it is refused), and for a key other than
  \<^verbatim>\<open>__proto__\<close> a configuration that \<open>createConfig\<close> returns holds that value
  under the key.

  No configuration that \<open>createConfig\<close> returns has an entry of its own under
  \<^verbatim>\<open>__proto__\<close>.
\<close>

theorem createConfig_missing_value:
  assumes "(key, vc) \<in> set (vars config)" and "distinct (map fst (vars config))"
    and "env (env_prefix config @ key) = Some ''''
         \<or> (env (env_prefix config @ key) = None
              \<and> env_prefix config @ key \<notin> set object_prototype_names)"
  shows
    "(required vc = Some True \<and> strict config \<noteq> Some False \<longrightarrow>
        (\<forall>result. createConfig_body h env config (env_prefix config) key vc result
           = Inl (Error (''Required environment variable '' @ env_prefix config @ key
                           @ '' is not set'')))
        \<and> (\<exists>e. createConfig h env config = Inl e)
        \<and> (\<forall>before after r.
             vars config = before @ (key, vc) # after
             \<and> createConfig_loop h env config (env_prefix config) before empty_object = Inr r
             \<longrightarrow> createConfig h env config
                   = Inl (Error (''Required environment variable '' @ env_prefix config @ key
                                   @ '' is not set''))))
     \<and> (\<not> (required vc = Some True \<and> strict config \<noteq> Some False) \<longrightarrow>
          (\<forall>d. default_value vc = Some d \<longrightarrow>
             (\<forall>result. createConfig_body h env config (env_prefix config) key vc result
                = set_property result key (of_scalar d))
             \<and> (key \<noteq> ''__proto__'' \<longrightarrow>
                  (\<forall>res. createConfig h env config = Inr res
                     \<longrightarrow> props res key = Some (of_scalar d))))
          \<and> (default_value vc = None \<longrightarrow>
             (\<forall>result. createConfig_body h env config (env_prefix config) key vc result
                = set_property result key Undefined)
             \<and> (key \<noteq> ''__proto__'' \<longrightarrow>
                  (\<forall>res. createConfig h env config = Inr res
                     \<longrightarrow> props res key = Some Undefined))))
     \<and> (\<forall>res. createConfig h env config = Inr res \<longrightarrow> props res ''__proto__'' = None)"
    (is "(?strict \<longrightarrow> (\<forall>result. ?body result = Inl ?E) \<and> _ \<and> _) \<and> _ \<and> _")
proof -
  have body: "?body result =
        (if ?strict then Inl ?E
         else case default_value vc of
                Some d \<Rightarrow> set_property result key (of_scalar d)
              | None \<Rightarrow> set_property result key Undefined)" for result
    using assms(3) by (rule createConfig_body_missing)
  have s1: "?body result = Inl ?E" if "?strict" for result
    using that body by simp
  have s2: "\<exists>e. createConfig h env config = Inl e" if "?strict"
    using createConfig_throws [OF assms(1) s1 [OF that]] .
  have s3: "createConfig h env config = Inl ?E"
    if "?strict" "vars config = before @ (key, vc) # after
      \<and> createConfig_loop h env config (env_prefix config) before empty_object = Inr r"
    for before after r
    using createConfig_first [OF that(2) [THEN conjunct1] that(2) [THEN conjunct2]
        s1 [OF that(1)]] .
  have d1: "?body result = set_property result key (of_scalar d)"
    if "\<not> ?strict" "default_value vc = Some d" for result d
    unfolding body [of result] using that by auto
  have d2: "props res key = Some (of_scalar d)"
    if "\<not> ?strict" "default_value vc = Some d" "key \<noteq> ''__proto__''"
      "createConfig h env config = Inr res" for res d
  proof -
    have "?body r0 = Inr (assign is_object r0 key (of_scalar d))" if "\<not> refuses r0 key" for r0
      unfolding d1 [OF \<open>\<not> ?strict\<close> \<open>default_value vc = Some d\<close>] using that
      by (rule set_property_ok)
    from createConfig_value [OF assms(2,1) that(3) this that(4)] show ?thesis .
  qed
  have u1: "?body result = set_property result key Undefined"
    if "\<not> ?strict" "default_value vc = None" for result
    unfolding body [of result] using that by auto
  have u2: "props res key = Some Undefined"
    if "\<not> ?strict" "default_value vc = None" "key \<noteq> ''__proto__''"
      "createConfig h env config = Inr res" for res
  proof -
    have "?body r0 = Inr (assign is_object r0 key Undefined)" if "\<not> refuses r0 key" for r0
      unfolding u1 [OF \<open>\<not> ?strict\<close> \<open>default_value vc = None\<close>] using that
      by (rule set_property_ok)
    from createConfig_value [OF assms(2,1) that(3) this that(4)] show ?thesis .
  qed
  show ?thesis
    apply (intro conjI impI allI)
    subgoal by (rule s1)
    subgoal by (rule s2)
    subgoal by (rule s3)
    subgoal by (rule d1)
    subgoal by (rule d2)
    subgoal by (rule u1)
    subgoal by (rule u2)
    subgoal by (rule createConfig_no_proto)
    done
qed

text \<open>
  On the documentation's schema: an empty \<open>APP_API_KEY\<close> is fatal under \<open>strict\<close>; with
  \<open>strict\<close> off and nothing set, the port is its default 3000, not parsed from anything,
  and the settings are \<^verbatim>\<open>undefined\<close>.
\<close>

theorem createConfig_missing_value_witness:
  "createConfig sample_host bad_env sample_config
     = Inl (Error ''Required environment variable APP_API_KEY is not set'')
   \<and> (\<exists>res. createConfig sample_host no_env lenient_config = Inr res
         \<and> props res ''PORT'' = Some (Number (Num 3000))
         \<and> props res ''SETTINGS'' = Some Undefined
         \<and> props res ''__proto__'' = None)"
proof -
  have 1: "createConfig sample_host bad_env sample_config
     = Inl (Error ''Required environment variable APP_API_KEY is not set'')"
  proof -
    have m: "(''API_KEY'', api_key_rule) \<in> set (vars sample_config)"
      and d: "distinct (map fst (vars sample_config))"
      and e: "bad_env (env_prefix sample_config @ ''API_KEY'') = Some ''''
              \<or> (bad_env (env_prefix sample_config @ ''API_KEY'') = None
                  \<and> env_prefix sample_config @ ''API_KEY'' \<notin> set object_prototype_names)"
      and s: "required api_key_rule = Some True \<and> strict sample_config \<noteq> Some False"
      and v: "vars sample_config = [] @ (''API_KEY'', api_key_rule)
                # [(''PORT'', port_rule), (''DEBUG'', debug_rule),
                   (''SETTINGS'', settings_rule), (''NETWORK'', network_rule)]
              \<and> createConfig_loop sample_host bad_env sample_config (env_prefix sample_config)
                    [] empty_object = Inr empty_object"
      by (simp_all add: sample_config_def api_key_rule_def env_prefix_def bad_env_def)
    note t = createConfig_missing_value
      [where key = "''API_KEY''" and vc = api_key_rule and config = sample_config
         and env = bad_env and h = sample_host, OF m d e]
    have x: "createConfig sample_host bad_env sample_config
       = Inl (Error (''Required environment variable '' @ env_prefix sample_config
                       @ ''API_KEY'' @ '' is not set''))"
      by (rule t [THEN conjunct1, THEN mp, OF s, THEN conjunct2, THEN conjunct2,
                  THEN spec, THEN spec, THEN spec, THEN mp, OF v])
    show ?thesis unfolding x sample_prefix by simp
  qed
  have m: "(''PORT'', port_rule) \<in> set (vars lenient_config)"
      "(''SETTINGS'', settings_rule) \<in> set (vars lenient_config)"
    and d: "distinct (map fst (vars lenient_config))"
    and e: "no_env (env_prefix lenient_config @ ''PORT'') = Some ''''
            \<or> (no_env (env_prefix lenient_config @ ''PORT'') = None
                \<and> env_prefix lenient_config @ ''PORT'' \<notin> set object_prototype_names)"
      "no_env (env_prefix lenient_config @ ''SETTINGS'') = Some ''''
            \<or> (no_env (env_prefix lenient_config @ ''SETTINGS'') = None
                \<and> env_prefix lenient_config @ ''SETTINGS'' \<notin> set object_prototype_names)"
    and s: "\<not> (required port_rule = Some True \<and> strict lenient_config \<noteq> Some False)"
      "\<not> (required settings_rule = Some True \<and> strict lenient_config \<noteq> Some False)"
    and dv: "default_value port_rule = Some (SNum (Num 3000))"
      "default_value settings_rule = None"
    and k: "''PORT'' \<noteq> ''__proto__''" "''SETTINGS'' \<noteq> ''__proto__''"
    by (simp_all add: lenient_config_def sample_config_def port_rule_def settings_rule_def
        no_env_def env_prefix_def object_prototype_names_def)
  note p = createConfig_missing_value
    [where key = "''PORT''" and vc = port_rule and config = lenient_config
       and env = no_env and h = sample_host, OF m(1) d e(1)]
  note 2 = p [THEN conjunct2, THEN conjunct1, THEN mp, OF s(1), THEN conjunct1, THEN spec,
              THEN mp, OF dv(1), THEN conjunct2, THEN mp, OF k(1)]
  note q = createConfig_missing_value
    [where key = "''SETTINGS''" and vc = settings_rule and config = lenient_config
       and env = no_env and h = sample_host, OF m(2) d e(2)]
  note 3 = q [THEN conjunct2, THEN conjunct1, THEN mp, OF s(2), THEN conjunct2, THEN mp,
              OF dv(2), THEN conjunct2, THEN mp, OF k(2)]
  note 4 = q [THEN conjunct2, THEN conjunct2]
  obtain res where r: "createConfig sample_host no_env lenient_config = Inr res"
    using createConfig_lenient_unset by (rule that)
  have a: "props res ''PORT'' = Some (Number (Num 3000))"
    using 2 [THEN spec, THEN mp, OF r] by simp
  have b: "props res ''SETTINGS'' = Some Undefined"
    by (rule 3 [THEN spec, THEN mp, OF r])
  have c: "props res ''__proto__'' = None"
    by (rule 4 [THEN spec, THEN mp, OF r])
  from r a b c
  have "createConfig sample_host no_env lenient_config = Inr res
         \<and> props res ''PORT'' = Some (Number (Num 3000))
         \<and> props res ''SETTINGS'' = Some Undefined
         \<and> props res ''__proto__'' = None"
    by (intro conjI)
  then have "\<exists>res. createConfig sample_host no_env lenient_config = Inr res
         \<and> props res ''PORT'' = Some (Number (Num 3000))
         \<and> props res ''SETTINGS'' = Some Undefined
         \<and> props res ''__proto__'' = None"
    by (rule exI [where x = res])
  with 1 show ?thesis by (rule conjI)
qed

text \<open>
  C3, as stated, fails in three ways.
  The key \<^verbatim>\<open>__proto__\<close> with the prefix \<open>APP\<close> has the variable
  \<open>APP___proto__\<close> set to \<open>x\<close> and a rule of type string; but the assignment
  \<^verbatim>\<open>result["__proto__"] = "x"\<close> runs the setter of the prototype, which ignores a
  string, and the configuration returned has no value under the key.
  The key \<open>CHAIN\<close> has a validator that does not return false on \<open>devnet\<close>: it
  throws, and its error is what \<open>createConfig\<close> throws; no value is resolved.
  In the third schema the key \<^verbatim>\<open>__proto__\<close> has made a built-in function the
  prototype when the key \<^verbatim>\<open>name\<close>, of type number and with the value \<open>8080\<close>,
  is reached: the assignment of the number throws a TypeError.
\<close>

theorem createConfig_present_value_counterexample:
  "proto_env ''APP___proto__'' = Some ''x''
   \<and> createConfig sample_host proto_env
         \<lparr>vars = [(''__proto__'', api_key_rule)], prefix = Some ''APP'', strict = None\<rparr>
       = Inr \<lparr>props = Map.empty, proto = None\<rparr>
   \<and> chain_env ''CHAIN'' = Some ''devnet''
   \<and> createConfig sample_host chain_env chain_config = Inl (Error ''unknown network'')
   \<and> createConfig sample_host [''APP___proto__'' \<mapsto> ''x'', ''APP_name'' \<mapsto> ''8080'']
         proto_config
       = Inl TypeError"
  by (simp add: eval_defs Let_def)

text \<open>
  C3, amended. Take an entry of a schema whose keys are distinct, and let its variable be
  set to a string \<open>raw\<close> that is not empty.

  If the rule has a validator that returns false on \<open>raw\<close>, the iteration throws the
  error with the message \<^verbatim>\<open>Invalid value for environment variable <name>\<close>, and
  \<open>createConfig\<close> returns nothing. If the validator throws, the iteration throws what
  the validator threw, and \<open>createConfig\<close> returns nothing.

  If there is no validator, or it returns true on \<open>raw\<close>:
  with a transform that returns a value on \<open>raw\<close>, the iteration is the assignment of
  that value to \<^verbatim>\<open>result[key]\<close>, whatever the type says; with a transform that
  throws, the iteration throws the same and \<open>createConfig\<close> returns nothing.
  Without a transform, type \<open>number\<close> assigns what \<open>parseFloat\<close> returns, and throws
  \<^verbatim>\<open>Invalid number for environment variable <name>\<close> when that is NaN; type
  \<open>boolean\<close> assigns true exactly when the lower-cased string is \<open>true\<close> or the
  string is \<open>1\<close>; type \<open>json\<close> assigns what \<open>JSON.parse\<close> returns, and throws
  \<^verbatim>\<open>Invalid JSON for environment variable <name>\<close> when \<open>JSON.parse\<close> throws
  or the assignment is refused; type \<open>string\<close> and no type assign the string itself.

  An assignment other than the one of type \<open>json\<close> throws a TypeError when it is
  refused. Wherever an iteration throws, \<open>createConfig\<close> returns nothing. For a key
  other than \<^verbatim>\<open>__proto__\<close>, what an iteration assigns is what a configuration
  that \<open>createConfig\<close> returns holds under the key.
\<close>

theorem createConfig_present_value:
  assumes "(key, vc) \<in> set (vars config)" and "distinct (map fst (vars config))"
    and "env (env_prefix config @ key) = Some raw" and "raw \<noteq> ''''"
  shows
    "(\<forall>f. validator vc = Some f \<and> f (Value raw) = Inr False \<longrightarrow>
        (\<forall>result. createConfig_body h env config (env_prefix config) key vc result
           = Inl (Error (''Invalid value for environment variable '' @ env_prefix config @ key)))
        \<and> (\<exists>e. createConfig h env config = Inl e))
     \<and> (\<forall>f e. validator vc = Some f \<and> f (Value raw) = Inl e \<longrightarrow>
        (\<forall>result. createConfig_body h env config (env_prefix config) key vc result = Inl e)
        \<and> (\<exists>e'. createConfig h env config = Inl e'))
     \<and> (validator vc = None \<or> (\<exists>f. validator vc = Some f \<and> f (Value raw) = Inr True) \<longrightarrow>
          (\<forall>t v. transform vc = Some t \<and> t (Value raw) = Inr v \<longrightarrow>
             (\<forall>result. createConfig_body h env config (env_prefix config) key vc result
                = set_property result key v)
             \<and> (key \<noteq> ''__proto__'' \<longrightarrow>
                  (\<forall>res. createConfig h env config = Inr res \<longrightarrow> props res key = Some v)))
          \<and> (\<forall>t e. transform vc = Some t \<and> t (Value raw) = Inl e \<longrightarrow>
             (\<forall>result. createConfig_body h env config (env_prefix config) key vc result = Inl e)
             \<and> (\<exists>e'. createConfig h env config = Inl e'))
          \<and> (transform vc = None \<longrightarrow>
               (type vc = Some T_number \<and> isNaN (parseFloat h raw) \<longrightarrow>
                  (\<forall>result. createConfig_body h env config (env_prefix config) key vc result
                     = Inl (Error (''Invalid number for environment variable ''
                                     @ env_prefix config @ key)))
                  \<and> (\<exists>e. createConfig h env config = Inl e))
               \<and> (type vc = Some T_number \<and> \<not> isNaN (parseFloat h raw) \<longrightarrow>
                  (\<forall>result. createConfig_body h env config (env_prefix config) key vc result
                     = set_property result key (Number (parseFloat h raw)))
                  \<and> (key \<noteq> ''__proto__'' \<longrightarrow>
                       (\<forall>res. createConfig h env config = Inr res
                          \<longrightarrow> props res key = Some (Number (parseFloat h raw)))))
               \<and> (type vc = Some T_boolean \<longrightarrow>
                  (\<forall>result. createConfig_body h env config (env_prefix config) key vc result
                     = set_property result key
                         (Boolean (toLowerCase raw = ''true'' \<or> raw = ''1'')))
                  \<and> (key \<noteq> ''__proto__'' \<longrightarrow>
                       (\<forall>res. createConfig h env config = Inr res
                          \<longrightarrow> props res key
                                = Some (Boolean (toLowerCase raw = ''true'' \<or> raw = ''1'')))))
               \<and> (type vc = Some T_json \<and> JSON_parse h raw = None \<longrightarrow>
                  (\<forall>result. createConfig_body h env config (env_prefix config) key vc result
                     = Inl (Error (''Invalid JSON for environment variable ''
                                     @ env_prefix config @ key)))
                  \<and> (\<exists>e. createConfig h env config = Inl e))
               \<and> (\<forall>v. type vc = Some T_json \<and> JSON_parse h raw = Some v \<longrightarrow>
                  (\<forall>result. createConfig_body h env config (env_prefix config) key vc result
                     = (if refuses result key
                        then Inl (Error (''Invalid JSON for environment variable ''
                                          @ env_prefix config @ key))
                        else Inr (assign is_object result key v)))
                  \<and> (key \<noteq> ''__proto__'' \<longrightarrow>
                       (\<forall>res. createConfig h env config = Inr res \<longrightarrow> props res key = Some v)))
               \<and> (type vc = None \<or> type vc = Some T_string \<longrightarrow>
                  (\<forall>result. createConfig_body h env config (env_prefix config) key vc result
                     = set_property result key (Str raw))
                  \<and> (key \<noteq> ''__proto__'' \<longrightarrow>
                       (\<forall>res. createConfig h env config = Inr res
                          \<longrightarrow> props res key = Some (Str raw))))))"
    (is "(\<forall>f. _ \<longrightarrow> (\<forall>result. ?body result = _) \<and> _) \<and> _ \<and> (?ok \<longrightarrow> _)")
proof -
  note body = createConfig_body_present
    [where env = env and pfx = "env_prefix config" and key = key and h = h
       and config = config and vc = vc, OF assms(3,4)]
  have throws: "\<exists>e'. createConfig h env config = Inl e'" if "\<And>result. ?body result = Inl e" for e
    using createConfig_throws [OF assms(1) that] .
  have stores: "props res key = Some v"
    if "\<And>result. ?body result = set_property result key v" "key \<noteq> ''__proto__''"
      "createConfig h env config = Inr res"
    for v res
  proof -
    have "?body r0 = Inr (assign is_object r0 key v)" if "\<not> refuses r0 key" for r0
      unfolding \<open>\<And>result. ?body result = set_property result key v\<close> using that
      by (rule set_property_ok)
    from createConfig_value [OF assms(2,1) that(2) this that(3)] show ?thesis .
  qed
  have parsed: "props res key = Some v"
    if "\<And>result. ?body result
          = (if refuses result key
             then Inl (Error (''Invalid JSON for environment variable '' @ env_prefix config @ key))
             else Inr (assign is_object result key v))"
      "key \<noteq> ''__proto__''" "createConfig h env config = Inr res"
    for v res
  proof -
    have "?body r0 = Inr (assign is_object r0 key v)" if "\<not> refuses r0 key" for r0
      unfolding \<open>\<And>result. ?body result
          = (if refuses result key
             then Inl (Error (''Invalid JSON for environment variable '' @ env_prefix config @ key))
             else Inr (assign is_object result key v))\<close>
      using that by simp
    from createConfig_value [OF assms(2,1) that(2) this that(3)] show ?thesis .
  qed
  have r1: "?body result
      = Inl (Error (''Invalid value for environment variable '' @ env_prefix config @ key))"
    if "validator vc = Some f \<and> f (Value raw) = Inr False" for f result
    using that body [of result] by simp
  have r2: "?body result = Inl e"
    if "validator vc = Some f \<and> f (Value raw) = Inl e" for f e result
    using that body [of result] by simp
  have ok: "(case validator vc of Some accepts \<Rightarrow> accepts (Value raw) | None \<Rightarrow> Inr True)
              = Inr True" if "?ok"
    using that by auto
  have t1: "?body result = set_property result key v"
    if "?ok" "transform vc = Some t \<and> t (Value raw) = Inr v" for t v result
    using that(2) body [of result] ok [OF that(1)] by simp
  have t2: "?body result = Inl e"
    if "?ok" "transform vc = Some t \<and> t (Value raw) = Inl e" for t e result
    using that(2) body [of result] ok [OF that(1)] by simp
  have n1: "?body result
      = Inl (Error (''Invalid number for environment variable '' @ env_prefix config @ key))"
    if "?ok" "transform vc = None" "type vc = Some T_number \<and> isNaN (parseFloat h raw)"
    for result
    using that(2,3) body [of result] ok [OF that(1)] by simp
  have n2: "?body result = set_property result key (Number (parseFloat h raw))"
    if "?ok" "transform vc = None" "type vc = Some T_number \<and> \<not> isNaN (parseFloat h raw)"
    for result
    using that(2,3) body [of result] ok [OF that(1)] by simp
  have b: "?body result
      = set_property result key (Boolean (toLowerCase raw = ''true'' \<or> raw = ''1''))"
    if "?ok" "transform vc = None" "type vc = Some T_boolean" for result
    using that(2,3) body [of result] ok [OF that(1)] by simp
  have j1: "?body result
      = Inl (Error (''Invalid JSON for environment variable '' @ env_prefix config @ key))"
    if "?ok" "transform vc = None" "type vc = Some T_json \<and> JSON_parse h raw = None"
    for result
    using that(2,3) body [of result] ok [OF that(1)] by simp
  have j2: "?body result
      = (if refuses result key
         then Inl (Error (''Invalid JSON for environment variable '' @ env_prefix config @ key))
         else Inr (assign is_object result key v))"
    if "?ok" "transform vc = None" "type vc = Some T_json \<and> JSON_parse h raw = Some v"
    for result v
    using that(2,3) body [of result] ok [OF that(1)] by simp
  have s: "?body result = set_property result key (Str raw)"
    if "?ok" "transform vc = None" "type vc = None \<or> type vc = Some T_string"
    for result
    using that(2,3) body [of result] ok [OF that(1)] by auto
  show ?thesis
    apply (intro conjI impI allI)
    subgoal by (rule r1)
    subgoal by (rule throws, rule r1)
    subgoal by (rule r2)
    subgoal by (rule throws, rule r2)
    subgoal by (rule t1)
    subgoal by (rule stores, rule t1)
    subgoal by (rule t2)
    subgoal by (rule throws, rule t2)
    subgoal by (rule n1)
    subgoal by (rule throws, rule n1)
    subgoal by (rule n2)
    subgoal by (rule stores, rule n2)
    subgoal by (rule b)
    subgoal by (rule stores, rule b)
    subgoal by (rule j1)
    subgoal by (rule throws, rule j1)
    subgoal by (rule j2)
    subgoal by (rule parsed, rule j2)
    subgoal by (rule s)
    subgoal by (rule stores, rule s)
    done
qed

text \<open>
  On the examples: \<open>8080\<close> becomes the number 8080; the network \<open>devnet\<close> is not one
  the validator knows; a transform that lower-cases gives \<open>soon\<close> for the raw value
  \<open>Soon\<close> although the rule's type is \<open>number\<close>; and what a validator throws is what
  the iteration throws.
\<close>

theorem createConfig_present_value_witness:
  "(\<exists>res. createConfig sample_host sample_env sample_config = Inr res
      \<and> props res ''PORT'' = Some (Number (Num 8080)))
   \<and> createConfig_body sample_host bad_env lenient_config ''APP_'' ''NETWORK'' network_rule
         empty_object
       = Inl (Error ''Invalid value for environment variable APP_NETWORK'')
   \<and> (\<exists>e. createConfig sample_host bad_env lenient_config = Inl e)
   \<and> (\<exists>res. createConfig sample_host ttl_env ttl_config = Inr res
         \<and> props res ''TTL'' = Some (Str ''soon''))
   \<and> createConfig_body sample_host chain_env chain_config '''' ''CHAIN'' chain_rule empty_object
       = Inl (Error ''unknown network'')"
proof -
  txt \<open>a number that parses\<close>
  have m: "(''PORT'', port_rule) \<in> set (vars sample_config)"
    and d: "distinct (map fst (vars sample_config))"
    and e: "sample_env (env_prefix sample_config @ ''PORT'') = Some ''8080''" "''8080'' \<noteq> ''''"
    and a: "validator port_rule = None
            \<or> (\<exists>f. validator port_rule = Some f \<and> f (Value ''8080'') = Inr True)"
    and t: "transform port_rule = None"
    and n: "type port_rule = Some T_number \<and> \<not> isNaN (parseFloat sample_host ''8080'')"
    and k: "''PORT'' \<noteq> ''__proto__''"
    by (simp_all add: sample_config_def port_rule_def sample_env_def env_prefix_def
        sample_host_def sample_parses isNaN_def)
  note p = createConfig_present_value
    [where key = "''PORT''" and vc = port_rule and config = sample_config
       and env = sample_env and h = sample_host and raw = "''8080''", OF m d e]
  note p2 = p [THEN conjunct2, THEN conjunct2, THEN mp, OF a, THEN conjunct2, THEN conjunct2,
               THEN mp, OF t, THEN conjunct2, THEN conjunct1, THEN mp, OF n, THEN conjunct2,
               THEN mp, OF k]
  obtain res where r: "createConfig sample_host sample_env sample_config = Inr res"
    using createConfig_sample by (rule that)
  have "props res ''PORT'' = Some (Number (Num 8080))"
    using p2 [THEN spec, THEN mp, OF r] by (simp add: sample_host_def sample_parses)
  with r have "createConfig sample_host sample_env sample_config = Inr res
      \<and> props res ''PORT'' = Some (Number (Num 8080))"
    by (intro conjI)
  then have 1: "\<exists>res. createConfig sample_host sample_env sample_config = Inr res
      \<and> props res ''PORT'' = Some (Number (Num 8080))"
    by (rule exI [where x = res])
  txt \<open>a value on which the validator returns false\<close>
  have m: "(''NETWORK'', network_rule) \<in> set (vars lenient_config)"
    and d: "distinct (map fst (vars lenient_config))"
    and e: "bad_env (env_prefix lenient_config @ ''NETWORK'') = Some ''devnet''"
      "''devnet'' \<noteq> ''''"
    and a: "validator network_rule = Some network_ok
            \<and> network_ok (Value ''devnet'') = Inr False"
    by (simp_all add: lenient_config_def sample_config_def network_rule_def bad_env_def
        env_prefix_def)
  note q = createConfig_present_value
    [where key = "''NETWORK''" and vc = network_rule and config = lenient_config
       and env = bad_env and h = sample_host and raw = "''devnet''", OF m d e]
  note q1 = q [THEN conjunct1, THEN spec, THEN mp, OF a]
  have 2: "createConfig_body sample_host bad_env lenient_config ''APP_'' ''NETWORK''
             network_rule empty_object
           = Inl (Error ''Invalid value for environment variable APP_NETWORK'')"
    using q1 [THEN conjunct1, THEN spec, of empty_object] unfolding sample_prefix by simp
  note 3 = q1 [THEN conjunct2]
  txt \<open>a transform, with a type that the raw value does not have\<close>
  have m: "(''TTL'', ttl_rule) \<in> set (vars ttl_config)"
    and d: "distinct (map fst (vars ttl_config))"
    and e: "ttl_env (env_prefix ttl_config @ ''TTL'') = Some ''Soon''" "''Soon'' \<noteq> ''''"
    and a: "validator ttl_rule = None
            \<or> (\<exists>f. validator ttl_rule = Some f \<and> f (Value ''Soon'') = Inr True)"
    and t: "transform ttl_rule = Some lower_case
            \<and> lower_case (Value ''Soon'') = Inr (Str ''soon'')"
    and k: "''TTL'' \<noteq> ''__proto__''"
    by (simp_all add: ttl_config_def ttl_rule_def ttl_env_def env_prefix_def sample_lower)
  note u = createConfig_present_value
    [where key = "''TTL''" and vc = ttl_rule and config = ttl_config
       and env = ttl_env and h = sample_host and raw = "''Soon''", OF m d e]
  note u2 = u [THEN conjunct2, THEN conjunct2, THEN mp, OF a, THEN conjunct1,
               THEN spec, THEN spec, THEN mp, OF t, THEN conjunct2, THEN mp, OF k]
  obtain res' where r': "createConfig sample_host ttl_env ttl_config = Inr res'"
    using createConfig_ttl by (rule that)
  have "props res' ''TTL'' = Some (Str ''soon'')"
    by (rule u2 [THEN spec, THEN mp, OF r'])
  with r' have "createConfig sample_host ttl_env ttl_config = Inr res'
      \<and> props res' ''TTL'' = Some (Str ''soon'')"
    by (intro conjI)
  then have 4: "\<exists>res. createConfig sample_host ttl_env ttl_config = Inr res
      \<and> props res ''TTL'' = Some (Str ''soon'')"
    by (rule exI [where x = res'])
  txt \<open>a validator that throws\<close>
  have m: "(''CHAIN'', chain_rule) \<in> set (vars chain_config)"
    and d: "distinct (map fst (vars chain_config))"
    and e: "chain_env (env_prefix chain_config @ ''CHAIN'') = Some ''devnet''"
      "''devnet'' \<noteq> ''''"
    and a: "validator chain_rule = Some known_network
            \<and> known_network (Value ''devnet'') = Inl (Error ''unknown network'')"
    by (simp_all add: chain_config_def chain_rule_def chain_env_def env_prefix_def
        known_network_def)
  note w = createConfig_present_value
    [where key = "''CHAIN''" and vc = chain_rule and config = chain_config
       and env = chain_env and h = sample_host and raw = "''devnet''", OF m d e]
  note w1 = w [THEN conjunct2, THEN conjunct1, THEN spec, THEN spec, THEN mp, OF a,
               THEN conjunct1, THEN spec, of empty_object]
  have 5: "createConfig_body sample_host chain_env chain_config '''' ''CHAIN'' chain_rule
             empty_object
           = Inl (Error ''unknown network'')"
    using w1 unfolding sample_prefix .
  from 1 2 3 4 5 show ?thesis by (intro conjI)
qed

text \<open>
  C1, as stated, fails in four ways: a schema without a required key still throws
  on a value of the wrong form (the optional port, whose value \<open>abc\<close> is not a number);
  on a variable that is not set but whose name is inherited (the boolean key
  \<^verbatim>\<open>toString\<close>: the inherited function has no \<^verbatim>\<open>toLowerCase\<close>);
  when a validator throws (the key \<open>CHAIN\<close>);
  and when an assignment is refused (the key \<^verbatim>\<open>name\<close> after the key
  \<^verbatim>\<open>__proto__\<close> has made a built-in function the prototype of the result).
\<close>

theorem createConfig_no_required_counterexample:
  "required port_rule = None
   \<and> createConfig sample_host [''PORT'' \<mapsto> ''abc'']
         \<lparr>vars = [(''PORT'', port_rule)], prefix = None, strict = None\<rparr>
       = Inl (Error ''Invalid number for environment variable PORT'')
   \<and> required debug_rule = None
   \<and> createConfig sample_host no_env
         \<lparr>vars = [(''toString'', debug_rule)], prefix = None, strict = None\<rparr>
       = Inl TypeError
   \<and> required chain_rule = Some False
   \<and> createConfig sample_host chain_env
         \<lparr>vars = [(''CHAIN'', chain_rule)], prefix = None, strict = None\<rparr>
       = Inl (Error ''unknown network'')
   \<and> required proto_rule = None
   \<and> createConfig sample_host proto_env proto_config = Inl TypeError"
  by (simp add: eval_defs Let_def)

text \<open>
  C1, amended. Take a schema none of whose rules is required and none of whose keys is
  \<^verbatim>\<open>__proto__\<close>, and an environment in which no variable of the schema is both not
  set and named by a name inherited from \<^verbatim>\<open>Object.prototype\<close>, and in which the
  validator and the transform of each rule whose variable is set to a string that is not
  empty return when called on that string.

  Then \<open>createConfig\<close> returns a configuration exactly when every variable that is set
  to a string that is not empty passes its rule's validator, if there is one, and, for a
  rule without a transform, parses as a number when the type is \<open>number\<close> and as JSON
  when the type is \<open>json\<close>.
  Whenever it throws, the error is, for some key whose variable is set to a string that is
  not empty, \<^verbatim>\<open>Invalid value for environment variable <name>\<close> where the validator
  returns false, \<^verbatim>\<open>Invalid number for environment variable <name>\<close> where there is
  no transform, the type is \<open>number\<close> and the string parses to NaN, or
  \<^verbatim>\<open>Invalid JSON for environment variable <name>\<close> where there is no transform,
  the type is \<open>json\<close> and the string does not parse.
  It never throws the error of a missing required variable, for any name.
\<close>

theorem createConfig_no_required:
  assumes "\<forall>(key, vc) \<in> set (vars config). required vc \<noteq> Some True"
    and "\<forall>(key, vc) \<in> set (vars config).
           \<not> (env (env_prefix config @ key) = None
              \<and> env_prefix config @ key \<in> set object_prototype_names)"
    and "\<forall>(key, vc) \<in> set (vars config).
           \<forall>raw. env (env_prefix config @ key) = Some raw \<and> raw \<noteq> '''' \<longrightarrow>
             (\<forall>f. validator vc = Some f \<longrightarrow> (\<exists>b. f (Value raw) = Inr b))
             \<and> (\<forall>t. transform vc = Some t \<longrightarrow> (\<exists>v. t (Value raw) = Inr v))"
    and "''__proto__'' \<notin> fst ` set (vars config)"
  shows
    "((\<exists>res. createConfig h env config = Inr res) \<longleftrightarrow>
        (\<forall>(key, vc) \<in> set (vars config).
           \<forall>raw. env (env_prefix config @ key) = Some raw \<and> raw \<noteq> '''' \<longrightarrow>
             (\<forall>f. validator vc = Some f \<longrightarrow> f (Value raw) = Inr True)
             \<and> (transform vc = None \<and> type vc = Some T_number
                  \<longrightarrow> \<not> isNaN (parseFloat h raw))
             \<and> (transform vc = None \<and> type vc = Some T_json
                  \<longrightarrow> JSON_parse h raw \<noteq> None)))
     \<and> (\<forall>e. createConfig h env config = Inl e \<longrightarrow>
          (\<exists>(key, vc) \<in> set (vars config).
             \<exists>raw. env (env_prefix config @ key) = Some raw \<and> raw \<noteq> ''''
               \<and> ((\<exists>f. validator vc = Some f \<and> f (Value raw) = Inr False
                      \<and> e = Error (''Invalid value for environment variable ''
                                      @ env_prefix config @ key))
                    \<or> (transform vc = None \<and> type vc = Some T_number
                        \<and> isNaN (parseFloat h raw)
                        \<and> e = Error (''Invalid number for environment variable ''
                                        @ env_prefix config @ key))
                    \<or> (transform vc = None \<and> type vc = Some T_json
                        \<and> JSON_parse h raw = None
                        \<and> e = Error (''Invalid JSON for environment variable ''
                                        @ env_prefix config @ key)))))
     \<and> (\<forall>name. createConfig h env config
            \<noteq> Inl (Error (''Required environment variable '' @ name @ '' is not set'')))"
proof -
  let ?pfx = "env_prefix config"
  let ?cond = "\<lambda>key vc.
           \<forall>raw. env (?pfx @ key) = Some raw \<and> raw \<noteq> '''' \<longrightarrow>
             (\<forall>f. validator vc = Some f \<longrightarrow> f (Value raw) = Inr True)
             \<and> (transform vc = None \<and> type vc = Some T_number
                  \<longrightarrow> \<not> isNaN (parseFloat h raw))
             \<and> (transform vc = None \<and> type vc = Some T_json
                  \<longrightarrow> JSON_parse h raw \<noteq> None)"
  let ?fails = "\<lambda>key vc e.
             \<exists>raw. env (?pfx @ key) = Some raw \<and> raw \<noteq> ''''
               \<and> ((\<exists>f. validator vc = Some f \<and> f (Value raw) = Inr False
                      \<and> e = Error (''Invalid value for environment variable '' @ ?pfx @ key))
                    \<or> (transform vc = None \<and> type vc = Some T_number
                        \<and> isNaN (parseFloat h raw)
                        \<and> e = Error (''Invalid number for environment variable '' @ ?pfx @ key))
                    \<or> (transform vc = None \<and> type vc = Some T_json
                        \<and> JSON_parse h raw = None
                        \<and> e = Error (''Invalid JSON for environment variable '' @ ?pfx @ key)))"
  have entry: "((\<exists>r1. createConfig_body h env config ?pfx key vc r = Inr r1) \<longleftrightarrow> ?cond key vc)
               \<and> (\<forall>e. createConfig_body h env config ?pfx key vc r = Inl e \<longrightarrow> ?fails key vc e)"
    if mem: "(key, vc) \<in> set (vars config)" and r: "proto r = None" for key vc r
  proof (cases "env (?pfx @ key)")
    case None
    with assms(2) mem have m: "env (?pfx @ key) = Some ''''
        \<or> (env (?pfx @ key) = None \<and> ?pfx @ key \<notin> set object_prototype_names)"
      by auto
    from assms(1) mem have "required vc \<noteq> Some True \<or> strict config = Some False" by auto
    from createConfig_body_optional_missing
      [where env = env and pfx = "env_prefix config" and key = key and h = h and r = r,
       OF this m r] None
    show ?thesis by auto
  next
    case (Some raw)
    show ?thesis
    proof (cases "raw = ''''")
      case True
      with Some have m: "env (?pfx @ key) = Some ''''
          \<or> (env (?pfx @ key) = None \<and> ?pfx @ key \<notin> set object_prototype_names)"
        by simp
      from assms(1) mem have "required vc \<noteq> Some True \<or> strict config = Some False" by auto
      from createConfig_body_optional_missing
        [where env = env and pfx = "env_prefix config" and key = key and h = h and r = r,
         OF this m r] Some True
      show ?thesis by auto
    next
      case False
      from assms(3) mem Some False have
        v: "\<forall>f. validator vc = Some f \<longrightarrow> (\<exists>b. f (Value raw) = Inr b)"
        and t: "\<forall>t. transform vc = Some t \<longrightarrow> (\<exists>v. t (Value raw) = Inr v)"
        by auto
      note 1 = createConfig_body_present_ok_iff
        [where env = env and pfx = "env_prefix config" and key = key and h = h
           and config = config and r = r,
         OF Some False v t r]
      note 2 = createConfig_body_present_error
        [where env = env and pfx = "env_prefix config" and key = key and h = h
           and config = config and r = r,
         OF Some False v t]
      have a: "?cond key vc \<longleftrightarrow>
             (\<forall>f. validator vc = Some f \<longrightarrow> f (Value raw) = Inr True)
             \<and> (transform vc = None \<and> type vc = Some T_number
                  \<longrightarrow> \<not> isNaN (parseFloat h raw))
             \<and> (transform vc = None \<and> type vc = Some T_json
                  \<longrightarrow> JSON_parse h raw \<noteq> None)"
        using Some False by simp
      have b: "?fails key vc e" if "createConfig_body h env config ?pfx key vc r = Inl e" for e
        using 2 [OF that r] Some False by simp
      from 1 a b show ?thesis by blast
    qed
  qed
  have "(\<exists>res. createConfig h env config = Inr res)
        \<longleftrightarrow> (\<forall>(key, vc) \<in> set (vars config).
              \<exists>r1. createConfig_body h env config ?pfx key vc empty_object = Inr r1)"
    unfolding createConfig_def
    by (rule createConfig_loop_ok_iff) (simp_all add: empty_object_def assms(4))
  also have "\<dots> \<longleftrightarrow> (\<forall>(key, vc) \<in> set (vars config). ?cond key vc)"
  proof (rule ball_cong [OF refl])
    fix x assume x: "x \<in> set (vars config)"
    obtain key vc where kv: "x = (key, vc)" by (cases x)
    have "proto (empty_object :: 'a jsvalue js_object) = None" by (simp add: empty_object_def)
    from entry [of key vc empty_object, OF _ this] x kv
    show "(case x of (key, vc) \<Rightarrow>
                 \<exists>r1. createConfig_body h env config ?pfx key vc empty_object = Inr r1)
            = (case x of (key, vc) \<Rightarrow> ?cond key vc)"
      unfolding kv prod.case by blast
  qed
  finally have 1: "(\<exists>res. createConfig h env config = Inr res)
        \<longleftrightarrow> (\<forall>(key, vc) \<in> set (vars config). ?cond key vc)" .
  have 2: "\<exists>(key, vc) \<in> set (vars config). ?fails key vc e"
    if "createConfig h env config = Inl e" for e
  proof -
    have p: "proto (empty_object :: 'a jsvalue js_object) = None" by (simp add: empty_object_def)
    from createConfig_loop_error [OF p assms(4) that [unfolded createConfig_def]]
    obtain key vc where m: "(key, vc) \<in> set (vars config)"
      and b: "createConfig_body h env config ?pfx key vc empty_object = Inl e"
      by blast
    from entry [OF m p] b have "?fails key vc e" by blast
    with m show ?thesis by blast
  qed
  have 3: "createConfig h env config
            \<noteq> Inl (Error (''Required environment variable '' @ name @ '' is not set''))" for name
  proof
    assume "createConfig h env config
            = Inl (Error (''Required environment variable '' @ name @ '' is not set''))"
    from 2 [OF this] show False by auto
  qed
  from 1 2 3 show ?thesis by blast
qed

text \<open>
  The optional keys of the documentation's schema, with a level that has a validator and a
  transform, resolve in the good environment; in the bad one nothing is returned, and the
  error is not the one of a missing variable.
\<close>

theorem createConfig_no_required_witness:
  "(\<exists>res. createConfig sample_host sample_env optional_config = Inr res)
   \<and> (\<nexists>res. createConfig sample_host bad_env optional_config = Inr res)
   \<and> createConfig sample_host bad_env optional_config
       \<noteq> Inl (Error ''Required environment variable APP_PORT is not set'')"
proof -
  have req: "\<forall>(key, vc) \<in> set (vars optional_config). required vc \<noteq> Some True"
    by (simp add: optional_config_def rule_defs)
  have own: "\<forall>(key, vc) \<in> set (vars optional_config).
      \<not> (sample_env (env_prefix optional_config @ key) = None
         \<and> env_prefix optional_config @ key \<in> set object_prototype_names)"
    "\<forall>(key, vc) \<in> set (vars optional_config).
      \<not> (bad_env (env_prefix optional_config @ key) = None
         \<and> env_prefix optional_config @ key \<in> set object_prototype_names)"
    by (simp_all add: optional_config_def env_prefix_def object_prototype_names_def)
  have ret: "\<forall>(key, vc) \<in> set (vars optional_config).
      \<forall>raw. sample_env (env_prefix optional_config @ key) = Some raw \<and> raw \<noteq> '''' \<longrightarrow>
        (\<forall>f. validator vc = Some f \<longrightarrow> (\<exists>b. f (Value raw) = Inr b))
        \<and> (\<forall>t. transform vc = Some t \<longrightarrow> (\<exists>v. t (Value raw) = Inr v))"
    "\<forall>(key, vc) \<in> set (vars optional_config).
      \<forall>raw. bad_env (env_prefix optional_config @ key) = Some raw \<and> raw \<noteq> '''' \<longrightarrow>
        (\<forall>f. validator vc = Some f \<longrightarrow> (\<exists>b. f (Value raw) = Inr b))
        \<and> (\<forall>t. transform vc = Some t \<longrightarrow> (\<exists>v. t (Value raw) = Inr v))"
    by (auto simp: optional_config_def env_prefix_def rule_defs sample_env_def bad_env_def)
  have key: "''__proto__'' \<notin> fst ` set (vars optional_config)"
    by (simp add: optional_config_def)
  have ok: "\<forall>(key, vc) \<in> set (vars optional_config).
      \<forall>raw. sample_env (env_prefix optional_config @ key) = Some raw \<and> raw \<noteq> '''' \<longrightarrow>
        (\<forall>f. validator vc = Some f \<longrightarrow> f (Value raw) = Inr True)
        \<and> (transform vc = None \<and> type vc = Some T_number
             \<longrightarrow> \<not> isNaN (parseFloat sample_host raw))
        \<and> (transform vc = None \<and> type vc = Some T_json
             \<longrightarrow> JSON_parse sample_host raw \<noteq> None)"
    by (simp add: optional_config_def env_prefix_def rule_defs sample_env_def sample_host_def
        sample_JSON_parse_def sample_parses isNaN_def)
  have bad: "\<not> (\<forall>(key, vc) \<in> set (vars optional_config).
      \<forall>raw. bad_env (env_prefix optional_config @ key) = Some raw \<and> raw \<noteq> '''' \<longrightarrow>
        (\<forall>f. validator vc = Some f \<longrightarrow> f (Value raw) = Inr True)
        \<and> (transform vc = None \<and> type vc = Some T_number
             \<longrightarrow> \<not> isNaN (parseFloat sample_host raw))
        \<and> (transform vc = None \<and> type vc = Some T_json
             \<longrightarrow> JSON_parse sample_host raw \<noteq> None))"
    by (simp add: optional_config_def env_prefix_def rule_defs bad_env_def sample_host_def
        sample_JSON_parse_def sample_parses isNaN_def)
  note t = createConfig_no_required
    [where config = optional_config and h = sample_host and env = sample_env,
     OF req own(1) ret(1) key]
  note u = createConfig_no_required
    [where config = optional_config and h = sample_host and env = bad_env,
     OF req own(2) ret(2) key]
  from t [THEN conjunct1, THEN iffD2, OF ok]
  have 1: "\<exists>res. createConfig sample_host sample_env optional_config = Inr res" .
  from u [THEN conjunct1] bad
  have 2: "\<nexists>res. createConfig sample_host bad_env optional_config = Inr res"
    by (rule ssubst)
  from u [THEN conjunct2, THEN conjunct2, THEN spec, of "''APP_PORT''"]
  have 3: "createConfig sample_host bad_env optional_config
       \<noteq> Inl (Error ''Required environment variable APP_PORT is not set'')"
    by simp
  from 1 2 3 show ?thesis by (intro conjI)
qed

section \<open>The loop of validateConfig\<close>

text \<open>
  The body of the loop in its two cases, and what it adds to the two arrays, whatever they
  hold already.
\<close>

lemma validateConfig_body_read_missing:
  "get_property env (pfx @ key) = None \<or> get_property env (pfx @ key) = Some (Value '''')
   \<Longrightarrow> validateConfig_body h env pfx key vc acc =
        Inr (fst acc @ (if required vc = Some True then [''Missing required: '' @ pfx @ key]
                        else []),
             snd acc @ (if required vc \<noteq> Some True \<and> default_value vc = None
                        then [''Optional not set: '' @ pfx @ key] else []))"
  by (auto simp: validateConfig_body_def Let_def)

lemma validateConfig_body_read_present:
  "get_property env (pfx @ key) = Some rawValue \<Longrightarrow> rawValue \<noteq> Value ''''
   \<Longrightarrow> validateConfig_body h env pfx key vc acc =
        (case (case validator vc of Some accepts \<Rightarrow> accepts rawValue | None \<Rightarrow> Inr True) of
           Inl e \<Rightarrow> Inl e
         | Inr ok \<Rightarrow>
             Inr (fst acc
                  @ (if \<not> ok then [''Invalid value: '' @ pfx @ key] else [])
                  @ (if type vc = Some T_number \<and> isNaN (parseFloat_of h rawValue)
                     then [''Invalid number: '' @ pfx @ key] else [])
                  @ (if type vc = Some T_json \<and> JSON_parse_of h rawValue = None
                     then [''Invalid JSON: '' @ pfx @ key] else []),
                  snd acc))"
  by (auto simp: validateConfig_body_def Let_def split: sum.splits option.splits)

lemma validateConfig_body_factor:
  "\<exists>x. \<forall>acc. validateConfig_body h env pfx key vc acc
           = (case x of Inl e \<Rightarrow> Inl e
              | Inr new \<Rightarrow> Inr (fst acc @ fst new, snd acc @ snd new))"
proof (cases "get_property env (pfx @ key) = None
              \<or> get_property env (pfx @ key) = Some (Value '''')")
  case True
  note b = validateConfig_body_read_missing [OF True, of h vc]
  show ?thesis
    by (intro exI [of _ "Inr (if required vc = Some True
                              then [''Missing required: '' @ pfx @ key] else [],
                              if required vc \<noteq> Some True \<and> default_value vc = None
                              then [''Optional not set: '' @ pfx @ key] else [])"])
       (simp add: b)
next
  case False
  then obtain rawValue where r: "get_property env (pfx @ key) = Some rawValue"
    "rawValue \<noteq> Value ''''"
    by (cases "get_property env (pfx @ key)") auto
  note b = validateConfig_body_read_present [OF r, of h vc]
  let ?x = "case (case validator vc of Some accepts \<Rightarrow> accepts rawValue | None \<Rightarrow> Inr True) of
           Inl e \<Rightarrow> Inl e
         | Inr ok \<Rightarrow>
             Inr ((if \<not> ok then [''Invalid value: '' @ pfx @ key] else [])
                  @ (if type vc = Some T_number \<and> isNaN (parseFloat_of h rawValue)
                     then [''Invalid number: '' @ pfx @ key] else [])
                  @ (if type vc = Some T_json \<and> JSON_parse_of h rawValue = None
                     then [''Invalid JSON: '' @ pfx @ key] else []),
                  [])"
  show ?thesis
    by (intro exI [of _ ?x]) (simp add: b split: sum.splits)
qed

lemma validateConfig_body_Inl:
  "validateConfig_body h env pfx key vc acc = Inl e
   \<Longrightarrow> validateConfig_body h env pfx key vc acc' = Inl e"
proof -
  assume a: "validateConfig_body h env pfx key vc acc = Inl e"
  obtain x where x: "\<And>acc. validateConfig_body h env pfx key vc acc
           = (case x of Inl e \<Rightarrow> Inl e
              | Inr new \<Rightarrow> Inr (fst acc @ fst new, snd acc @ snd new))"
    using validateConfig_body_factor [of h env pfx key vc] by blast
  from a x [of acc] have "x = Inl e" by (cases x) simp_all
  with x [of acc'] show ?thesis by simp
qed

lemma validateConfig_body_Inr:
  "validateConfig_body h env pfx key vc acc = Inr acc1
   \<Longrightarrow> \<exists>new. validateConfig_body h env pfx key vc ([], []) = Inr new
            \<and> acc1 = (fst acc @ fst new, snd acc @ snd new)
            \<and> (\<forall>acc'. validateConfig_body h env pfx key vc acc'
                         = Inr (fst acc' @ fst new, snd acc' @ snd new))"
proof -
  assume a: "validateConfig_body h env pfx key vc acc = Inr acc1"
  obtain x where x: "\<And>acc. validateConfig_body h env pfx key vc acc
           = (case x of Inl e \<Rightarrow> Inl e
              | Inr new \<Rightarrow> Inr (fst acc @ fst new, snd acc @ snd new))"
    using validateConfig_body_factor [of h env pfx key vc] by blast
  from a x [of acc] obtain new where n: "x = Inr new" by (cases x) simp_all
  from x n have "validateConfig_body h env pfx key vc ([], []) = Inr new"
    "\<forall>acc'. validateConfig_body h env pfx key vc acc'
            = Inr (fst acc' @ fst new, snd acc' @ snd new)"
    by simp_all
  moreover from a x [of acc] n have "acc1 = (fst acc @ fst new, snd acc @ snd new)"
    by simp
  ultimately show ?thesis by blast
qed

text \<open>
  The loop only appends: what the iteration for an entry adds is in the arrays returned,
  and every warning and every error thrown comes from the iteration for some entry.
\<close>

lemma validateConfig_loop_mono:
  "validateConfig_loop h env pfx xs acc = Inr acc'
   \<Longrightarrow> set (fst acc) \<subseteq> set (fst acc') \<and> set (snd acc) \<subseteq> set (snd acc')"
proof (induction xs arbitrary: acc)
  case Nil
  then show ?case by simp
next
  case (Cons x xs)
  obtain k c where x: "x = (k, c)" by (cases x)
  from Cons.prems x obtain a1 where
    b: "validateConfig_body h env pfx k c acc = Inr a1"
    and l: "validateConfig_loop h env pfx xs a1 = Inr acc'"
    by (auto split: sum.splits)
  from validateConfig_body_Inr [OF b] obtain new where
    "a1 = (fst acc @ fst new, snd acc @ snd new)"
    by blast
  with Cons.IH [OF l] show ?case by auto
qed

lemma validateConfig_loop_entry:
  "validateConfig_loop h env pfx xs acc = Inr acc' \<Longrightarrow> (key, vc) \<in> set xs
   \<Longrightarrow> \<exists>new. validateConfig_body h env pfx key vc ([], []) = Inr new
            \<and> set (fst new) \<subseteq> set (fst acc') \<and> set (snd new) \<subseteq> set (snd acc')"
proof (induction xs arbitrary: acc)
  case Nil
  then show ?case by simp
next
  case (Cons x xs)
  obtain k c where x: "x = (k, c)" by (cases x)
  from Cons.prems(1) x obtain a1 where
    b: "validateConfig_body h env pfx k c acc = Inr a1"
    and l: "validateConfig_loop h env pfx xs a1 = Inr acc'"
    by (auto split: sum.splits)
  show ?case
  proof (cases "(key, vc) = (k, c)")
    case True
    from validateConfig_body_Inr [OF b] obtain new where
      n: "validateConfig_body h env pfx k c ([], []) = Inr new"
        "a1 = (fst acc @ fst new, snd acc @ snd new)"
      by blast
    from validateConfig_loop_mono [OF l] n(2)
    have "set (fst new) \<subseteq> set (fst acc') \<and> set (snd new) \<subseteq> set (snd acc')" by auto
    with n(1) True show ?thesis by auto
  next
    case False
    with Cons.prems(2) x have "(key, vc) \<in> set xs" by auto
    from Cons.IH [OF l this] show ?thesis .
  qed
qed

lemma validateConfig_loop_warning:
  "validateConfig_loop h env pfx xs acc = Inr acc' \<Longrightarrow> w \<in> set (snd acc')
   \<Longrightarrow> w \<in> set (snd acc)
       \<or> (\<exists>(k, c) \<in> set xs. \<exists>new. validateConfig_body h env pfx k c ([], []) = Inr new
                                   \<and> w \<in> set (snd new))"
proof (induction xs arbitrary: acc)
  case Nil
  then show ?case by simp
next
  case (Cons x xs)
  obtain k c where x: "x = (k, c)" by (cases x)
  from Cons.prems(1) x obtain a1 where
    b: "validateConfig_body h env pfx k c acc = Inr a1"
    and l: "validateConfig_loop h env pfx xs a1 = Inr acc'"
    by (auto split: sum.splits)
  from validateConfig_body_Inr [OF b] obtain new where
    n: "validateConfig_body h env pfx k c ([], []) = Inr new"
      "a1 = (fst acc @ fst new, snd acc @ snd new)"
    by blast
  from Cons.IH [OF l Cons.prems(2)] n x show ?case by (cases new) auto
qed

lemma validateConfig_loop_error:
  "validateConfig_loop h env pfx xs acc = Inl e
   \<Longrightarrow> \<exists>(k, c) \<in> set xs. validateConfig_body h env pfx k c ([], []) = Inl e"
proof (induction xs arbitrary: acc)
  case Nil
  then show ?case by simp
next
  case (Cons x xs)
  obtain k c where x: "x = (k, c)" by (cases x)
  show ?case
  proof (cases "validateConfig_body h env pfx k c acc")
    case (Inl e1)
    with Cons.prems x have "e1 = e" by simp
    with Inl validateConfig_body_Inl [of h env pfx k c acc e "([], [])"] x
    show ?thesis by auto
  next
    case (Inr a1)
    with Cons.prems x have "validateConfig_loop h env pfx xs a1 = Inl e" by simp
    from Cons.IH [OF this] show ?thesis by auto
  qed
qed

lemma validateConfig_loop_returns:
  "\<forall>(k, c) \<in> set xs. \<exists>new. validateConfig_body h env pfx k c ([], []) = Inr new
   \<Longrightarrow> \<exists>acc'. validateConfig_loop h env pfx xs acc = Inr acc'"
proof (induction xs arbitrary: acc)
  case Nil
  then show ?case by simp
next
  case (Cons x xs)
  obtain k c where x: "x = (k, c)" by (cases x)
  from Cons.prems x obtain new where "validateConfig_body h env pfx k c ([], []) = Inr new"
    by auto
  from validateConfig_body_Inr [OF this]
  obtain a1 where "validateConfig_body h env pfx k c acc = Inr a1" by blast
  moreover from Cons.prems have
    "\<forall>(k, c) \<in> set xs. \<exists>new. validateConfig_body h env pfx k c ([], []) = Inr new"
    by simp
  from Cons.IH [OF this, of a1] obtain acc' where
    "validateConfig_loop h env pfx xs a1 = Inr acc'" ..
  ultimately show ?case using x by simp
qed

lemma validateConfig_body_missing:
  "env (pfx @ key) = Some '''' \<or> (env (pfx @ key) = None \<and> pfx @ key \<notin> set object_prototype_names)
   \<Longrightarrow> validateConfig_body h env pfx key vc ([], []) =
        Inr (if required vc = Some True then [''Missing required: '' @ pfx @ key] else [],
             if required vc \<noteq> Some True \<and> default_value vc = None
             then [''Optional not set: '' @ pfx @ key] else [])"
proof -
  assume "env (pfx @ key) = Some ''''
    \<or> (env (pfx @ key) = None \<and> pfx @ key \<notin> set object_prototype_names)"
  then have "get_property env (pfx @ key) = None
      \<or> get_property env (pfx @ key) = Some (Value '''')"
    by (auto simp: get_property_None get_property_Value)
  from validateConfig_body_read_missing [OF this, of h vc "([], [])"]
  show ?thesis by simp
qed

lemma validateConfig_body_present:
  "env (pfx @ key) = Some raw \<Longrightarrow> raw \<noteq> ''''
   \<Longrightarrow> validateConfig_body h env pfx key vc ([], []) =
        (case (case validator vc of Some accepts \<Rightarrow> accepts (Value raw) | None \<Rightarrow> Inr True) of
           Inl e \<Rightarrow> Inl e
         | Inr ok \<Rightarrow>
             Inr ((if \<not> ok then [''Invalid value: '' @ pfx @ key] else [])
                  @ (if type vc = Some T_number \<and> isNaN (parseFloat h raw)
                     then [''Invalid number: '' @ pfx @ key] else [])
                  @ (if type vc = Some T_json \<and> JSON_parse h raw = None
                     then [''Invalid JSON: '' @ pfx @ key] else []),
                  []))"
proof -
  assume "env (pfx @ key) = Some raw" "raw \<noteq> ''''"
  then have "get_property env (pfx @ key) = Some (Value raw)" "Value raw \<noteq> Value []"
    by (simp_all add: get_property_set)
  note b = validateConfig_body_read_present [OF this, of h vc "([], [])"]
  show ?thesis unfolding b by (simp split: sum.splits)
qed

lemma validateConfig_body_warning:
  "validateConfig_body h env pfx key vc ([], []) = Inr new \<Longrightarrow> w \<in> set (snd new)
   \<Longrightarrow> w = ''Optional not set: '' @ pfx @ key \<and> required vc \<noteq> Some True"
proof (cases "get_property env (pfx @ key) = None
              \<or> get_property env (pfx @ key) = Some (Value '''')")
  case True
  assume a: "validateConfig_body h env pfx key vc ([], []) = Inr new" "w \<in> set (snd new)"
  from validateConfig_body_read_missing [OF True, of h vc "([], [])"] a
  show ?thesis by (auto split: if_splits)
next
  case False
  assume a: "validateConfig_body h env pfx key vc ([], []) = Inr new" "w \<in> set (snd new)"
  from False obtain rawValue where r: "get_property env (pfx @ key) = Some rawValue"
    "rawValue \<noteq> Value ''''"
    by (cases "get_property env (pfx @ key)") auto
  from validateConfig_body_read_present [OF r, of h vc "([], [])"] a
  show ?thesis by (auto split: sum.splits)
qed

lemma validateConfig_body_throw:
  "validateConfig_body h env pfx key vc ([], []) = Inl e
   \<Longrightarrow> \<exists>raw f. get_property env (pfx @ key) = Some raw \<and> raw \<noteq> Value ''''
               \<and> validator vc = Some f \<and> f raw = Inl e"
proof (cases "get_property env (pfx @ key) = None
              \<or> get_property env (pfx @ key) = Some (Value '''')")
  case True
  assume a: "validateConfig_body h env pfx key vc ([], []) = Inl e"
  from validateConfig_body_read_missing [OF True, of h vc "([], [])"] a
  show ?thesis by simp
next
  case False
  assume a: "validateConfig_body h env pfx key vc ([], []) = Inl e"
  from False obtain rawValue where r: "get_property env (pfx @ key) = Some rawValue"
    "rawValue \<noteq> Value ''''"
    by (cases "get_property env (pfx @ key)") auto
  from validateConfig_body_read_present [OF r, of h vc "([], [])"] a r
  show ?thesis by (auto split: sum.splits option.splits)
qed

lemma validateConfig_body_returns:
  "\<forall>raw f. get_property env (pfx @ key) = Some raw \<and> raw \<noteq> Value '''' \<and> validator vc = Some f
             \<longrightarrow> (\<exists>b. f raw = Inr b)
   \<Longrightarrow> \<exists>new. validateConfig_body h env pfx key vc ([], []) = Inr new"
proof (cases "validateConfig_body h env pfx key vc ([], [])")
  case (Inl e)
  assume a: "\<forall>raw f. get_property env (pfx @ key) = Some raw \<and> raw \<noteq> Value ''''
                \<and> validator vc = Some f \<longrightarrow> (\<exists>b. f raw = Inr b)"
  from validateConfig_body_throw [OF Inl] a show ?thesis by force
next
  case (Inr new)
  then show ?thesis by blast
qed

lemma validateConfig_entry:
  assumes "validateConfig h env config = Inr R" and "(key, vc) \<in> set (vars config)"
  shows "\<exists>new. validateConfig_body h env (env_prefix config) key vc ([], []) = Inr new
           \<and> set (fst new) \<subseteq> set (errors R) \<and> set (snd new) \<subseteq> set (warnings R)"
proof -
  from assms(1) obtain acc where
    l: "validateConfig_loop h env (env_prefix config) (vars config) ([], []) = Inr acc"
    and R: "R = \<lparr>valid = (length (fst acc) = 0), errors = fst acc, warnings = snd acc\<rparr>"
    by (auto simp: validateConfig_def split: sum.splits)
  from validateConfig_loop_entry [OF l assms(2)] R show ?thesis by simp
qed

lemma validateConfig_valid:
  "validateConfig h env config = Inr R \<Longrightarrow> valid R \<longleftrightarrow> errors R = []"
  by (auto simp: validateConfig_def split: sum.splits)

lemma validateConfig_warning:
  assumes "validateConfig h env config = Inr R" and "w \<in> set (warnings R)"
  shows "\<exists>(k, c) \<in> set (vars config).
           \<exists>new. validateConfig_body h env (env_prefix config) k c ([], []) = Inr new
                 \<and> w \<in> set (snd new)"
proof -
  from assms(1) obtain acc where
    l: "validateConfig_loop h env (env_prefix config) (vars config) ([], []) = Inr acc"
    and R: "R = \<lparr>valid = (length (fst acc) = 0), errors = fst acc, warnings = snd acc\<rparr>"
    by (auto simp: validateConfig_def split: sum.splits)
  from assms(2) R have "w \<in> set (snd acc)" by simp
  from validateConfig_loop_warning [OF l this] show ?thesis by simp
qed

lemma validateConfig_error:
  "validateConfig h env config = Inl e
   \<Longrightarrow> \<exists>(k, c) \<in> set (vars config).
         validateConfig_body h env (env_prefix config) k c ([], []) = Inl e"
  by (auto simp: validateConfig_def split: sum.splits dest: validateConfig_loop_error)

lemma validateConfig_returns:
  assumes "\<forall>(key, vc) \<in> set (vars config).
      \<forall>raw f. get_property env (env_prefix config @ key) = Some raw \<and> raw \<noteq> Value ''''
               \<and> validator vc = Some f \<longrightarrow> (\<exists>b. f raw = Inr b)"
  shows "\<exists>R. validateConfig h env config = Inr R"
proof -
  have "\<forall>(k, c) \<in> set (vars config).
      \<exists>new. validateConfig_body h env (env_prefix config) k c ([], []) = Inr new"
  proof (rule ballI)
    fix x assume x: "x \<in> set (vars config)"
    obtain k c where kc: "x = (k, c)" by (cases x)
    from assms x kc have "\<forall>raw f. get_property env (env_prefix config @ k) = Some raw
        \<and> raw \<noteq> Value '''' \<and> validator c = Some f \<longrightarrow> (\<exists>b. f raw = Inr b)"
      by auto
    from validateConfig_body_returns [OF this]
    show "case x of (k, c) \<Rightarrow>
        \<exists>new. validateConfig_body h env (env_prefix config) k c ([], []) = Inr new"
      unfolding kc prod.case .
  qed
  from validateConfig_loop_returns [OF this, of "([], [])"]
  show ?thesis by (auto simp: validateConfig_def)
qed

lemma validateConfig_no_warning:
  assumes "validateConfig h env config = Inr R"
    and "distinct (map fst (vars config))" "(key, vc) \<in> set (vars config)"
    and "required vc = Some True"
  shows "''Optional not set: '' @ env_prefix config @ key \<notin> set (warnings R)"
proof
  assume "''Optional not set: '' @ env_prefix config @ key \<in> set (warnings R)"
  from validateConfig_warning [OF assms(1) this] obtain k c new where
    kc: "(k, c) \<in> set (vars config)"
    and b: "validateConfig_body h env (env_prefix config) k c ([], []) = Inr new"
    and w: "''Optional not set: '' @ env_prefix config @ key \<in> set (snd new)"
    by auto
  from validateConfig_body_warning [OF b w] have "k = key" "required c \<noteq> Some True"
    by simp_all
  with kc assms(2,3) have "c = vc" by (auto dest: eq_key_imp_eq_value)
  with assms(4) \<open>required c \<noteq> Some True\<close> show False by simp
qed

lemma validateConfig_not_valid:
  "validateConfig h env config = Inr R \<Longrightarrow> x \<in> set (errors R) \<Longrightarrow> \<not> valid R"
  by (auto simp: validateConfig_valid)

section \<open>Properties of validateConfig\<close>

text \<open>
  C4, as stated, fails in three ways.
  The validator of the key \<open>CHAIN\<close> throws on \<open>devnet\<close>; it is called outside any
  \<^verbatim>\<open>try\<close>, so \<open>validateConfig\<close> throws.
  The required key \<^verbatim>\<open>toString\<close> has no variable; but the value read is the
  inherited function, so the key does not count as missing: nothing is reported and
  \<open>valid\<close> is true.
  The optional key \<^verbatim>\<open>valueOf\<close>, of type \<open>json\<close> and without a default, has no
  variable; but the value read is the inherited function, so there is no warning, and an
  error instead, since the function is no JSON text.
\<close>

theorem validateConfig_spec_counterexample:
  "chain_env ''CHAIN'' = Some ''devnet''
   \<and> validateConfig sample_host chain_env chain_config = Inl (Error ''unknown network'')
   \<and> no_env ''toString'' = None
   \<and> required api_key_rule = Some True
   \<and> validateConfig sample_host no_env
         \<lparr>vars = [(''toString'', api_key_rule)], prefix = None, strict = None\<rparr>
       = Inr \<lparr>valid = True, errors = [], warnings = []\<rparr>
   \<and> no_env ''valueOf'' = None
   \<and> required settings_rule = Some False \<and> default_value settings_rule = None
   \<and> validateConfig sample_host no_env
         \<lparr>vars = [(''valueOf'', settings_rule)], prefix = None, strict = None\<rparr>
       = Inr \<lparr>valid = False, errors = [''Invalid JSON: valueOf''], warnings = []\<rparr>"
  by (simp add: eval_defs Let_def)

text \<open>
  C4, amended. \<open>validateConfig\<close> returns whenever every validator that it calls
  returns: the validators of the rules whose key reads as a value other than
  \<^verbatim>\<open>undefined\<close> and the empty string. An error that it throws is one that such a
  validator has thrown on that value.

  Whenever it returns, \<open>valid\<close> is true exactly when \<open>errors\<close> is empty, and for
  every entry of the schema:
  if the variable is set to the empty string, or is not set under a name that is none of
  the names inherited from \<^verbatim>\<open>Object.prototype\<close>, then a required key has
  \<^verbatim>\<open>Missing required: <name>\<close> in \<open>errors\<close> and, the keys of the schema being
  distinct, does not have \<^verbatim>\<open>Optional not set: <name>\<close> in \<open>warnings\<close>, and a key
  that is not required and has no default has \<^verbatim>\<open>Optional not set: <name>\<close> in
  \<open>warnings\<close>;
  if the variable is set to a string that is not empty, then \<open>errors\<close> has
  \<^verbatim>\<open>Invalid value: <name>\<close> when the validator returns false on it,
  \<^verbatim>\<open>Invalid number: <name>\<close> when the type is \<open>number\<close> and it parses to NaN, and
  \<^verbatim>\<open>Invalid JSON: <name>\<close> when the type is \<open>json\<close> and it does not parse.
\<close>

theorem validateConfig_spec:
  "((\<forall>(key, vc) \<in> set (vars config).
       \<forall>raw f. get_property env (env_prefix config @ key) = Some raw \<and> raw \<noteq> Value ''''
                \<and> validator vc = Some f \<longrightarrow> (\<exists>b. f raw = Inr b))
      \<longrightarrow> (\<exists>R. validateConfig h env config = Inr R))
   \<and> (\<forall>e. validateConfig h env config = Inl e \<longrightarrow>
        (\<exists>(key, vc) \<in> set (vars config).
           \<exists>raw f. get_property env (env_prefix config @ key) = Some raw \<and> raw \<noteq> Value ''''
                    \<and> validator vc = Some f \<and> f raw = Inl e))
   \<and> (\<forall>R. validateConfig h env config = Inr R \<longrightarrow>
        (valid R \<longleftrightarrow> errors R = [])
        \<and> (\<forall>(key, vc) \<in> set (vars config).
             (env (env_prefix config @ key) = Some ''''
              \<or> (env (env_prefix config @ key) = None
                  \<and> env_prefix config @ key \<notin> set object_prototype_names) \<longrightarrow>
                (required vc = Some True \<longrightarrow>
                   ''Missing required: '' @ env_prefix config @ key \<in> set (errors R)
                   \<and> (distinct (map fst (vars config)) \<longrightarrow>
                        ''Optional not set: '' @ env_prefix config @ key \<notin> set (warnings R)))
                \<and> (required vc \<noteq> Some True \<and> default_value vc = None \<longrightarrow>
                     ''Optional not set: '' @ env_prefix config @ key \<in> set (warnings R)))
             \<and> (\<forall>raw. env (env_prefix config @ key) = Some raw \<and> raw \<noteq> '''' \<longrightarrow>
                  (\<forall>f. validator vc = Some f \<and> f (Value raw) = Inr False \<longrightarrow>
                     ''Invalid value: '' @ env_prefix config @ key \<in> set (errors R))
                  \<and> (type vc = Some T_number \<and> isNaN (parseFloat h raw) \<longrightarrow>
                       ''Invalid number: '' @ env_prefix config @ key \<in> set (errors R))
                  \<and> (type vc = Some T_json \<and> JSON_parse h raw = None \<longrightarrow>
                       ''Invalid JSON: '' @ env_prefix config @ key \<in> set (errors R)))))"
proof (intro conjI impI allI)
  assume "\<forall>(key, vc) \<in> set (vars config).
       \<forall>raw f. get_property env (env_prefix config @ key) = Some raw \<and> raw \<noteq> Value ''''
                \<and> validator vc = Some f \<longrightarrow> (\<exists>b. f raw = Inr b)"
  then show "\<exists>R. validateConfig h env config = Inr R"
    by (rule validateConfig_returns)
next
  fix e assume "validateConfig h env config = Inl e"
  from validateConfig_error [OF this] obtain k c where
    m: "(k, c) \<in> set (vars config)"
    and b: "validateConfig_body h env (env_prefix config) k c ([], []) = Inl e"
    by auto
  from validateConfig_body_throw [OF b] m
  show "\<exists>(key, vc) \<in> set (vars config).
           \<exists>raw f. get_property env (env_prefix config @ key) = Some raw \<and> raw \<noteq> Value ''''
                    \<and> validator vc = Some f \<and> f raw = Inl e"
    by blast
next
  fix R assume "validateConfig h env config = Inr R"
  then show "valid R \<longleftrightarrow> errors R = []" by (rule validateConfig_valid)
next
  fix R assume R: "validateConfig h env config = Inr R"
  show "\<forall>(key, vc) \<in> set (vars config).
             (env (env_prefix config @ key) = Some ''''
              \<or> (env (env_prefix config @ key) = None
                  \<and> env_prefix config @ key \<notin> set object_prototype_names) \<longrightarrow>
                (required vc = Some True \<longrightarrow>
                   ''Missing required: '' @ env_prefix config @ key \<in> set (errors R)
                   \<and> (distinct (map fst (vars config)) \<longrightarrow>
                        ''Optional not set: '' @ env_prefix config @ key \<notin> set (warnings R)))
                \<and> (required vc \<noteq> Some True \<and> default_value vc = None \<longrightarrow>
                     ''Optional not set: '' @ env_prefix config @ key \<in> set (warnings R)))
             \<and> (\<forall>raw. env (env_prefix config @ key) = Some raw \<and> raw \<noteq> '''' \<longrightarrow>
                  (\<forall>f. validator vc = Some f \<and> f (Value raw) = Inr False \<longrightarrow>
                     ''Invalid value: '' @ env_prefix config @ key \<in> set (errors R))
                  \<and> (type vc = Some T_number \<and> isNaN (parseFloat h raw) \<longrightarrow>
                       ''Invalid number: '' @ env_prefix config @ key \<in> set (errors R))
                  \<and> (type vc = Some T_json \<and> JSON_parse h raw = None \<longrightarrow>
                       ''Invalid JSON: '' @ env_prefix config @ key \<in> set (errors R)))"
  proof (rule ballI)
    fix x assume x: "x \<in> set (vars config)"
    obtain key vc where kv: "x = (key, vc)" by (cases x)
    with x have mem: "(key, vc) \<in> set (vars config)" by simp
    from validateConfig_entry [OF R mem] obtain new where
      new: "validateConfig_body h env (env_prefix config) key vc ([], []) = Inr new"
      and sub: "set (fst new) \<subseteq> set (errors R)" "set (snd new) \<subseteq> set (warnings R)"
      by blast
    have missing: "new =
        (if required vc = Some True
         then [''Missing required: '' @ env_prefix config @ key] else [],
         if required vc \<noteq> Some True \<and> default_value vc = None
         then [''Optional not set: '' @ env_prefix config @ key] else [])"
      if "env (env_prefix config @ key) = Some ''''
          \<or> (env (env_prefix config @ key) = None
              \<and> env_prefix config @ key \<notin> set object_prototype_names)"
      using validateConfig_body_missing
        [where env = env and pfx = "env_prefix config" and key = key and h = h and vc = vc,
         OF that] new
      by simp
    have present: "(case (case validator vc of
                            Some accepts \<Rightarrow> accepts (Value raw) | None \<Rightarrow> Inr True) of
           Inl e \<Rightarrow> Inl e
         | Inr ok \<Rightarrow>
             Inr ((if \<not> ok then [''Invalid value: '' @ env_prefix config @ key] else [])
                  @ (if type vc = Some T_number \<and> isNaN (parseFloat h raw)
                     then [''Invalid number: '' @ env_prefix config @ key] else [])
                  @ (if type vc = Some T_json \<and> JSON_parse h raw = None
                     then [''Invalid JSON: '' @ env_prefix config @ key] else []),
                  [])) = Inr new"
      if "env (env_prefix config @ key) = Some raw \<and> raw \<noteq> ''''" for raw
      using validateConfig_body_present
        [where env = env and pfx = "env_prefix config" and key = key and h = h and vc = vc
           and raw = raw, OF that [THEN conjunct1] that [THEN conjunct2]] new
      by simp
    have m1: "''Missing required: '' @ env_prefix config @ key \<in> set (errors R)"
      if "env (env_prefix config @ key) = Some ''''
          \<or> (env (env_prefix config @ key) = None
              \<and> env_prefix config @ key \<notin> set object_prototype_names)"
        "required vc = Some True"
      using missing [OF that(1)] that(2) sub(1) by auto
    have m3: "''Optional not set: '' @ env_prefix config @ key \<notin> set (warnings R)"
      if "required vc = Some True" "distinct (map fst (vars config))"
      using validateConfig_no_warning [OF R that(2) mem that(1)] .
    have m4: "''Optional not set: '' @ env_prefix config @ key \<in> set (warnings R)"
      if "env (env_prefix config @ key) = Some ''''
          \<or> (env (env_prefix config @ key) = None
              \<and> env_prefix config @ key \<notin> set object_prototype_names)"
        "required vc \<noteq> Some True \<and> default_value vc = None"
      using missing [OF that(1)] that(2) sub(2) by auto
    have p1: "''Invalid value: '' @ env_prefix config @ key \<in> set (errors R)"
      if "env (env_prefix config @ key) = Some raw \<and> raw \<noteq> ''''"
        "validator vc = Some f \<and> f (Value raw) = Inr False" for raw f
      using present [OF that(1)] that(2) sub(1) by auto
    have p2: "''Invalid number: '' @ env_prefix config @ key \<in> set (errors R)"
      if "env (env_prefix config @ key) = Some raw \<and> raw \<noteq> ''''"
        "type vc = Some T_number \<and> isNaN (parseFloat h raw)" for raw
      using present [OF that(1)] that(2) sub(1) by (auto split: sum.splits)
    have p3: "''Invalid JSON: '' @ env_prefix config @ key \<in> set (errors R)"
      if "env (env_prefix config @ key) = Some raw \<and> raw \<noteq> ''''"
        "type vc = Some T_json \<and> JSON_parse h raw = None" for raw
      using present [OF that(1)] that(2) sub(1) by (auto split: sum.splits)
    show "case x of (key, vc) \<Rightarrow>
             (env (env_prefix config @ key) = Some ''''
              \<or> (env (env_prefix config @ key) = None
                  \<and> env_prefix config @ key \<notin> set object_prototype_names) \<longrightarrow>
                (required vc = Some True \<longrightarrow>
                   ''Missing required: '' @ env_prefix config @ key \<in> set (errors R)
                   \<and> (distinct (map fst (vars config)) \<longrightarrow>
                        ''Optional not set: '' @ env_prefix config @ key \<notin> set (warnings R)))
                \<and> (required vc \<noteq> Some True \<and> default_value vc = None \<longrightarrow>
                     ''Optional not set: '' @ env_prefix config @ key \<in> set (warnings R)))
             \<and> (\<forall>raw. env (env_prefix config @ key) = Some raw \<and> raw \<noteq> '''' \<longrightarrow>
                  (\<forall>f. validator vc = Some f \<and> f (Value raw) = Inr False \<longrightarrow>
                     ''Invalid value: '' @ env_prefix config @ key \<in> set (errors R))
                  \<and> (type vc = Some T_number \<and> isNaN (parseFloat h raw) \<longrightarrow>
                       ''Invalid number: '' @ env_prefix config @ key \<in> set (errors R))
                  \<and> (type vc = Some T_json \<and> JSON_parse h raw = None \<longrightarrow>
                       ''Invalid JSON: '' @ env_prefix config @ key \<in> set (errors R)))"
      unfolding kv prod.case
      apply (intro conjI impI allI)
      subgoal by (rule m1)
      subgoal by (rule m3)
      subgoal by (rule m4)
      subgoal by (rule p1)
      subgoal by (rule p2)
      subgoal by (rule p3)
      done
  qed
qed

text \<open>
  The documentation's schema in the bad environment collects all four kinds of error; in
  the empty environment the settings are a warning; in the good environment it is valid.
\<close>

theorem validateConfig_spec_witness:
  "(\<exists>R. validateConfig sample_host bad_env sample_config = Inr R
      \<and> ''Missing required: APP_API_KEY'' \<in> set (errors R)
      \<and> ''Optional not set: APP_API_KEY'' \<notin> set (warnings R)
      \<and> ''Invalid number: APP_PORT'' \<in> set (errors R)
      \<and> ''Invalid JSON: APP_SETTINGS'' \<in> set (errors R)
      \<and> ''Invalid value: APP_NETWORK'' \<in> set (errors R)
      \<and> \<not> valid R)
   \<and> (\<exists>R. validateConfig sample_host no_env sample_config = Inr R
        \<and> ''Optional not set: APP_SETTINGS'' \<in> set (warnings R))
   \<and> (\<exists>R. validateConfig sample_host sample_env sample_config = Inr R \<and> valid R)"
proof -
  note bad = validateConfig_spec
    [where h = sample_host and config = sample_config and env = bad_env]
  note none = validateConfig_spec
    [where h = sample_host and config = sample_config and env = no_env]
  note good = validateConfig_spec
    [where h = sample_host and config = sample_config and env = sample_env]
  have d: "distinct (map fst (vars sample_config))"
    by (simp add: sample_config_def)
  txt \<open>the bad environment\<close>
  from bad [THEN conjunct1, THEN mp, OF sample_validators_return]
  obtain R where R: "validateConfig sample_host bad_env sample_config = Inr R"
    by (rule exE)
  note each = bad [THEN conjunct2, THEN conjunct2, THEN spec, THEN mp, OF R, THEN conjunct2,
                   THEN bspec]
  have m: "(''API_KEY'', api_key_rule) \<in> set (vars sample_config)"
    and e: "bad_env (env_prefix sample_config @ ''API_KEY'') = Some ''''
            \<or> (bad_env (env_prefix sample_config @ ''API_KEY'') = None
                \<and> env_prefix sample_config @ ''API_KEY'' \<notin> set object_prototype_names)"
    and r: "required api_key_rule = Some True"
    by (simp_all add: sample_config_def api_key_rule_def env_prefix_def bad_env_def)
  note k = each [OF m, unfolded prod.case, THEN conjunct1, THEN mp, OF e,
                 THEN conjunct1, THEN mp, OF r]
  have 1: "''Missing required: APP_API_KEY'' \<in> set (errors R)"
    using k [THEN conjunct1] unfolding sample_prefix by simp
  have 2: "''Optional not set: APP_API_KEY'' \<notin> set (warnings R)"
    using k [THEN conjunct2, THEN mp, OF d] unfolding sample_prefix by simp
  have m: "(''PORT'', port_rule) \<in> set (vars sample_config)"
    and e: "bad_env (env_prefix sample_config @ ''PORT'') = Some ''abc'' \<and> ''abc'' \<noteq> ''''"
    and n: "type port_rule = Some T_number \<and> isNaN (parseFloat sample_host ''abc'')"
    by (simp_all add: sample_config_def port_rule_def env_prefix_def bad_env_def
        sample_host_def sample_parses isNaN_def)
  have 3: "''Invalid number: APP_PORT'' \<in> set (errors R)"
    using each [OF m, unfolded prod.case, THEN conjunct2, THEN spec,
                THEN mp, OF e, THEN conjunct2, THEN conjunct1, THEN mp, OF n]
    unfolding sample_prefix by simp
  have m: "(''SETTINGS'', settings_rule) \<in> set (vars sample_config)"
    and e: "bad_env (env_prefix sample_config @ ''SETTINGS'') = Some ''{oops''
            \<and> ''{oops'' \<noteq> ''''"
    and n: "type settings_rule = Some T_json \<and> JSON_parse sample_host ''{oops'' = None"
    by (simp_all add: sample_config_def settings_rule_def env_prefix_def bad_env_def
        sample_host_def sample_JSON_parse_def)
  have 4: "''Invalid JSON: APP_SETTINGS'' \<in> set (errors R)"
    using each [OF m, unfolded prod.case, THEN conjunct2, THEN spec,
                THEN mp, OF e, THEN conjunct2, THEN conjunct2, THEN mp, OF n]
    unfolding sample_prefix by simp
  have m: "(''NETWORK'', network_rule) \<in> set (vars sample_config)"
    and e: "bad_env (env_prefix sample_config @ ''NETWORK'') = Some ''devnet''
            \<and> ''devnet'' \<noteq> ''''"
    and n: "validator network_rule = Some network_ok
            \<and> network_ok (Value ''devnet'') = Inr False"
    by (simp_all add: sample_config_def network_rule_def env_prefix_def bad_env_def)
  have 5: "''Invalid value: APP_NETWORK'' \<in> set (errors R)"
    using each [OF m, unfolded prod.case, THEN conjunct2, THEN spec,
                THEN mp, OF e, THEN conjunct1, THEN spec, THEN mp, OF n]
    unfolding sample_prefix by simp
  from 1 have "errors R \<noteq> []" by auto
  with bad [THEN conjunct2, THEN conjunct2, THEN spec, THEN mp, OF R, THEN conjunct1]
  have 6: "\<not> valid R" by simp
  from R 1 2 3 4 5 6
  have "validateConfig sample_host bad_env sample_config = Inr R
      \<and> ''Missing required: APP_API_KEY'' \<in> set (errors R)
      \<and> ''Optional not set: APP_API_KEY'' \<notin> set (warnings R)
      \<and> ''Invalid number: APP_PORT'' \<in> set (errors R)
      \<and> ''Invalid JSON: APP_SETTINGS'' \<in> set (errors R)
      \<and> ''Invalid value: APP_NETWORK'' \<in> set (errors R)
      \<and> \<not> valid R"
    by (intro conjI)
  then have a: "\<exists>R. validateConfig sample_host bad_env sample_config = Inr R
      \<and> ''Missing required: APP_API_KEY'' \<in> set (errors R)
      \<and> ''Optional not set: APP_API_KEY'' \<notin> set (warnings R)
      \<and> ''Invalid number: APP_PORT'' \<in> set (errors R)
      \<and> ''Invalid JSON: APP_SETTINGS'' \<in> set (errors R)
      \<and> ''Invalid value: APP_NETWORK'' \<in> set (errors R)
      \<and> \<not> valid R"
    by (rule exI [where x = R])
  txt \<open>the optional key without a default, in the empty environment\<close>
  from none [THEN conjunct1, THEN mp, OF sample_validators_return]
  obtain N where N: "validateConfig sample_host no_env sample_config = Inr N"
    by (rule exE)
  have m: "(''SETTINGS'', settings_rule) \<in> set (vars sample_config)"
    and e: "no_env (env_prefix sample_config @ ''SETTINGS'') = Some ''''
            \<or> (no_env (env_prefix sample_config @ ''SETTINGS'') = None
                \<and> env_prefix sample_config @ ''SETTINGS'' \<notin> set object_prototype_names)"
    and n: "required settings_rule \<noteq> Some True \<and> default_value settings_rule = None"
    by (simp_all add: sample_config_def settings_rule_def env_prefix_def no_env_def
        object_prototype_names_def)
  have "''Optional not set: APP_SETTINGS'' \<in> set (warnings N)"
    using none [THEN conjunct2, THEN conjunct2, THEN spec, THEN mp, OF N, THEN conjunct2,
                THEN bspec, OF m, unfolded prod.case, THEN conjunct1, THEN mp, OF e,
                THEN conjunct2, THEN mp, OF n]
    unfolding sample_prefix by simp
  with N have "validateConfig sample_host no_env sample_config = Inr N
        \<and> ''Optional not set: APP_SETTINGS'' \<in> set (warnings N)"
    by (intro conjI)
  then have b: "\<exists>R. validateConfig sample_host no_env sample_config = Inr R
        \<and> ''Optional not set: APP_SETTINGS'' \<in> set (warnings R)"
    by (rule exI [where x = N])
  txt \<open>the good environment\<close>
  from good [THEN conjunct1, THEN mp, OF sample_validators_return]
  obtain G where G: "validateConfig sample_host sample_env sample_config = Inr G"
    by (rule exE)
  have "validateConfig sample_host sample_env sample_config
          = Inr \<lparr>valid = True, errors = [], warnings = []\<rparr>"
    by (simp add: eval_defs Let_def)
  with G have "errors G = []" by auto
  with good [THEN conjunct2, THEN conjunct2, THEN spec, THEN mp, OF G, THEN conjunct1]
  have "valid G" by simp
  with G have "validateConfig sample_host sample_env sample_config = Inr G \<and> valid G"
    by (intro conjI)
  then have c: "\<exists>R. validateConfig sample_host sample_env sample_config = Inr R \<and> valid R"
    by (rule exI [where x = G])
  from a b c show ?thesis by (intro conjI)
qed

text \<open>
  C5, as stated, fails in three ways, all with \<open>strict\<close> set to false.
  The required key \<^verbatim>\<open>toString\<close> has no variable; but the value read is the
  inherited function, so \<open>validateConfig\<close> reports nothing and returns \<open>valid\<close> true.
  The required key \<open>API_KEY\<close> has no variable; but the validator of the key
  \<open>CHAIN\<close> throws, so \<open>validateConfig\<close> reports nothing: it throws.
  The required key \<^verbatim>\<open>name\<close> has no variable; but the key \<^verbatim>\<open>__proto__\<close>
  before it has made a built-in function the prototype of the result, so the assignment of
  \<^verbatim>\<open>undefined\<close> under \<^verbatim>\<open>name\<close> throws a TypeError: \<open>createConfig\<close>
  does throw for that key.
\<close>

theorem validateConfig_ignores_strict_counterexample:
  "no_env ''toString'' = None
   \<and> required api_key_rule = Some True
   \<and> validateConfig sample_host no_env
         \<lparr>vars = [(''toString'', api_key_rule)], prefix = None, strict = Some False\<rparr>
       = Inr \<lparr>valid = True, errors = [], warnings = []\<rparr>
   \<and> strict chain_config = Some False
   \<and> chain_env ''API_KEY'' = None
   \<and> validateConfig sample_host chain_env chain_config = Inl (Error ''unknown network'')
   \<and> proto_env ''APP_name'' = None
   \<and> createConfig sample_host proto_env
         (proto_config\<lparr>vars := [(''__proto__'', proto_rule), (''name'', api_key_rule)]\<rparr>)
       = Inl TypeError"
  by (simp add: eval_defs Let_def)

text \<open>
  C5, amended. \<open>validateConfig\<close> does not read \<open>strict\<close>. Take a schema with
  \<open>strict\<close> set to false and a required key of it whose variable is set to the empty
  string, or is not set under a name that is none of the names inherited from
  \<^verbatim>\<open>Object.prototype\<close>.

  Whenever \<open>validateConfig\<close> returns, \<^verbatim>\<open>Missing required: <name>\<close> is in
  \<open>errors\<close> and \<open>valid\<close> is false; and it returns whenever every validator that it
  calls returns.

  The iteration of \<open>createConfig\<close> for this key is the assignment to
  \<^verbatim>\<open>result[key]\<close> of the default, or of \<^verbatim>\<open>undefined\<close> when there is none:
  it does not throw unless the assignment is refused.
\<close>

theorem validateConfig_ignores_strict:
  assumes "strict config = Some False" and "(key, vc) \<in> set (vars config)"
    and "required vc = Some True"
    and "env (env_prefix config @ key) = Some ''''
         \<or> (env (env_prefix config @ key) = None
              \<and> env_prefix config @ key \<notin> set object_prototype_names)"
  shows
    "(\<forall>R. validateConfig h env config = Inr R \<longrightarrow>
        ''Missing required: '' @ env_prefix config @ key \<in> set (errors R) \<and> \<not> valid R)
     \<and> ((\<forall>(k, c) \<in> set (vars config).
           \<forall>raw f. get_property env (env_prefix config @ k) = Some raw \<and> raw \<noteq> Value ''''
                    \<and> validator c = Some f \<longrightarrow> (\<exists>b. f raw = Inr b))
          \<longrightarrow> (\<exists>R. validateConfig h env config = Inr R))
     \<and> (\<forall>result. createConfig_body h env config (env_prefix config) key vc result
           = set_property result key
               (case default_value vc of Some d \<Rightarrow> of_scalar d | None \<Rightarrow> Undefined))
     \<and> (\<forall>result. \<not> refuses result key \<longrightarrow>
           createConfig_body h env config (env_prefix config) key vc result
             = Inr (assign is_object result key
                      (case default_value vc of Some d \<Rightarrow> of_scalar d | None \<Rightarrow> Undefined)))"
proof -
  have v: "''Missing required: '' @ env_prefix config @ key \<in> set (errors R) \<and> \<not> valid R"
    if R: "validateConfig h env config = Inr R" for R
  proof -
    from validateConfig_entry [OF R assms(2)] obtain new where
      new: "validateConfig_body h env (env_prefix config) key vc ([], []) = Inr new"
      and sub: "set (fst new) \<subseteq> set (errors R)"
      by blast
    from validateConfig_body_missing
      [where env = env and pfx = "env_prefix config" and key = key and h = h and vc = vc,
       OF assms(4)] new assms(3)
    have "fst new = [''Missing required: '' @ env_prefix config @ key]" by auto
    with sub have m: "''Missing required: '' @ env_prefix config @ key \<in> set (errors R)"
      by simp
    from validateConfig_not_valid [OF R m] m show ?thesis by simp
  qed
  have r: "\<exists>R. validateConfig h env config = Inr R"
    if "\<forall>(k, c) \<in> set (vars config).
           \<forall>raw f. get_property env (env_prefix config @ k) = Some raw \<and> raw \<noteq> Value ''''
                    \<and> validator c = Some f \<longrightarrow> (\<exists>b. f raw = Inr b)"
    using that by (rule validateConfig_returns)
  have c: "createConfig_body h env config (env_prefix config) key vc result
           = set_property result key
               (case default_value vc of Some d \<Rightarrow> of_scalar d | None \<Rightarrow> Undefined)"
    for result
    unfolding createConfig_body_missing
      [where env = env and pfx = "env_prefix config" and key = key and h = h
         and config = config and vc = vc and result = result, OF assms(4)]
    using assms(1) by (simp split: option.splits)
  have d: "createConfig_body h env config (env_prefix config) key vc result
             = Inr (assign is_object result key
                      (case default_value vc of Some d \<Rightarrow> of_scalar d | None \<Rightarrow> Undefined))"
    if "\<not> refuses result key" for result
    unfolding c using that by (simp add: set_property_def)
  show ?thesis
    apply (intro conjI impI allI)
    subgoal for R using v [of R] by simp
    subgoal for R using v [of R] by simp
    subgoal by (rule r)
    subgoal by (rule c)
    subgoal by (rule d)
    done
qed

text \<open>
  The documentation's schema with \<open>strict\<close> off and an empty \<open>APP_API_KEY\<close>: an error
  for \<open>validateConfig\<close>, the value \<^verbatim>\<open>undefined\<close> for \<open>createConfig\<close>.
\<close>

theorem validateConfig_ignores_strict_witness:
  "(\<exists>R. validateConfig sample_host bad_env lenient_config = Inr R
      \<and> ''Missing required: APP_API_KEY'' \<in> set (errors R) \<and> \<not> valid R)
   \<and> createConfig_body sample_host bad_env lenient_config ''APP_'' ''API_KEY'' api_key_rule
         empty_object
       = Inr \<lparr>props = [''API_KEY'' \<mapsto> Undefined], proto = None\<rparr>"
proof -
  have s: "strict lenient_config = Some False"
    and m: "(''API_KEY'', api_key_rule) \<in> set (vars lenient_config)"
    and r: "required api_key_rule = Some True"
    and e: "bad_env (env_prefix lenient_config @ ''API_KEY'') = Some ''''
            \<or> (bad_env (env_prefix lenient_config @ ''API_KEY'') = None
                \<and> env_prefix lenient_config @ ''API_KEY'' \<notin> set object_prototype_names)"
    by (simp_all add: lenient_config_def sample_config_def api_key_rule_def env_prefix_def
        bad_env_def)
  note t = validateConfig_ignores_strict
    [where config = lenient_config and key = "''API_KEY''" and vc = api_key_rule
       and env = bad_env and h = sample_host, OF s m r e]
  from t [THEN conjunct2, THEN conjunct1, THEN mp, OF lenient_validators_return]
  obtain R where R: "validateConfig sample_host bad_env lenient_config = Inr R"
    by (rule exE)
  from t [THEN conjunct1, THEN spec, THEN mp, OF R]
  have "''Missing required: APP_API_KEY'' \<in> set (errors R) \<and> \<not> valid R"
    unfolding sample_prefix by simp
  with R have "validateConfig sample_host bad_env lenient_config = Inr R
      \<and> ''Missing required: APP_API_KEY'' \<in> set (errors R) \<and> \<not> valid R"
    by (intro conjI) simp_all
  then have 1: "\<exists>R. validateConfig sample_host bad_env lenient_config = Inr R
      \<and> ''Missing required: APP_API_KEY'' \<in> set (errors R) \<and> \<not> valid R"
    by (rule exI [where x = R])
  have n: "\<not> refuses (empty_object :: json_other jsvalue js_object) ''API_KEY''"
    by (simp add: refuses_def empty_object_def)
  from t [THEN conjunct2, THEN conjunct2, THEN conjunct2, THEN spec, THEN mp, OF n]
  have 2: "createConfig_body sample_host bad_env lenient_config ''APP_'' ''API_KEY''
             api_key_rule empty_object
           = Inr \<lparr>props = [''API_KEY'' \<mapsto> Undefined], proto = None\<rparr>"
    unfolding sample_prefix by (simp add: api_key_rule_def assign_def empty_object_def)
  from 1 2 show ?thesis by (rule conjI)
qed

text \<open>
  C6, as stated, fails in four ways. Each rule has the type \<open>number\<close>, a transform, and
  a value that is no number.
  The validator of \<open>LEVEL\<close> returns false on \<open>medium\<close>: \<open>createConfig\<close> throws
  before it reaches the transform.
  The transform of \<open>RETRIES\<close> throws on \<open>abc\<close>: \<open>createConfig\<close> throws what the
  transform threw.
  The validator of the key \<open>CHAIN\<close>, next to \<open>TTL\<close>, throws:
  \<open>validateConfig\<close> adds no error and returns nothing, it throws.
  The key \<^verbatim>\<open>name\<close> comes after the key \<^verbatim>\<open>__proto__\<close> has made a built-in
  function the prototype of the result: the assignment of what the transform returns
  throws a TypeError.
\<close>

theorem validateConfig_checks_type_despite_transform_counterexample:
  "type level_rule = Some T_number \<and> transform level_rule = Some lower_case
   \<and> level_env ''LEVEL'' = Some ''medium'' \<and> isNaN (parseFloat sample_host ''medium'')
   \<and> createConfig sample_host level_env level_config
       = Inl (Error ''Invalid value for environment variable LEVEL'')
   \<and> type retries_rule = Some T_number \<and> transform retries_rule = Some strict_number
   \<and> retries_env ''RETRIES'' = Some ''abc'' \<and> isNaN (parseFloat sample_host ''abc'')
   \<and> createConfig sample_host retries_env retries_config = Inl (Error ''not a number'')
   \<and> type ttl_rule = Some T_number \<and> transform ttl_rule = Some lower_case
   \<and> isNaN (parseFloat sample_host ''Soon'')
   \<and> validateConfig sample_host [''TTL'' \<mapsto> ''Soon'', ''CHAIN'' \<mapsto> ''devnet'']
         \<lparr>vars = [(''TTL'', ttl_rule), (''CHAIN'', chain_rule)], prefix = None, strict = None\<rparr>
       = Inl (Error ''unknown network'')
   \<and> createConfig sample_host [''APP___proto__'' \<mapsto> ''x'', ''APP_name'' \<mapsto> ''Soon'']
         (proto_config\<lparr>vars := [(''__proto__'', proto_rule), (''name'', ttl_rule)]\<rparr>)
       = Inl TypeError"
  by (simp add: eval_defs Let_def)

text \<open>
  C6, amended. Take an entry whose rule has a transform and whose variable is set to a
  string that is not empty and that does not parse as the rule's type: the type is
  \<open>number\<close> and the string parses to NaN, or the type is \<open>json\<close> and the string
  does not parse.

  Whenever \<open>validateConfig\<close> returns, \<open>errors\<close> has
  \<^verbatim>\<open>Invalid number: <name>\<close> if the type is \<open>number\<close> and
  \<^verbatim>\<open>Invalid JSON: <name>\<close> if the type is \<open>json\<close>, and \<open>valid\<close> is false,
  whatever the rule's validator says; and it returns whenever every validator that it
  calls returns.

  If the rule has no validator, or its validator returns true on the string, and the
  transform returns a value on it, then the iteration of \<open>createConfig\<close> for this key
  is the assignment of that value to \<^verbatim>\<open>result[key]\<close>: the type is not looked at, and
  the iteration does not throw unless the assignment is refused.
\<close>

theorem validateConfig_checks_type_despite_transform:
  assumes "(key, vc) \<in> set (vars config)" and "transform vc = Some t"
    and "env (env_prefix config @ key) = Some raw" and "raw \<noteq> ''''"
    and "(type vc = Some T_number \<and> isNaN (parseFloat h raw))
         \<or> (type vc = Some T_json \<and> JSON_parse h raw = None)"
  shows
    "(\<forall>R. validateConfig h env config = Inr R \<longrightarrow>
        (type vc = Some T_number \<longrightarrow>
           ''Invalid number: '' @ env_prefix config @ key \<in> set (errors R))
        \<and> (type vc = Some T_json \<longrightarrow>
             ''Invalid JSON: '' @ env_prefix config @ key \<in> set (errors R))
        \<and> \<not> valid R)
     \<and> ((\<forall>(k, c) \<in> set (vars config).
           \<forall>raw f. get_property env (env_prefix config @ k) = Some raw \<and> raw \<noteq> Value ''''
                    \<and> validator c = Some f \<longrightarrow> (\<exists>b. f raw = Inr b))
          \<longrightarrow> (\<exists>R. validateConfig h env config = Inr R))
     \<and> (validator vc = None \<or> (\<exists>f. validator vc = Some f \<and> f (Value raw) = Inr True) \<longrightarrow>
          (\<forall>v. t (Value raw) = Inr v \<longrightarrow>
             (\<forall>result. createConfig_body h env config (env_prefix config) key vc result
                = set_property result key v)
             \<and> (\<forall>result. \<not> refuses result key \<longrightarrow>
                  createConfig_body h env config (env_prefix config) key vc result
                    = Inr (assign is_object result key v))))"
proof -
  have v: "(type vc = Some T_number \<longrightarrow>
           ''Invalid number: '' @ env_prefix config @ key \<in> set (errors R))
        \<and> (type vc = Some T_json \<longrightarrow>
             ''Invalid JSON: '' @ env_prefix config @ key \<in> set (errors R))
        \<and> \<not> valid R"
    if R: "validateConfig h env config = Inr R" for R
  proof -
    from validateConfig_entry [OF R assms(1)] obtain new where
      new: "validateConfig_body h env (env_prefix config) key vc ([], []) = Inr new"
      and sub: "set (fst new) \<subseteq> set (errors R)"
      by blast
    note b = validateConfig_body_present
      [where env = env and pfx = "env_prefix config" and key = key and h = h and vc = vc
         and raw = raw, OF assms(3,4)]
    from new [unfolded b] have
      n: "type vc = Some T_number \<and> isNaN (parseFloat h raw)
          \<Longrightarrow> ''Invalid number: '' @ env_prefix config @ key \<in> set (fst new)"
      and j: "type vc = Some T_json \<and> JSON_parse h raw = None
          \<Longrightarrow> ''Invalid JSON: '' @ env_prefix config @ key \<in> set (fst new)"
      by (auto split: sum.splits)
    from assms(5) n j sub have
      1: "type vc = Some T_number \<longrightarrow>
           ''Invalid number: '' @ env_prefix config @ key \<in> set (errors R)"
      and 2: "type vc = Some T_json \<longrightarrow>
           ''Invalid JSON: '' @ env_prefix config @ key \<in> set (errors R)"
      by auto
    from assms(5) 1 2 validateConfig_not_valid [OF R] have "\<not> valid R" by blast
    with 1 2 show ?thesis by simp
  qed
  have r: "\<exists>R. validateConfig h env config = Inr R"
    if "\<forall>(k, c) \<in> set (vars config).
           \<forall>raw f. get_property env (env_prefix config @ k) = Some raw \<and> raw \<noteq> Value ''''
                    \<and> validator c = Some f \<longrightarrow> (\<exists>b. f raw = Inr b)"
    using that by (rule validateConfig_returns)
  have c: "createConfig_body h env config (env_prefix config) key vc result
                = set_property result key v"
    if "validator vc = None \<or> (\<exists>f. validator vc = Some f \<and> f (Value raw) = Inr True)"
      "t (Value raw) = Inr v" for v result
  proof -
    from that(1) have ok: "(case validator vc of
        Some accepts \<Rightarrow> accepts (Value raw) | None \<Rightarrow> Inr True) = Inr True"
      by auto
    show ?thesis
      unfolding createConfig_body_present
        [where env = env and pfx = "env_prefix config" and key = key and h = h
           and config = config and vc = vc and result = result, OF assms(3,4)]
      using ok that(2) assms(2) by simp
  qed
  have d: "createConfig_body h env config (env_prefix config) key vc result
                = Inr (assign is_object result key v)"
    if "validator vc = None \<or> (\<exists>f. validator vc = Some f \<and> f (Value raw) = Inr True)"
      "t (Value raw) = Inr v" "\<not> refuses result key" for v result
    unfolding c [OF that(1,2)] using that(3) by (simp add: set_property_def)
  show ?thesis
    apply (intro conjI impI allI)
    subgoal for R using v [of R] by simp
    subgoal for R using v [of R] by simp
    subgoal for R using v [of R] by simp
    subgoal by (rule r)
    subgoal by (rule c)
    subgoal by (rule d)
    done
qed

text \<open>
  The value \<open>Soon\<close> of \<open>TTL\<close> is an error for \<open>validateConfig\<close> and the string
  \<open>soon\<close> for \<open>createConfig\<close>. The value \<open>medium\<close> of \<open>LEVEL\<close>, on which
  the validator returns false, is reported as no number all the same.
\<close>

theorem validateConfig_checks_type_despite_transform_witness:
  "(\<exists>R. validateConfig sample_host ttl_env ttl_config = Inr R
      \<and> ''Invalid number: TTL'' \<in> set (errors R) \<and> \<not> valid R)
   \<and> createConfig_body sample_host ttl_env ttl_config '''' ''TTL'' ttl_rule empty_object
       = Inr \<lparr>props = [''TTL'' \<mapsto> Str ''soon''], proto = None\<rparr>
   \<and> (\<exists>R. validateConfig sample_host level_env level_config = Inr R
        \<and> ''Invalid number: LEVEL'' \<in> set (errors R) \<and> \<not> valid R)"
proof -
  txt \<open>a rule without a validator\<close>
  have m: "(''TTL'', ttl_rule) \<in> set (vars ttl_config)"
    and f: "transform ttl_rule = Some lower_case"
    and e: "ttl_env (env_prefix ttl_config @ ''TTL'') = Some ''Soon''" "''Soon'' \<noteq> ''''"
    and n: "(type ttl_rule = Some T_number \<and> isNaN (parseFloat sample_host ''Soon''))
            \<or> (type ttl_rule = Some T_json \<and> JSON_parse sample_host ''Soon'' = None)"
    and a: "validator ttl_rule = None
            \<or> (\<exists>f. validator ttl_rule = Some f \<and> f (Value ''Soon'') = Inr True)"
    and ty: "type ttl_rule = Some T_number"
    and l: "lower_case (Value ''Soon'') = (Inr (Str ''soon'') :: error + json_other jsvalue)"
    by (simp_all add: ttl_config_def ttl_rule_def ttl_env_def env_prefix_def sample_host_def
        sample_parses sample_lower isNaN_def)
  note t = validateConfig_checks_type_despite_transform
    [where config = ttl_config and key = "''TTL''" and vc = ttl_rule and env = ttl_env
       and h = sample_host and raw = "''Soon''" and t = lower_case, OF m f e n]
  from t [THEN conjunct2, THEN conjunct1, THEN mp, OF ttl_validators_return]
  obtain R where R: "validateConfig sample_host ttl_env ttl_config = Inr R"
    by (rule exE)
  note v = t [THEN conjunct1, THEN spec, THEN mp, OF R]
  from v [THEN conjunct1, THEN mp, OF ty] v [THEN conjunct2, THEN conjunct2]
  have "''Invalid number: TTL'' \<in> set (errors R) \<and> \<not> valid R"
    unfolding sample_prefix by simp
  with R have "validateConfig sample_host ttl_env ttl_config = Inr R
      \<and> ''Invalid number: TTL'' \<in> set (errors R) \<and> \<not> valid R"
    by (intro conjI) simp_all
  then have 1: "\<exists>R. validateConfig sample_host ttl_env ttl_config = Inr R
      \<and> ''Invalid number: TTL'' \<in> set (errors R) \<and> \<not> valid R"
    by (rule exI [where x = R])
  have r: "\<not> refuses (empty_object :: json_other jsvalue js_object) ''TTL''"
    by (simp add: refuses_def empty_object_def)
  from t [THEN conjunct2, THEN conjunct2, THEN mp, OF a, THEN spec, THEN mp, OF l,
          THEN conjunct2, THEN spec, THEN mp, OF r]
  have 2: "createConfig_body sample_host ttl_env ttl_config '''' ''TTL'' ttl_rule empty_object
       = Inr \<lparr>props = [''TTL'' \<mapsto> Str ''soon''], proto = None\<rparr>"
    unfolding sample_prefix by (simp add: assign_def empty_object_def)
  txt \<open>a rule whose validator returns false\<close>
  have m: "(''LEVEL'', level_rule) \<in> set (vars level_config)"
    and f: "transform level_rule = Some lower_case"
    and e: "level_env (env_prefix level_config @ ''LEVEL'') = Some ''medium''"
      "''medium'' \<noteq> ''''"
    and n: "(type level_rule = Some T_number \<and> isNaN (parseFloat sample_host ''medium''))
            \<or> (type level_rule = Some T_json \<and> JSON_parse sample_host ''medium'' = None)"
    and ty: "type level_rule = Some T_number"
    by (simp_all add: level_config_def level_rule_def level_env_def env_prefix_def
        sample_host_def sample_parses isNaN_def)
  note u = validateConfig_checks_type_despite_transform
    [where config = level_config and key = "''LEVEL''" and vc = level_rule and env = level_env
       and h = sample_host and raw = "''medium''" and t = lower_case, OF m f e n]
  from u [THEN conjunct2, THEN conjunct1, THEN mp, OF level_validators_return]
  obtain L where L: "validateConfig sample_host level_env level_config = Inr L"
    by (rule exE)
  note w = u [THEN conjunct1, THEN spec, THEN mp, OF L]
  from w [THEN conjunct1, THEN mp, OF ty] w [THEN conjunct2, THEN conjunct2]
  have "''Invalid number: LEVEL'' \<in> set (errors L) \<and> \<not> valid L"
    unfolding sample_prefix by simp
  with L have "validateConfig sample_host level_env level_config = Inr L
      \<and> ''Invalid number: LEVEL'' \<in> set (errors L) \<and> \<not> valid L"
    by (intro conjI) simp_all
  then have 3: "\<exists>R. validateConfig sample_host level_env level_config = Inr R
      \<and> ''Invalid number: LEVEL'' \<in> set (errors R) \<and> \<not> valid R"
    by (rule exI [where x = L])
  from 1 2 3 show ?thesis by (intro conjI)
qed

section \<open>Properties of createRouteMapping\<close>

lemma price_or_zero_eq:
  "price_or_zero prices k =
     (case prices k of
        Some p \<Rightarrow> if p = NaN then Value (Num 0) else Value p
      | None \<Rightarrow> if k \<in> set object_prototype_names then Inherited k else Value (Num 0))"
  by (auto simp: price_or_zero_def get_property_def truthy_def split: option.splits)

lemma createRouteMapping_loop_append:
  "createRouteMapping_loop (xs @ ys) prices r
     = createRouteMapping_loop ys prices (createRouteMapping_loop xs prices r)"
  by (induction xs arbitrary: r) simp_all

lemma createRouteMapping_loop_other:
  "p \<notin> route_path ` set routes \<or> p = ''__proto__''
   \<Longrightarrow> props (createRouteMapping_loop routes prices r) p = props r p"
  by (induction routes arbitrary: r) (auto simp: props_assign)

lemma createRouteMapping_loop_proto:
  "''__proto__'' \<notin> route_path ` set routes
   \<Longrightarrow> proto (createRouteMapping_loop routes prices r) = proto r"
  by (induction routes arbitrary: r) (auto simp: proto_assign)

lemma createRouteMapping_last:
  assumes "routes = before @ route # after" and "route_path route \<notin> route_path ` set after"
    and "route_path route \<noteq> ''__proto__''"
  shows "props (createRouteMapping routes prices) (route_path route) =
     Some \<lparr>path = route_path route, price = price_or_zero prices (priceKey route),
           description = route_description route, rateLimit = None\<rparr>"
  using assms(2,3)
  by (simp add: createRouteMapping_def assms(1) createRouteMapping_loop_append
      createRouteMapping_loop_other props_assign)

lemma createRouteMapping_last_proto:
  assumes "routes = before @ route # after" and "''__proto__'' \<notin> route_path ` set after"
    and "route_path route = ''__proto__''"
  shows "proto (createRouteMapping routes prices) =
     Some \<lparr>path = ''__proto__'', price = price_or_zero prices (priceKey route),
           description = route_description route, rateLimit = None\<rparr>"
  using assms(2,3)
  by (simp add: createRouteMapping_def assms(1) createRouteMapping_loop_append
      createRouteMapping_loop_proto assign_def)

lemma createRouteMapping_path:
  "p \<in> route_path ` set routes \<Longrightarrow> p \<noteq> ''__proto__''
   \<Longrightarrow> \<exists>rc. props (createRouteMapping_loop routes prices r) p = Some rc \<and> path rc = p"
proof (induction routes arbitrary: r rule: rev_induct)
  case Nil
  then show ?case by simp
next
  case (snoc x xs)
  show ?case
  proof (cases "p = route_path x")
    case True
    with snoc.prems(2) show ?thesis
      by (simp add: createRouteMapping_loop_append props_assign)
  next
    case False
    with snoc.prems have "p \<in> route_path ` set xs" by auto
    from snoc.IH [OF this snoc.prems(2)] False show ?thesis
      by (simp add: createRouteMapping_loop_append props_assign)
  qed
qed

text \<open>
  C10, as stated, fails in four ways. Two routes with one path share one entry, built from
  the later route, so the earlier route's price key is not the one looked up. A price
  that is there but is NaN is falsy, so the entry's price is 0 and not that price. The key
  \<^verbatim>\<open>constructor\<close> is absent from the prices, but \<^verbatim>\<open>prices["constructor"]\<close>
  is the inherited function, which is truthy, so the entry's price is that function and
  not 0. And the route with the path \<^verbatim>\<open>__proto__\<close> has no entry: the assignment
  makes what would be its entry the prototype of the mapping.
\<close>

theorem createRouteMapping_counterexample:
  "createRouteMapping
     [\<lparr>route_path = ''/a'', priceKey = ''basic'', route_description = None\<rparr>,
      \<lparr>route_path = ''/a'', priceKey = ''premium'', route_description = None\<rparr>]
     [''basic'' \<mapsto> Num 1, ''premium'' \<mapsto> Num 2]
     = \<lparr>props = [''/a'' \<mapsto> \<lparr>path = ''/a'', price = Value (Num 2), description = None,
                             rateLimit = None\<rparr>],
        proto = None\<rparr>
   \<and> createRouteMapping
     [\<lparr>route_path = ''/n'', priceKey = ''x'', route_description = None\<rparr>]
     [''x'' \<mapsto> NaN]
     = \<lparr>props = [''/n'' \<mapsto> \<lparr>path = ''/n'', price = Value (Num 0), description = None,
                             rateLimit = None\<rparr>],
        proto = None\<rparr>
   \<and> createRouteMapping
     [\<lparr>route_path = ''/c'', priceKey = ''constructor'', route_description = None\<rparr>]
     Map.empty
     = \<lparr>props = [''/c'' \<mapsto> \<lparr>path = ''/c'', price = Inherited ''constructor'',
                             description = None, rateLimit = None\<rparr>],
        proto = None\<rparr>
   \<and> createRouteMapping
     [\<lparr>route_path = ''__proto__'', priceKey = ''basic'', route_description = None\<rparr>]
     [''basic'' \<mapsto> Num 1]
     = \<lparr>props = Map.empty,
        proto = Some \<lparr>path = ''__proto__'', price = Value (Num 1), description = None,
                      rateLimit = None\<rparr>\<rparr>"
  by (simp add: route_defs)

text \<open>
  C10, amended. Every route of the list whose path is not \<^verbatim>\<open>__proto__\<close> has an
  entry under its path, whose \<open>path\<close> is that path. The entry is built from the last
  route with that path (from the route itself when the paths are distinct): its price is
  the price under the route's key when that key is in the prices and its value is not NaN,
  0 when its value is NaN, and 0 when the key is not in the prices and is none of the names
  inherited from \<^verbatim>\<open>Object.prototype\<close>; its description is the route's.
  A path of no route has no entry, and there is never an entry under
  \<^verbatim>\<open>__proto__\<close>.
  The route \<open>/a\<close> with the key \<open>missing\<close> and no prices gives the single entry with
  price 0.

  The theorem also says what the code does in the two cases left out: a key that is not in
  the prices and is an inherited name gives the inherited value as the price, and what
  would be the entry of the last route with the path \<^verbatim>\<open>__proto__\<close> is the prototype
  of the mapping, which otherwise is the one of an empty object.
\<close>

theorem createRouteMapping_spec:
  "(\<forall>route \<in> set routes. route_path route \<noteq> ''__proto__'' \<longrightarrow>
      (\<exists>rc. props (createRouteMapping routes prices) (route_path route) = Some rc
            \<and> path rc = route_path route))
   \<and> (\<forall>before route after.
        routes = before @ route # after \<and> route_path route \<notin> route_path ` set after
        \<and> route_path route \<noteq> ''__proto__'' \<longrightarrow>
        props (createRouteMapping routes prices) (route_path route) =
          Some \<lparr>path = route_path route,
                price = (case prices (priceKey route) of
                           Some p \<Rightarrow> if p = NaN then Value (Num 0) else Value p
                         | None \<Rightarrow> if priceKey route \<in> set object_prototype_names
                                   then Inherited (priceKey route) else Value (Num 0)),
                description = route_description route, rateLimit = None\<rparr>)
   \<and> (distinct (map route_path routes) \<longrightarrow>
        (\<forall>route \<in> set routes. route_path route \<noteq> ''__proto__'' \<longrightarrow>
           props (createRouteMapping routes prices) (route_path route) =
             Some \<lparr>path = route_path route,
                   price = (case prices (priceKey route) of
                              Some p \<Rightarrow> if p = NaN then Value (Num 0) else Value p
                            | None \<Rightarrow> if priceKey route \<in> set object_prototype_names
                                      then Inherited (priceKey route) else Value (Num 0)),
                   description = route_description route, rateLimit = None\<rparr>))
   \<and> (\<forall>p. p \<notin> route_path ` set routes \<longrightarrow> props (createRouteMapping routes prices) p = None)
   \<and> props (createRouteMapping routes prices) ''__proto__'' = None
   \<and> (\<forall>before route after.
        routes = before @ route # after \<and> ''__proto__'' \<notin> route_path ` set after
        \<and> route_path route = ''__proto__'' \<longrightarrow>
        proto (createRouteMapping routes prices) =
          Some \<lparr>path = ''__proto__'',
                price = (case prices (priceKey route) of
                           Some p \<Rightarrow> if p = NaN then Value (Num 0) else Value p
                         | None \<Rightarrow> if priceKey route \<in> set object_prototype_names
                                   then Inherited (priceKey route) else Value (Num 0)),
                description = route_description route, rateLimit = None\<rparr>)
   \<and> (''__proto__'' \<notin> route_path ` set routes \<longrightarrow> proto (createRouteMapping routes prices) = None)
   \<and> createRouteMapping
         [\<lparr>route_path = ''/a'', priceKey = ''missing'', route_description = None\<rparr>] Map.empty
       = \<lparr>props = [''/a'' \<mapsto> \<lparr>path = ''/a'', price = Value (Num 0), description = None,
                               rateLimit = None\<rparr>],
          proto = None\<rparr>"
proof (intro conjI ballI allI impI)
  fix route assume "route \<in> set routes" "route_path route \<noteq> ''__proto__''"
  then have "route_path route \<in> route_path ` set routes" "route_path route \<noteq> ''__proto__''"
    by simp_all
  then show "\<exists>rc. props (createRouteMapping routes prices) (route_path route) = Some rc
                \<and> path rc = route_path route"
    unfolding createRouteMapping_def by (rule createRouteMapping_path)
next
  fix before route after
  assume "routes = before @ route # after \<and> route_path route \<notin> route_path ` set after
        \<and> route_path route \<noteq> ''__proto__''"
  then show "props (createRouteMapping routes prices) (route_path route) =
          Some \<lparr>path = route_path route,
                price = (case prices (priceKey route) of
                           Some p \<Rightarrow> if p = NaN then Value (Num 0) else Value p
                         | None \<Rightarrow> if priceKey route \<in> set object_prototype_names
                                   then Inherited (priceKey route) else Value (Num 0)),
                description = route_description route, rateLimit = None\<rparr>"
    using createRouteMapping_last [of routes before route after prices]
    by (simp add: price_or_zero_eq)
next
  fix route assume d: "distinct (map route_path routes)" and "route \<in> set routes"
    and n: "route_path route \<noteq> ''__proto__''"
  then obtain before after where s: "routes = before @ route # after"
    by (auto dest: split_list)
  with d have "route_path route \<notin> route_path ` set after" by auto
  from createRouteMapping_last [OF s this n, of prices]
  show "props (createRouteMapping routes prices) (route_path route) =
          Some \<lparr>path = route_path route,
                price = (case prices (priceKey route) of
                           Some p \<Rightarrow> if p = NaN then Value (Num 0) else Value p
                         | None \<Rightarrow> if priceKey route \<in> set object_prototype_names
                                   then Inherited (priceKey route) else Value (Num 0)),
                description = route_description route, rateLimit = None\<rparr>"
    by (simp add: price_or_zero_eq)
next
  fix p assume "p \<notin> route_path ` set routes"
  then show "props (createRouteMapping routes prices) p = None"
    by (simp add: createRouteMapping_def createRouteMapping_loop_other empty_object_def)
next
  show "props (createRouteMapping routes prices) ''__proto__'' = None"
    by (simp add: createRouteMapping_def createRouteMapping_loop_other empty_object_def)
next
  fix before route after
  assume "routes = before @ route # after \<and> ''__proto__'' \<notin> route_path ` set after
        \<and> route_path route = ''__proto__''"
  then show "proto (createRouteMapping routes prices) =
          Some \<lparr>path = ''__proto__'',
                price = (case prices (priceKey route) of
                           Some p \<Rightarrow> if p = NaN then Value (Num 0) else Value p
                         | None \<Rightarrow> if priceKey route \<in> set object_prototype_names
                                   then Inherited (priceKey route) else Value (Num 0)),
                description = route_description route, rateLimit = None\<rparr>"
    using createRouteMapping_last_proto [of routes before route after prices]
    by (simp add: price_or_zero_eq)
next
  assume "''__proto__'' \<notin> route_path ` set routes"
  then show "proto (createRouteMapping routes prices) = None"
    by (simp add: createRouteMapping_def createRouteMapping_loop_proto empty_object_def)
next
  show "createRouteMapping
         [\<lparr>route_path = ''/a'', priceKey = ''missing'', route_description = None\<rparr>] Map.empty
       = \<lparr>props = [''/a'' \<mapsto> \<lparr>path = ''/a'', price = Value (Num 0), description = None,
                               rateLimit = None\<rparr>],
          proto = None\<rparr>"
    by (simp add: createRouteMapping_def price_or_zero_def get_property_def
        object_prototype_names_def assign_def empty_object_def)
qed

text \<open>
  Two priced routes and one whose key has no price: the price found, the price 0, no
  entry for an unknown path, and the prototype left alone.
\<close>

theorem createRouteMapping_spec_witness:
  "props (createRouteMapping sample_routes sample_prices) ''/api/ai/generate''
     = Some \<lparr>path = ''/api/ai/generate'', price = Value (Num (3 / 20)),
             description = Some ''Generate images'', rateLimit = None\<rparr>
   \<and> props (createRouteMapping sample_routes sample_prices) ''/api/ai/legacy''
     = Some \<lparr>path = ''/api/ai/legacy'', price = Value (Num 0), description = None,
             rateLimit = None\<rparr>
   \<and> props (createRouteMapping sample_routes sample_prices) ''/api/ai/unknown'' = None
   \<and> proto (createRouteMapping sample_routes sample_prices) = None"
proof -
  note t = createRouteMapping_spec [where routes = sample_routes and prices = sample_prices]
  have d: "distinct (map route_path sample_routes)"
    and g: "\<lparr>route_path = ''/api/ai/generate'', priceKey = ''generate'',
              route_description = Some ''Generate images''\<rparr> \<in> set sample_routes"
    and l: "\<lparr>route_path = ''/api/ai/legacy'', priceKey = ''legacy'',
              route_description = None\<rparr> \<in> set sample_routes"
    and u: "''/api/ai/unknown'' \<notin> route_path ` set sample_routes"
    and p: "''__proto__'' \<notin> route_path ` set sample_routes"
    by (simp_all add: sample_routes_def)
  note each = t [THEN conjunct2, THEN conjunct2, THEN conjunct1, THEN mp, OF d, THEN bspec]
  have 1: "props (createRouteMapping sample_routes sample_prices) ''/api/ai/generate''
     = Some \<lparr>path = ''/api/ai/generate'', price = Value (Num (3 / 20)),
             description = Some ''Generate images'', rateLimit = None\<rparr>"
    using each [OF g] by (simp add: sample_prices_def)
  have 2: "props (createRouteMapping sample_routes sample_prices) ''/api/ai/legacy''
     = Some \<lparr>path = ''/api/ai/legacy'', price = Value (Num 0), description = None,
             rateLimit = None\<rparr>"
    using each [OF l] by (simp add: sample_prices_def object_prototype_names_def)
  note 3 = t [THEN conjunct2, THEN conjunct2, THEN conjunct2, THEN conjunct1, THEN spec,
              THEN mp, OF u]
  note 4 = t [THEN conjunct2, THEN conjunct2, THEN conjunct2, THEN conjunct2, THEN conjunct2,
              THEN conjunct2, THEN conjunct1, THEN mp, OF p]
  from 1 2 3 4 show ?thesis by (intro conjI)
qed

end
